theory Spec2Isabelle
  imports Complex_Main "HOL-Library.Sublist"
begin

section \<open>Python values and errors\<close>

text \<open>
  Every exception the modelled code can raise is a value of \<open>error\<close>; a function that
  can raise returns \<open>error + 'a\<close> with \<open>Inl\<close> for the exception.
\<close>

datatype error =
    AssertionError
  | KeyError
  | ZeroDivisionError
  | ValueError string
  | TypeError
  | NameError string
  | AttributeError
  | IndexError
  | MemGenError string
  | ConfigError string

text \<open>
  The value held by a constant node. Python integers are unbounded (\<open>PInt\<close>) and
  \<open>bool\<close> is a subclass of \<open>int\<close> (\<open>PBool\<close>, with \<open>True == 1\<close>). The constant
  folder of \<open>simplify_cir\<close> divides with Python's true division, whose result is a
  float: \<open>PFloat q\<close> stands for the float with exact value \<open>q\<close>. Rounding, overflow
  and signed zeros of IEEE doubles are left out of the model, so \<open>PFloat\<close> arithmetic is
  exact.
\<close>

datatype pynum = PBool bool | PInt int | PFloat rat

fun int_like :: "pynum \<Rightarrow> int option" where
  "int_like (PBool b) = Some (if b then 1 else 0)"
| "int_like (PInt i) = Some i"
| "int_like (PFloat q) = None"

fun to_rat :: "pynum \<Rightarrow> rat" where
  "to_rat (PBool b) = (if b then 1 else 0)"
| "to_rat (PInt i) = of_int i"
| "to_rat (PFloat q) = q"

text \<open>Python's \<open>v == n\<close> and \<open>v > n\<close> for an integer literal \<open>n\<close>: \<open>0.0 == 0\<close> is true.\<close>

definition py_eq_int :: "pynum \<Rightarrow> int \<Rightarrow> bool" where
  "py_eq_int v n = (to_rat v = of_int n)"

definition py_gt_int :: "pynum \<Rightarrow> int \<Rightarrow> bool" where
  "py_gt_int v n = (to_rat v > of_int n)"

definition py_neg :: "pynum \<Rightarrow> pynum" where
  "py_neg v = (case int_like v of Some i \<Rightarrow> PInt (- i) | None \<Rightarrow> PFloat (- to_rat v))"

definition py_add :: "pynum \<Rightarrow> pynum \<Rightarrow> pynum" where
  "py_add a b =
     (case (int_like a, int_like b) of
        (Some x, Some y) \<Rightarrow> PInt (x + y)
      | _ \<Rightarrow> PFloat (to_rat a + to_rat b))"

definition py_sub :: "pynum \<Rightarrow> pynum \<Rightarrow> pynum" where
  "py_sub a b =
     (case (int_like a, int_like b) of
        (Some x, Some y) \<Rightarrow> PInt (x - y)
      | _ \<Rightarrow> PFloat (to_rat a - to_rat b))"

definition py_mul :: "pynum \<Rightarrow> pynum \<Rightarrow> pynum" where
  "py_mul a b =
     (case (int_like a, int_like b) of
        (Some x, Some y) \<Rightarrow> PInt (x * y)
      | _ \<Rightarrow> PFloat (to_rat a * to_rat b))"

text \<open>\<open>x / y\<close>: true division, a float even for two integers.\<close>

definition py_truediv :: "pynum \<Rightarrow> pynum \<Rightarrow> error + pynum" where
  "py_truediv a b =
     (if to_rat b = 0 then Inl ZeroDivisionError
      else Inr (PFloat (to_rat a / to_rat b)))"

text \<open>\<open>x % y\<close>: the result takes the sign of the divisor, as Isabelle's \<open>mod\<close> does.\<close>

definition py_mod :: "pynum \<Rightarrow> pynum \<Rightarrow> error + pynum" where
  "py_mod a b =
     (if to_rat b = 0 then Inl ZeroDivisionError
      else case (int_like a, int_like b) of
             (Some x, Some y) \<Rightarrow> Inr (PInt (x mod y))
           | _ \<Rightarrow> Inr (PFloat (to_rat a - to_rat b * of_int \<lfloor>to_rat a / to_rat b\<rfloor>)))"

section \<open>Strings\<close>

text \<open>\<open>str(n)\<close> for a Python integer: decimal, no leading zeros, a minus sign if negative.\<close>

definition digit_char :: "nat \<Rightarrow> char" where
  "digit_char d = ''0123456789'' ! d"

function str_nat :: "nat \<Rightarrow> string" where
  "str_nat n = (if n < 10 then [digit_char n] else str_nat (n div 10) @ [digit_char (n mod 10)])"
  by pat_completeness auto
termination
  by (relation "measure id") auto

declare str_nat.simps [simp del]

definition str_int :: "int \<Rightarrow> string" where
  "str_int i = (if i < 0 then ''-'' @ str_nat (nat (- i)) else str_nat (nat i))"

definition is_digit :: "char \<Rightarrow> bool" where
  "is_digit c = (c \<in> set ''0123456789'')"

text \<open>\<open>int(d)\<close> for a non-empty string of ASCII digits (leading zeros allowed).\<close>

definition digit_val :: "char \<Rightarrow> nat" where
  "digit_val c = of_char c - 48"

definition nat_of_digits :: "string \<Rightarrow> nat" where
  "nat_of_digits d = foldl (\<lambda>acc c. 10 * acc + digit_val c) 0 d"

text \<open>\<open>sep.join(xs)\<close>\<close>

fun join :: "string \<Rightarrow> string list \<Rightarrow> string" where
  "join sep [] = []"
| "join sep [x] = x"
| "join sep (x # y # ys) = x @ sep @ join sep (y # ys)"

text \<open>\<open>s.upper()\<close> on ASCII text.\<close>

definition upper_char :: "char \<Rightarrow> char" where
  "upper_char c =
     (case List.find (\<lambda>(l, u). l = c) (zip ''abcdefghijklmnopqrstuvwxyz'' ''ABCDEFGHIJKLMNOPQRSTUVWXYZ'') of
        Some (l, u) \<Rightarrow> u
      | None \<Rightarrow> c)"

definition upper :: "string \<Rightarrow> string" where
  "upper s = map upper_char s"

section \<open>Symbols and operators\<close>

text \<open>
  Modelled from the spec: the class \<open>Sym\<close> of \<open>core/prelude.py\<close> is not among the
  sources. A symbol is an atomic identity with a printable name and a globally unique id;
  \<open>str(sym)\<close> is the printable name.
\<close>

datatype Sym = Sym (sym_name: string) (sym_id: nat)

definition str_Sym :: "Sym \<Rightarrow> string" where
  "str_Sym s = sym_name s"

datatype binop = Add | Sub | Mul | Div | Mod | And | Or | Lt | Gt | Le | Ge | Eq

text \<open>The table \<open>operations\<close>; a key that is absent raises \<open>KeyError\<close>.\<close>

fun operations :: "binop \<Rightarrow> (pynum \<Rightarrow> pynum \<Rightarrow> error + pynum) option" where
  "operations Add = Some (\<lambda>x y. Inr (py_add x y))"
| "operations Sub = Some (\<lambda>x y. Inr (py_sub x y))"
| "operations Mul = Some (\<lambda>x y. Inr (py_mul x y))"
| "operations Div = Some py_truediv"
| "operations Mod = Some py_mod"
| "operations _ = None"

section \<open>The index expressions of the C back end (CIR) and their simplifier\<close>

datatype cir =
    CIR_Read Sym bool
  | CIR_Const pynum
  | CIR_BinOp binop cir cir bool
  | CIR_Stride Sym nat
  | CIR_USub cir bool

fun is_CIR_Const :: "cir \<Rightarrow> bool" where
  "is_CIR_Const (CIR_Const _) = True"
| "is_CIR_Const _ = False"

text \<open>\<open>isinstance(e, CIR.Const) and e.val == n\<close>\<close>

fun const_is :: "cir \<Rightarrow> int \<Rightarrow> bool" where
  "const_is (CIR_Const v) n = py_eq_int v n"
| "const_is _ n = False"

text \<open>
  The \<open>CIR.BinOp\<close> branch of \<open>simplify_cir\<close> after both operands have been simplified.
  \<open>simplify_identities\<close> is the part after the constant fold: the tests of the source
  run in order, and \<open>0 - x\<close> (\<open>pass\<close>) falls through to the next test.
\<close>

definition simplify_identities :: "binop \<Rightarrow> cir \<Rightarrow> cir \<Rightarrow> bool \<Rightarrow> error + cir" where
  "simplify_identities op lhs rhs nn =
     (let ones =
            (if const_is lhs 1 \<and> op = Mul then Inr rhs
             else if const_is rhs 1 \<and> (op = Mul \<or> op = Div) then Inr lhs
             else Inr (CIR_BinOp op lhs rhs nn));
          rhs_zero =
            (if const_is rhs 0 then
               (if op = Add \<or> op = Sub then Inr lhs
                else if op = Mul then Inr (CIR_Const (PInt 0))
                else Inl AssertionError)
             else ones)
      in if const_is lhs 0 then
           (if op = Add then Inr rhs
            else if op = Mul \<or> op = Div then Inr (CIR_Const (PInt 0))
            else if op = Sub then rhs_zero
            else Inl AssertionError)
         else rhs_zero)"

fun simplify_BinOp :: "binop \<Rightarrow> cir \<Rightarrow> cir \<Rightarrow> bool \<Rightarrow> error + cir" where
  "simplify_BinOp op (CIR_Const a) (CIR_Const b) nn =
     (case operations op of
        None \<Rightarrow> Inl KeyError
      | Some f \<Rightarrow> (case f a b of Inl err \<Rightarrow> Inl err | Inr v \<Rightarrow> Inr (CIR_Const v)))"
| "simplify_BinOp op lhs rhs nn = simplify_identities op lhs rhs nn"

definition simplify_USub :: "cir \<Rightarrow> bool \<Rightarrow> cir" where
  "simplify_USub arg nn =
     (case arg of
        CIR_USub a _ \<Rightarrow> a
      | CIR_Const v \<Rightarrow> CIR_Const (py_neg v)
      | _ \<Rightarrow> CIR_USub arg nn)"

fun simplify_cir :: "cir \<Rightarrow> error + cir" where
  "simplify_cir (CIR_Read n nn) = Inr (CIR_Read n nn)"
| "simplify_cir (CIR_Const v) = Inr (CIR_Const v)"
| "simplify_cir (CIR_Stride n d) = Inr (CIR_Stride n d)"
| "simplify_cir (CIR_BinOp op lhs rhs nn) =
     (case simplify_cir lhs of
        Inl err \<Rightarrow> Inl err
      | Inr l \<Rightarrow>
          (case simplify_cir rhs of
             Inl err \<Rightarrow> Inl err
           | Inr r \<Rightarrow> simplify_BinOp op l r nn))"
| "simplify_cir (CIR_USub arg nn) =
     (case simplify_cir arg of
        Inl err \<Rightarrow> Inl err
      | Inr a \<Rightarrow> Inr (simplify_USub a nn))"

text \<open>\<open>simplify_cir(simplify_cir(e))\<close>: the inner call's exception, if any, propagates.\<close>

definition simplify_twice :: "cir \<Rightarrow> error + cir" where
  "simplify_twice e = (case simplify_cir e of Inl err \<Rightarrow> Inl err | Inr e' \<Rightarrow> simplify_cir e')"

section \<open>The emitted floored-division helper\<close>

text \<open>C's \<open>/\<close> on integers truncates towards zero.\<close>

definition c_div :: "int \<Rightarrow> int \<Rightarrow> int" where
  "c_div a b = sgn a * sgn b * (\<bar>a\<bar> div \<bar>b\<bar>)"

text \<open>
  The text of \<open>_static_helpers["exo_floor_div"]\<close> is C. The fragment of C it is written
  in: variables, literals, \<open>-\<close>, \<open>/\<close>, \<open>>=\<close> and \<open>? :\<close> on \<open>int\<close>, in a function with
  \<open>int\<close> parameters, one initialised \<open>int\<close> local and a \<open>return\<close>.
\<close>

datatype c_expr =
    C_Var string
  | C_Num int
  | C_Sub c_expr c_expr
  | C_Div c_expr c_expr
  | C_Ge c_expr c_expr
  | C_Cond c_expr c_expr c_expr

record c_function =
  cf_name :: string
  cf_params :: "string list"
  cf_local :: "string \<times> c_expr"
  cf_return :: c_expr

text \<open>
  An \<open>int\<close> of \<open>bits\<close> bits. A subtraction that leaves the range is undefined in C
  (\<open>None\<close>); with \<open>wrap\<close> it wraps around in two's complement, which is what the usual
  targets compute. A division by zero, or one whose quotient leaves the range, has no
  value in either reading.
\<close>

definition c_int_ok :: "nat \<Rightarrow> int \<Rightarrow> bool" where
  "c_int_ok bits v = (- (2 ^ (bits - 1)) \<le> v \<and> v < 2 ^ (bits - 1))"

definition c_wrap :: "nat \<Rightarrow> int \<Rightarrow> int" where
  "c_wrap bits v = (v + 2 ^ (bits - 1)) mod 2 ^ bits - 2 ^ (bits - 1)"

definition c_fit :: "nat \<Rightarrow> bool \<Rightarrow> int \<Rightarrow> int option" where
  "c_fit bits wrap v = (if c_int_ok bits v then Some v else if wrap then Some (c_wrap bits v) else None)"

fun c_eval :: "nat \<Rightarrow> bool \<Rightarrow> (string \<rightharpoonup> int) \<Rightarrow> c_expr \<Rightarrow> int option" where
  "c_eval bits wrap env (C_Var x) = env x"
| "c_eval bits wrap env (C_Num i) = (if c_int_ok bits i then Some i else None)"
| "c_eval bits wrap env (C_Sub a b) =
     (case c_eval bits wrap env a of
        None \<Rightarrow> None
      | Some x \<Rightarrow> (case c_eval bits wrap env b of None \<Rightarrow> None | Some y \<Rightarrow> c_fit bits wrap (x - y)))"
| "c_eval bits wrap env (C_Div a b) =
     (case c_eval bits wrap env a of
        None \<Rightarrow> None
      | Some x \<Rightarrow>
          (case c_eval bits wrap env b of
             None \<Rightarrow> None
           | Some y \<Rightarrow> if y = 0 \<or> \<not> c_int_ok bits (c_div x y) then None else Some (c_div x y)))"
| "c_eval bits wrap env (C_Ge a b) =
     (case c_eval bits wrap env a of
        None \<Rightarrow> None
      | Some x \<Rightarrow> (case c_eval bits wrap env b of None \<Rightarrow> None | Some y \<Rightarrow> Some (if x \<ge> y then 1 else 0)))"
| "c_eval bits wrap env (C_Cond c a b) =
     (case c_eval bits wrap env c of
        None \<Rightarrow> None
      | Some v \<Rightarrow> if v \<noteq> 0 then c_eval bits wrap env a else c_eval bits wrap env b)"

definition c_call :: "nat \<Rightarrow> bool \<Rightarrow> c_function \<Rightarrow> int list \<Rightarrow> int option" where
  "c_call bits wrap f args =
     (if length args \<noteq> length (cf_params f) \<or> \<not> list_all (c_int_ok bits) args then None
      else let env = map_of (zip (cf_params f) args)
           in case c_eval bits wrap env (snd (cf_local f)) of
                None \<Rightarrow> None
              | Some v \<Rightarrow> c_eval bits wrap (env(fst (cf_local f) \<mapsto> v)) (cf_return f))"

text \<open>The text of an expression and of a function, laid out as the helper is.\<close>

fun c_show :: "c_expr \<Rightarrow> string" where
  "c_show (C_Var x) = x"
| "c_show (C_Num i) = str_int i"
| "c_show (C_Sub a b) = c_show a @ ''-'' @ c_show b"
| "c_show (C_Div a b) = ''('' @ c_show a @ '')/'' @ c_show b"
| "c_show (C_Ge a b) = c_show a @ ''>='' @ c_show b"
| "c_show (C_Cond c a b) = ''('' @ c_show c @ '')? '' @ c_show a @ '' : '' @ c_show b"

definition c_function_text :: "c_function \<Rightarrow> string" where
  "c_function_text f =
     ''\<newline>static int '' @ cf_name f @ ''('' @ join '', '' (map (\<lambda>p. ''int '' @ p) (cf_params f)) @
     '') {\<newline>'' @
     ''  int '' @ fst (cf_local f) @ '' = '' @ c_show (snd (cf_local f)) @ '';\<newline>'' @
     ''  return '' @ c_show (cf_return f) @ '';\<newline>'' @
     ''}\<newline>''"

text \<open>
  The helper, parsed:
  \<^verbatim>\<open>int off = (num>=0)? 0 : quot-1; return (num-off)/quot;\<close>
\<close>

definition exo_floor_div_fn :: c_function where
  "exo_floor_div_fn =
     \<lparr> cf_name = ''exo_floor_div'',
       cf_params = [''num'', ''quot''],
       cf_local = (''off'', C_Cond (C_Ge (C_Var ''num'') (C_Num 0)) (C_Num 0)
                                  (C_Sub (C_Var ''quot'') (C_Num 1))),
       cf_return = C_Div (C_Sub (C_Var ''num'') (C_Var ''off'')) (C_Var ''quot'') \<rparr>"

definition exo_floor_div_c :: "nat \<Rightarrow> bool \<Rightarrow> int \<Rightarrow> int \<Rightarrow> int option" where
  "exo_floor_div_c bits wrap num quot = c_call bits wrap exo_floor_div_fn [num, quot]"

text \<open>The text as the source has it.\<close>

definition exo_floor_div_text :: string where
  "exo_floor_div_text =
     ''\<newline>static int exo_floor_div(int num, int quot) {\<newline>'' @
     ''  int off = (num>=0)? 0 : quot-1;\<newline>'' @
     ''  return (num-off)/quot;\<newline>'' @
     ''}\<newline>''"

definition static_helpers :: "string \<rightharpoonup> string" where
  "static_helpers = [''exo_floor_div'' \<mapsto> exo_floor_div_text]"

text \<open>A Python \<open>set\<close> of strings, kept as a list without repetitions; \<open>set_add\<close> is \<open>s.add(x)\<close>.\<close>

definition set_add :: "'a \<Rightarrow> 'a list \<Rightarrow> 'a list" where
  "set_add x xs = (if x \<in> set xs then xs else xs @ [x])"

definition set_union :: "'a list \<Rightarrow> 'a list \<Rightarrow> 'a list" where
  "set_union xs ys = foldl (\<lambda>acc y. set_add y acc) xs ys"

text \<open>\<open>Compiler._call_static_helper\<close>: records the helper and returns the call text.\<close>

definition call_static_helper :: "string \<Rightarrow> string list \<Rightarrow> string list \<Rightarrow> string \<times> string list" where
  "call_static_helper helper args hs = (helper @ ''('' @ join '', '' args @ '')'', set_add helper hs)"

text \<open>
  In \<open>ext_compile_to_strings\<close>: the helper sets of the compiled procedures are united
  (\<open>needed_helpers |= comp.needed_helpers()\<close>) and \<open>helper_code\<close> lists the text of each
  member once.
\<close>

definition unit_needed_helpers :: "string list list \<Rightarrow> string list" where
  "unit_needed_helpers per_proc = foldl set_union [] per_proc"

fun helper_code :: "string list \<Rightarrow> error + string list" where
  "helper_code [] = Inr []"
| "helper_code (v # vs) =
     (case static_helpers v of
        None \<Rightarrow> Inl KeyError
      | Some txt \<Rightarrow> (case helper_code vs of Inl err \<Rightarrow> Inl err | Inr rest \<Rightarrow> Inr (txt # rest)))"

section \<open>Compiling CIR to C text\<close>

fun op_prec :: "binop \<Rightarrow> nat" where
  "op_prec Or = 10"
| "op_prec And = 20"
| "op_prec Eq = 30"
| "op_prec Lt = 40"
| "op_prec Gt = 40"
| "op_prec Le = 40"
| "op_prec Ge = 40"
| "op_prec Add = 50"
| "op_prec Sub = 50"
| "op_prec Mul = 60"
| "op_prec Div = 60"
| "op_prec Mod = 60"

text \<open>\<open>op_prec["~"]\<close>, the unary minus.\<close>

definition prec_usub :: nat where
  "prec_usub = 70"

fun op_str :: "binop \<Rightarrow> string" where
  "op_str Add = ''+''"
| "op_str Sub = ''-''"
| "op_str Mul = ''*''"
| "op_str Div = ''/''"
| "op_str Mod = ''%''"
| "op_str And = ''and''"
| "op_str Or = ''or''"
| "op_str Lt = ''<''"
| "op_str Gt = ''>''"
| "op_str Le = ''<=''"
| "op_str Ge = ''>=''"
| "op_str Eq = ''==''"

text \<open>
  \<open>str(v)\<close> of a constant. Python's \<open>repr\<close> of a float is not modelled: it is the
  parameter \<open>sf\<close>.
\<close>

fun str_pynum :: "(rat \<Rightarrow> string) \<Rightarrow> pynum \<Rightarrow> string" where
  "str_pynum sf (PBool b) = (if b then ''True'' else ''False'')"
| "str_pynum sf (PInt i) = str_int i"
| "str_pynum sf (PFloat q) = sf q"

fun is_CIR_BinOp :: "cir \<Rightarrow> bool" where
  "is_CIR_BinOp (CIR_BinOp _ _ _ _) = True"
| "is_CIR_BinOp _ = False"

text \<open>
  The test of \<open>comp_cir\<close> that chooses C's own division:
  \<^verbatim>\<open>(isinstance(e.lhs, (CIR.Read, CIR.BinOp)) and e.lhs.is_non_neg) or
  (isinstance(e.lhs, CIR.Const) and e.lhs.val > 0)\<close>
\<close>

fun native_div :: "cir \<Rightarrow> bool" where
  "native_div (CIR_Read _ nn) = nn"
| "native_div (CIR_BinOp _ _ _ nn) = nn"
| "native_div (CIR_Const v) = py_gt_int v 0"
| "native_div _ = False"

text \<open>
  \<open>Compiler.comp_cir(e, env, prec)\<close>. The set \<open>self._needed_helpers\<close> is threaded through
  as \<open>hs\<close>; \<open>env\<close> is the look-up of the name environment.
\<close>

fun comp_cir :: "(rat \<Rightarrow> string) \<Rightarrow> (Sym \<rightharpoonup> string) \<Rightarrow> cir \<Rightarrow> nat \<Rightarrow> string list
    \<Rightarrow> error + (string \<times> string list)" where
  "comp_cir sf env (CIR_Read n nn) prec hs =
     (case env n of None \<Rightarrow> Inl KeyError | Some s \<Rightarrow> Inr (s, hs))"
| "comp_cir sf env (CIR_Const v) prec hs = Inr (str_pynum sf v, hs)"
| "comp_cir sf env (CIR_BinOp op lhs rhs nn) prec hs =
     (case comp_cir sf env lhs (op_prec op) hs of
        Inl err \<Rightarrow> Inl err
      | Inr (l, hs1) \<Rightarrow>
          (case comp_cir sf env rhs (op_prec op) hs1 of
             Inl err \<Rightarrow> Inl err
           | Inr (r0, hs2) \<Rightarrow>
               (let r = (if is_CIR_BinOp rhs \<and> (op = Sub \<or> op = Div)
                         then ''('' @ r0 @ '')'' else r0)
                in if op = Div then
                     (if native_div lhs then Inr (''('' @ l @ '' / '' @ r @ '')'', hs2)
                      else Inr (call_static_helper ''exo_floor_div'' [l, r] hs2))
                   else
                     (let s = l @ '' '' @ op_str op @ '' '' @ r
                      in Inr (if op_prec op < prec then ''('' @ s @ '')'' else s, hs2)))))"
| "comp_cir sf env (CIR_Stride n d) prec hs =
     Inr (str_Sym n @ ''.strides['' @ str_nat d @ '']'', hs)"
| "comp_cir sf env (CIR_USub arg nn) prec hs =
     (case comp_cir sf env arg prec_usub hs of
        Inl err \<Rightarrow> Inl err
      | Inr (s, hs1) \<Rightarrow> Inr (''-'' @ s, hs1))"

text \<open>
  Whether compiling \<open>e\<close> reaches a division that is sent to the helper: a division
  node whose dividend fails the test above.
\<close>

fun calls_helper :: "cir \<Rightarrow> bool" where
  "calls_helper (CIR_BinOp op lhs rhs nn) =
     (calls_helper lhs \<or> calls_helper rhs \<or> (op = Div \<and> \<not> native_div lhs))"
| "calls_helper (CIR_USub arg nn) = calls_helper arg"
| "calls_helper _ = False"

section \<open>The integer denoted by an index expression\<close>

text \<open>
  The value of a CIR expression under an assignment \<open>\<rho>\<close> of integers to variables and
  \<open>\<sigma>\<close> to window strides. \<open>/\<close> is floored division and \<open>%\<close> its remainder, as the
  emitted code computes them; a division by zero, an operator that is not arithmetic and
  a constant that is not an integer denote nothing.
\<close>

fun int_binop :: "binop \<Rightarrow> int \<Rightarrow> int \<Rightarrow> int option" where
  "int_binop Add a b = Some (a + b)"
| "int_binop Sub a b = Some (a - b)"
| "int_binop Mul a b = Some (a * b)"
| "int_binop Div a b = (if b = 0 then None else Some (a div b))"
| "int_binop Mod a b = (if b = 0 then None else Some (a mod b))"
| "int_binop _ a b = None"

fun cir_eval :: "(Sym \<Rightarrow> int) \<Rightarrow> (Sym \<Rightarrow> nat \<Rightarrow> int) \<Rightarrow> cir \<Rightarrow> int option" where
  "cir_eval \<rho> \<sigma> (CIR_Read n nn) = Some (\<rho> n)"
| "cir_eval \<rho> \<sigma> (CIR_Const v) = int_like v"
| "cir_eval \<rho> \<sigma> (CIR_Stride n d) = Some (\<sigma> n d)"
| "cir_eval \<rho> \<sigma> (CIR_USub arg nn) = map_option uminus (cir_eval \<rho> \<sigma> arg)"
| "cir_eval \<rho> \<sigma> (CIR_BinOp op lhs rhs nn) =
     (case (cir_eval \<rho> \<sigma> lhs, cir_eval \<rho> \<sigma> rhs) of
        (Some a, Some b) \<Rightarrow> int_binop op a b
      | _ \<Rightarrow> None)"

section \<open>The loop IR\<close>

text \<open>
  Modelled from the spec: \<open>core/LoopIR.py\<close> (the node and type declarations, their
  methods \<open>is_indexable\<close>, \<open>is_numeric\<close>, \<open>is_real_scalar\<close>, \<open>is_win\<close>,
  \<open>is_tensor_or_window\<close>, \<open>basetype\<close>, \<open>shape\<close>) is not among the sources. The
  constructors follow section 3 of the spec and the fields the back end reads. Scalars
  are \<open>R\<close> and the seven machine precisions; the index classes size, index, stride and
  bool are collectively indexable; a tensor has a base scalar, a shape and a flag telling
  whether it is a window argument; \<open>T_Window\<close> is the type of a window expression: the
  tensor type it denotes and the buffer it views.

  A memory is a Python class; \<open>mem_ref\<close> is the identity of that class. \<open>DRAM\<close> and
  \<open>CudaRmem\<close> are the two classes the back end names. A procedure is an object;
  \<open>proc_ref\<close> is its identity, and a call holds the identity of its callee. An
  extern is an object as well (\<open>extern_ref\<close>).
\<close>

datatype mem_ref = DRAM | CudaRmem | MemClass nat

type_synonym proc_ref = nat

type_synonym extern_ref = nat

record extern =
  extern_name :: string
  extern_compile :: "string list \<Rightarrow> string \<Rightarrow> string"

record config =
  config_name :: string
  is_allow_rw :: bool

datatype expr =
    IR_Read Sym "expr list" ty
  | IR_Const pynum ty
  | IR_USub expr ty
  | IR_BinOp binop expr expr ty
  | IR_Extern extern_ref "expr list" ty
  | IR_WindowExpr Sym "w_access list" ty
  | IR_StrideExpr Sym nat ty
  | IR_ReadConfig config string ty
and w_access =
    Interval expr expr
  | Point expr
and ty =
    T_R | T_f16 | T_f32 | T_f64 | T_i8 | T_ui8 | T_ui16 | T_i32
  | T_bool | T_index | T_size | T_stride
  | T_with_context | T_Barrier
  | T_Tensor ty "expr list" bool
  | T_Window ty Sym

fun type_of :: "expr \<Rightarrow> ty" where
  "type_of (IR_Read n idx t) = t"
| "type_of (IR_Const v t) = t"
| "type_of (IR_USub e t) = t"
| "type_of (IR_BinOp op l r t) = t"
| "type_of (IR_Extern f args t) = t"
| "type_of (IR_WindowExpr n idx t) = t"
| "type_of (IR_StrideExpr n d t) = t"
| "type_of (IR_ReadConfig c f t) = t"

fun is_real_scalar :: "ty \<Rightarrow> bool" where
  "is_real_scalar T_R = True"
| "is_real_scalar T_f16 = True"
| "is_real_scalar T_f32 = True"
| "is_real_scalar T_f64 = True"
| "is_real_scalar T_i8 = True"
| "is_real_scalar T_ui8 = True"
| "is_real_scalar T_ui16 = True"
| "is_real_scalar T_i32 = True"
| "is_real_scalar _ = False"

fun is_tensor_or_window :: "ty \<Rightarrow> bool" where
  "is_tensor_or_window (T_Tensor b sh w) = True"
| "is_tensor_or_window (T_Window t src) = True"
| "is_tensor_or_window _ = False"

definition is_numeric :: "ty \<Rightarrow> bool" where
  "is_numeric t = (is_real_scalar t \<or> is_tensor_or_window t)"

fun is_indexable :: "ty \<Rightarrow> bool" where
  "is_indexable T_size = True"
| "is_indexable T_index = True"
| "is_indexable T_stride = True"
| "is_indexable T_bool = True"
| "is_indexable _ = False"

fun is_win :: "ty \<Rightarrow> bool" where
  "is_win (T_Tensor b sh w) = w"
| "is_win (T_Window t src) = True"
| "is_win _ = False"

fun shape :: "ty \<Rightarrow> expr list" where
  "shape (T_Tensor b sh w) = sh"
| "shape (T_Window (T_Tensor b sh w) src) = sh"
| "shape _ = []"

fun basetype :: "ty \<Rightarrow> ty" where
  "basetype (T_Tensor b sh w) = b"
| "basetype (T_Window (T_Tensor b sh w) src) = b"
| "basetype t = t"

datatype loop_mode = LM_Seq | LM_Par | LM_Other

datatype stmt =
    S_Assign Sym ty "expr list" expr
  | S_Reduce Sym ty "expr list" expr
  | S_WriteConfig config string expr
  | S_Pass
  | S_If expr "stmt list" "stmt list"
  | S_For Sym expr expr loop_mode "stmt list"
  | S_Alloc Sym ty "mem_ref option"
  | S_Free Sym ty "mem_ref option"
  | S_Call proc_ref "expr list"
  | S_WindowStmt Sym expr
  | S_SyncStmt "string option"

record fnarg =
  fnarg_name :: Sym
  fnarg_type :: ty
  fnarg_mem :: "mem_ref option"

record instr =
  c_instr :: string
  c_global :: string

record proc =
  proc_name :: string
  proc_args :: "fnarg list"
  proc_body :: "stmt list"
  proc_instr :: "instr option"

section \<open>The capabilities the host plugs in\<close>

text \<open>
  Modelled from the spec: \<open>core/memory.py\<close> is not among the sources. Section 6 of the
  spec lists what a memory kind declares: its name, \<open>can_read\<close> and \<open>can_write\<close>, the
  hooks \<open>read\<close>, \<open>write\<close> and \<open>reduce\<close> (statement, left-hand text, right-hand text) and
  \<open>window\<close> (type, base, offsets, strides); it may declare itself static
  (\<open>issubclass(mem, StaticMemory)\<close>). Source positions are not modelled.
\<close>

record memory =
  mem_name :: string
  is_static :: bool
  can_read :: bool
  can_write :: bool
  read_hook :: "expr \<Rightarrow> string \<Rightarrow> string \<Rightarrow> string"
  write_hook :: "stmt \<Rightarrow> string \<Rightarrow> string \<Rightarrow> string"
  reduce_hook :: "stmt \<Rightarrow> string \<Rightarrow> string \<Rightarrow> string"
  window_hook :: "ty \<Rightarrow> string \<Rightarrow> string list \<Rightarrow> string list \<Rightarrow> string"

text \<open>
  What the back end takes from code that is not among the sources, as parameters:
  the memory classes, the procedure and extern objects, the answer of the range environment to
  \<open>check_expr_bound(0, leq, e)\<close> in the scope being compiled, the C name of a scalar
  type (\<open>ctype()\<close>), and Python's text for a float.
\<close>

record world =
  memory_of :: "mem_ref \<Rightarrow> memory"
  proc_of :: "proc_ref \<Rightarrow> proc"
  extern_of :: "extern_ref \<Rightarrow> extern"
  check_non_neg :: "expr \<Rightarrow> bool"
  ctype :: "ty \<Rightarrow> string"
  str_float :: "rat \<Rightarrow> string"

section \<open>Scoped dictionaries\<close>

text \<open>
  \<open>collections.ChainMap\<close>: a list of dictionaries, the innermost first. A look-up
  searches them in order; an assignment writes the innermost.
\<close>

type_synonym ('k, 'v) ChainMap = "('k \<rightharpoonup> 'v) list"

fun chain_lookup :: "('k, 'v) ChainMap \<Rightarrow> 'k \<Rightarrow> 'v option" where
  "chain_lookup [] k = None"
| "chain_lookup (m # ms) k = (case m k of Some v \<Rightarrow> Some v | None \<Rightarrow> chain_lookup ms k)"

definition chain_mem :: "'k \<Rightarrow> ('k, 'v) ChainMap \<Rightarrow> bool" where
  "chain_mem k cm = (chain_lookup cm k \<noteq> None)"

fun chain_set :: "('k, 'v) ChainMap \<Rightarrow> 'k \<Rightarrow> 'v \<Rightarrow> ('k, 'v) ChainMap" where
  "chain_set [] k v = [[k \<mapsto> v]]"
| "chain_set (m # ms) k v = m(k \<mapsto> v) # ms"

definition new_child :: "('k, 'v) ChainMap \<Rightarrow> ('k, 'v) ChainMap" where
  "new_child cm = Map.empty # cm"

definition parents :: "('k, 'v) ChainMap \<Rightarrow> ('k, 'v) ChainMap" where
  "parents cm = (case cm of m # m' # ms \<Rightarrow> m' # ms | _ \<Rightarrow> [Map.empty])"

section \<open>Window structs\<close>

record WindowStruct =
  ws_name :: string
  ws_definition :: string

text \<open>\<open>_window_struct(typename, ctype, n_dims, is_const)\<close>\<close>

definition window_struct_cached :: "string \<Rightarrow> string \<Rightarrow> nat \<Rightarrow> bool \<Rightarrow> WindowStruct" where
  "window_struct_cached typename ctyp n_dims is_const =
     (let const_kwd = (if is_const then ''const '' else []);
          const_suffix = (if is_const then ''c'' else []);
          sname = ''exo_win_'' @ str_nat n_dims @ typename @ const_suffix;
          sdef = ''struct '' @ sname @ ''{\<newline>'' @
                 ''    '' @ const_kwd @ ctyp @ '' * const data;\<newline>'' @
                 ''    const int_fast32_t strides['' @ str_nat n_dims @ ''];\<newline>'' @
                 ''};'';
          sdef_guard = upper sname
      in \<lparr> ws_name = sname,
           ws_definition = ''#ifndef '' @ sdef_guard @ ''\<newline>#define '' @ sdef_guard @
                           ''\<newline>'' @ sdef @ ''\<newline>#endif'' \<rparr>)"

text \<open>The table \<open>_window_struct_shorthand\<close>.\<close>

fun window_struct_shorthand :: "ty \<Rightarrow> string option" where
  "window_struct_shorthand T_f16 = Some ''f16''"
| "window_struct_shorthand T_f32 = Some ''f32''"
| "window_struct_shorthand T_f64 = Some ''f64''"
| "window_struct_shorthand T_i8 = Some ''i8''"
| "window_struct_shorthand T_ui8 = Some ''ui8''"
| "window_struct_shorthand T_ui16 = Some ''ui16''"
| "window_struct_shorthand T_i32 = Some ''i32''"
| "window_struct_shorthand _ = None"

definition window_struct :: "(ty \<Rightarrow> string) \<Rightarrow> ty \<Rightarrow> nat \<Rightarrow> bool \<Rightarrow> error + WindowStruct" where
  "window_struct ct base_type n_dims is_const =
     (if \<not> n_dims \<ge> 1 then Inl AssertionError
      else case window_struct_shorthand base_type of
             None \<Rightarrow> Inl KeyError
           | Some sh \<Rightarrow> Inr (window_struct_cached sh (ct base_type) n_dims is_const))"

section \<open>The compiler object\<close>

text \<open>
  The fields of \<open>Compiler\<close> that the modelled methods read or write. The Python sets
  \<open>_needed_helpers\<close> and \<open>window_defns\<close> are lists without repetitions; the GPU state
  (\<open>self.spork\<close>) is absent, so \<open>add_line\<close> always appends to \<open>self._lines\<close>.
\<close>

record Compiler =
  self_env :: "(Sym, string) ChainMap"
  self_names :: "(string, string) ChainMap"
  self_envtyp :: "Sym \<rightharpoonup> ty"
  self_mems :: "Sym \<rightharpoonup> mem_ref"
  self_scalar_refs :: "Sym set"
  self_known_strides :: "Sym \<times> nat \<rightharpoonup> cir"
  self_non_const :: "Sym set"
  self_needed_helpers :: "string list"
  self_window_defns :: "WindowStruct list"
  self_lines :: "string list"
  self_tab :: string

definition add_line :: "string \<Rightarrow> Compiler \<Rightarrow> Compiler" where
  "add_line line c = (if line \<noteq> [] then c\<lparr>self_lines := self_lines c @ [self_tab c @ line]\<rparr> else c)"

text \<open>\<open>self.env[name]\<close>\<close>

definition env_name :: "Compiler \<Rightarrow> Sym \<Rightarrow> error + string" where
  "env_name c n = (case chain_lookup (self_env c) n of None \<Rightarrow> Inl KeyError | Some s \<Rightarrow> Inr s)"

text \<open>A list comprehension whose element expression can raise.\<close>

fun map_result :: "('a \<Rightarrow> error + 'b) \<Rightarrow> 'a list \<Rightarrow> error + 'b list" where
  "map_result f [] = Inr []"
| "map_result f (x # xs) =
     (case f x of
        Inl err \<Rightarrow> Inl err
      | Inr y \<Rightarrow> (case map_result f xs of Inl err \<Rightarrow> Inl err | Inr ys \<Rightarrow> Inr (y # ys)))"

section \<open>From loop IR to CIR\<close>

text \<open>
  \<open>lift_to_cir(e, range_env)\<close>; \<open>nn\<close> is \<open>is_non_neg\<close>, the range environment's answer
  for the node.
\<close>

fun lift_to_cir :: "(expr \<Rightarrow> bool) \<Rightarrow> expr \<Rightarrow> error + cir" where
  "lift_to_cir nn (IR_Read n idx t) =
     (if \<not> is_indexable t then Inl AssertionError
      else Inr (CIR_Read n (nn (IR_Read n idx t))))"
| "lift_to_cir nn (IR_Const v t) =
     (if \<not> is_indexable t then Inl AssertionError else Inr (CIR_Const v))"
| "lift_to_cir nn (IR_BinOp op l r t) =
     (if \<not> is_indexable t then Inl AssertionError
      else case lift_to_cir nn l of
             Inl err \<Rightarrow> Inl err
           | Inr lhs \<Rightarrow>
               (case lift_to_cir nn r of
                  Inl err \<Rightarrow> Inl err
                | Inr rhs \<Rightarrow> Inr (CIR_BinOp op lhs rhs (nn (IR_BinOp op l r t)))))"
| "lift_to_cir nn (IR_USub a t) =
     (if \<not> is_indexable t then Inl AssertionError
      else case lift_to_cir nn a of
             Inl err \<Rightarrow> Inl err
           | Inr arg \<Rightarrow> Inr (CIR_USub arg (nn (IR_USub a t))))"
| "lift_to_cir nn e = Inl AssertionError"

text \<open>The loop of \<open>tensor_strides\<close> over \<open>reversed(szs[:-1])\<close>.\<close>

fun strides_loop :: "cir list \<Rightarrow> cir \<Rightarrow> cir list \<Rightarrow> cir list" where
  "strides_loop [] s strides = strides"
| "strides_loop (sz # rest) s strides =
     strides_loop rest (CIR_BinOp Mul sz s True) (strides @ [s])"

definition tensor_strides :: "(expr \<Rightarrow> bool) \<Rightarrow> expr list \<Rightarrow> error + cir list" where
  "tensor_strides nn sh =
     (case map_result (lift_to_cir nn) sh of
        Inl err \<Rightarrow> Inl err
      | Inr szs \<Rightarrow>
          if \<not> length szs \<ge> 1 then Inl AssertionError
          else Inr (rev (strides_loop (rev (butlast szs)) (last szs) [CIR_Const (PInt 1)])))"

definition get_strides :: "world \<Rightarrow> Compiler \<Rightarrow> Sym \<Rightarrow> ty \<Rightarrow> error + cir list" where
  "get_strides w c name t =
     (if is_win t then
        Inr (map (\<lambda>i. case self_known_strides c (name, i) of
                        Some stride \<Rightarrow> stride
                      | None \<Rightarrow> CIR_Stride name i)
                 [0 ..< length (shape t)])
      else tensor_strides (check_non_neg w) (shape t))"

definition get_idx_offset :: "world \<Rightarrow> Compiler \<Rightarrow> Sym \<Rightarrow> ty \<Rightarrow> cir list \<Rightarrow> error + cir" where
  "get_idx_offset w c name t idx =
     (case get_strides w c name t of
        Inl err \<Rightarrow> Inl err
      | Inr strides \<Rightarrow>
          if length strides \<noteq> length idx then Inl AssertionError
          else case (idx, strides) of
                 (i0 # is, s0 # ss) \<Rightarrow>
                   Inr (foldl (\<lambda>acc (i, s). CIR_BinOp Add acc (CIR_BinOp Mul i s True) True)
                              (CIR_BinOp Mul i0 s0 True) (zip is ss))
               | _ \<Rightarrow> Inl IndexError)"

text \<open>\<open>self.comp_cir(simplify_cir(e), self.env, prec)\<close>\<close>

definition comp_simplified :: "world \<Rightarrow> cir \<Rightarrow> nat \<Rightarrow> Compiler \<Rightarrow> error + (string \<times> Compiler)" where
  "comp_simplified w e prec c =
     (case simplify_cir e of
        Inl err \<Rightarrow> Inl err
      | Inr e' \<Rightarrow>
          (case comp_cir (str_float w) (chain_lookup (self_env c)) e' prec (self_needed_helpers c) of
             Inl err \<Rightarrow> Inl err
           | Inr (s, hs) \<Rightarrow> Inr (s, c\<lparr>self_needed_helpers := hs\<rparr>)))"

fun comp_all_simplified :: "world \<Rightarrow> cir list \<Rightarrow> nat \<Rightarrow> Compiler \<Rightarrow> error + (string list \<times> Compiler)" where
  "comp_all_simplified w [] prec c = Inr ([], c)"
| "comp_all_simplified w (e # es) prec c =
     (case comp_simplified w e prec c of
        Inl err \<Rightarrow> Inl err
      | Inr (s, c1) \<Rightarrow>
          (case comp_all_simplified w es prec c1 of
             Inl err \<Rightarrow> Inl err
           | Inr (ss, c2) \<Rightarrow> Inr (s # ss, c2)))"

definition access_str :: "world \<Rightarrow> Sym \<Rightarrow> expr list \<Rightarrow> Compiler \<Rightarrow> error + (string \<times> Compiler)" where
  "access_str w nm idx_list c =
     (case self_envtyp c nm of
        None \<Rightarrow> Inl KeyError
      | Some t \<Rightarrow>
          (case map_result (lift_to_cir (check_non_neg w)) idx_list of
             Inl err \<Rightarrow> Inl err
           | Inr cirs \<Rightarrow>
               (case get_idx_offset w c nm t cirs of
                  Inl err \<Rightarrow> Inl err
                | Inr idx_expr \<Rightarrow>
                    (case comp_simplified w idx_expr 0 c of
                       Inl err \<Rightarrow> Inl err
                     | Inr (idx_expr_s, c1) \<Rightarrow>
                         (case env_name c1 nm of
                            Inl err \<Rightarrow> Inl err
                          | Inr buf \<Rightarrow>
                              if \<not> is_win t then Inr (buf @ ''['' @ idx_expr_s @ '']'', c1)
                              else Inr (buf @ ''.data['' @ idx_expr_s @ '']'', c1))))))"

section \<open>Windows\<close>

fun w_lo :: "w_access \<Rightarrow> expr" where
  "w_lo (Interval lo hi) = lo"
| "w_lo (Point pt) = pt"

fun is_Interval :: "w_access \<Rightarrow> bool" where
  "is_Interval (Interval lo hi) = True"
| "is_Interval (Point pt) = False"

text \<open>
  \<open>Compiler.window_struct_fields(e)\<close> for the window expression \<open>name[idx]\<close>: the data
  pointer text the memory's \<open>window\<close> hook builds, and the stride list.
\<close>

definition window_strides :: "string list \<Rightarrow> w_access list \<Rightarrow> string list" where
  "window_strides all_strides_s idx = map fst (filter (\<lambda>(s, a). is_Interval a) (zip all_strides_s idx))"

definition window_struct_fields :: "world \<Rightarrow> Sym \<Rightarrow> w_access list \<Rightarrow> Compiler
    \<Rightarrow> error + ((string \<times> string) \<times> Compiler)" where
  "window_struct_fields w name idx c =
     (case env_name c name of
        Inl err \<Rightarrow> Inl err
      | Inr base \<Rightarrow>
     (case self_envtyp c name of
        None \<Rightarrow> Inl KeyError
      | Some basetyp \<Rightarrow>
     (case self_mems c name of
        None \<Rightarrow> Inl KeyError
      | Some mem \<Rightarrow>
     (case map_result (\<lambda>a. lift_to_cir (check_non_neg w) (w_lo a)) idx of
        Inl err \<Rightarrow> Inl err
      | Inr cirs \<Rightarrow>
     (case comp_all_simplified w cirs 0 c of
        Inl err \<Rightarrow> Inl err
      | Inr (idxs, c1) \<Rightarrow>
     (case get_strides w c1 name basetyp of
        Inl err \<Rightarrow> Inl err
      | Inr all_strides \<Rightarrow>
     (case comp_all_simplified w all_strides 0 c1 of
        Inl err \<Rightarrow> Inl err
      | Inr (all_strides_s, c2) \<Rightarrow>
          if \<not> (0 < length all_strides_s \<and> length all_strides_s = length idx)
          then Inl AssertionError
          else Inr ((window_hook (memory_of w mem) basetyp base idxs all_strides_s,
                     join '', '' (window_strides all_strides_s idx)), c2))))))))"

text \<open>
  \<open>Compiler.get_window_type(typ, is_const)\<close>: \<open>typ\<close> is a window type (\<open>Inl\<close>) or a
  procedure argument of window type (\<open>Inr\<close>).
\<close>

definition get_window_type :: "world \<Rightarrow> ty + fnarg \<Rightarrow> bool option \<Rightarrow> Compiler
    \<Rightarrow> error + (string \<times> Compiler)" where
  "get_window_type w typ is_const c =
     (let found =
        (case typ of
           Inl (T_Window as_tensor src_buf) \<Rightarrow>
             Some (basetype as_tensor, length (shape as_tensor),
                   (case is_const of None \<Rightarrow> src_buf \<notin> self_non_const c | Some b \<Rightarrow> b))
         | Inl _ \<Rightarrow> None
         | Inr a \<Rightarrow>
             if is_win (fnarg_type a) then
               Some (basetype (fnarg_type a), length (shape (fnarg_type a)),
                     (case is_const of None \<Rightarrow> fnarg_name a \<notin> self_non_const c | Some b \<Rightarrow> b))
             else None)
      in case found of
           None \<Rightarrow> Inl AssertionError
         | Some (base, n_dims, ic) \<Rightarrow>
             (case window_struct (ctype w) base n_dims ic of
                Inl err \<Rightarrow> Inl err
              | Inr win \<Rightarrow>
                  Inr (ws_name win, c\<lparr>self_window_defns := set_add win (self_window_defns c)\<rparr>)))"

text \<open>The struct literal both \<open>comp_e\<close> and \<open>comp_fnarg\<close> write for a window expression.\<close>

definition window_literal :: "string \<Rightarrow> string \<Rightarrow> string \<Rightarrow> string" where
  "window_literal win_struct data strides =
     ''(struct '' @ win_struct @ ''){ &'' @ data @ '', { '' @ strides @ '' } }''"

section \<open>Compiling expressions and statements\<close>

text \<open>\<open>int(v)\<close>: a float is truncated towards zero.\<close>

fun py_int :: "pynum \<Rightarrow> int" where
  "py_int (PBool b) = (if b then 1 else 0)"
| "py_int (PInt i) = i"
| "py_int (PFloat q) = (if q \<ge> 0 then \<lfloor>q\<rfloor> else \<lceil>q\<rceil>)"

definition comp_Const :: "world \<Rightarrow> pynum \<Rightarrow> ty \<Rightarrow> error + string" where
  "comp_Const w v t =
     (case v of
        PBool b \<Rightarrow> Inr (if b then ''true'' else ''false'')
      | _ \<Rightarrow>
          if is_indexable t then Inr (str_int (py_int v))
          else if t = T_f64 then Inr (str_float w (to_rat v))
          else if t = T_f32 then Inr (str_float w (to_rat v) @ ''f'')
          else if t = T_with_context then Inl AssertionError
          else Inr (''(('' @ ctype w t @ '') '' @ str_pynum (str_float w) v @ '')''))"

text \<open>
  The \<open>LoopIR.Read\<close> branch of \<open>comp_e\<close>. The exception text leaves out the source
  position.
\<close>

definition comp_Read :: "world \<Rightarrow> Sym \<Rightarrow> expr list \<Rightarrow> Compiler \<Rightarrow> error + (string \<times> Compiler)" where
  "comp_Read w name idx c =
     (case self_envtyp c name of
        None \<Rightarrow> Inl KeyError
      | Some rtyp \<Rightarrow>
          if is_indexable rtyp \<or> rtyp = T_bool \<or> rtyp = T_stride then
            (case env_name c name of Inl err \<Rightarrow> Inl err | Inr s \<Rightarrow> Inr (s, c))
          else
            (case self_mems c name of
               None \<Rightarrow> Inl KeyError
             | Some mem \<Rightarrow>
                 if mem = CudaRmem then
                   (case env_name c name of Inl err \<Rightarrow> Inl err | Inr s \<Rightarrow> Inr (s, c))
                 else if \<not> can_read (memory_of w mem) then
                   Inl (MemGenError (''cannot read from buffer '' @ [CHR 0x27] @ str_Sym name @
                          [CHR 0x27] @ '' in memory '' @ [CHR 0x27] @
                          mem_name (memory_of w mem) @ [CHR 0x27]))
                 else if name \<in> self_scalar_refs c then
                   (case env_name c name of Inl err \<Rightarrow> Inl err | Inr s \<Rightarrow> Inr (''*'' @ s, c))
                 else if \<not> is_tensor_or_window rtyp then
                   (case env_name c name of Inl err \<Rightarrow> Inl err | Inr s \<Rightarrow> Inr (s, c))
                 else access_str w name idx c))"

fun comp_e :: "world \<Rightarrow> expr \<Rightarrow> nat \<Rightarrow> Compiler \<Rightarrow> error + (string \<times> Compiler)"
and comp_args :: "world \<Rightarrow> expr list \<Rightarrow> Compiler \<Rightarrow> error + (string list \<times> Compiler)" where
  "comp_e w (IR_Read name idx t) prec c = comp_Read w name idx c"
| "comp_e w (IR_WindowExpr name idx t) prec c =
     (case get_window_type w (Inl t) None c of
        Inl err \<Rightarrow> Inl err
      | Inr (win_struct, c1) \<Rightarrow>
          (case window_struct_fields w name idx c1 of
             Inl err \<Rightarrow> Inl err
           | Inr ((data, strides), c2) \<Rightarrow> Inr (window_literal win_struct data strides, c2)))"
| "comp_e w (IR_Const v t) prec c =
     (case comp_Const w v t of Inl err \<Rightarrow> Inl err | Inr s \<Rightarrow> Inr (s, c))"
| "comp_e w (IR_BinOp op lhs rhs t) prec c =
     (let int_div = (op = Div \<and> \<not> is_numeric t);
          local_prec = (if int_div then 0 else op_prec op);
          op_s = (if op = And then ''&&'' else if op = Or then ''||'' else op_str op)
      in case comp_e w lhs local_prec c of
           Inl err \<Rightarrow> Inl err
         | Inr (l, c1) \<Rightarrow>
             (case comp_e w rhs (local_prec + 1) c1 of
                Inl err \<Rightarrow> Inl err
              | Inr (r, c2) \<Rightarrow>
                  if int_div then
                    (if check_non_neg w (IR_BinOp op lhs rhs t)
                     then Inr (''(('' @ l @ '') / ('' @ r @ ''))'', c2)
                     else (case call_static_helper ''exo_floor_div'' [l, r] (self_needed_helpers c2) of
                             (s, hs) \<Rightarrow> Inr (s, c2\<lparr>self_needed_helpers := hs\<rparr>)))
                  else
                    (let s = l @ '' '' @ op_s @ '' '' @ r
                     in Inr (if local_prec < prec then ''('' @ s @ '')'' else s, c2))))"
| "comp_e w (IR_USub arg t) prec c =
     (case comp_e w arg prec_usub c of
        Inl err \<Rightarrow> Inl err
      | Inr (s, c1) \<Rightarrow> Inr (''-'' @ s, c1))"
| "comp_e w (IR_Extern f args t) prec c =
     (case comp_args w args c of
        Inl err \<Rightarrow> Inl err
      | Inr (ss, c1) \<Rightarrow> Inr (extern_compile (extern_of w f) ss (ctype w (basetype t)), c1))"
| "comp_e w (IR_StrideExpr name d t) prec c =
     (case self_envtyp c name of
        None \<Rightarrow> Inl KeyError
      | Some basetyp \<Rightarrow>
          (case get_strides w c name basetyp of
             Inl err \<Rightarrow> Inl err
           | Inr strides \<Rightarrow>
               if d < length strides then comp_simplified w (strides ! d) 0 c
               else Inl IndexError))"
| "comp_e w (IR_ReadConfig cfg field t) prec c =
     (if \<not> is_allow_rw cfg
      then Inl (ConfigError (''cannot read from config '' @ [CHR 0x27] @ config_name cfg @ [CHR 0x27]))
      else Inr (''ctxt->'' @ config_name cfg @ ''.'' @ field, c))"
| "comp_args w [] c = Inr ([], c)"
| "comp_args w (a # rest) c =
     (case comp_e w a 0 c of
        Inl err \<Rightarrow> Inl err
      | Inr (s, c1) \<Rightarrow>
          (case comp_args w rest c1 of
             Inl err \<Rightarrow> Inl err
           | Inr (ss, c2) \<Rightarrow> Inr (s # ss, c2)))"

text \<open>
  The branch of \<open>comp_s\<close> shared by \<open>LoopIR.Assign\<close> and \<open>LoopIR.Reduce\<close>, in three
  steps: the text of the left-hand side, the cast of the right-hand side when the base
  types differ, and the line that \<open>hook\<close> (\<open>mem.write\<close> or \<open>mem.reduce\<close>) builds.
\<close>

definition assign_lhs :: "world \<Rightarrow> Sym \<Rightarrow> expr list \<Rightarrow> Compiler \<Rightarrow> error + (string \<times> Compiler)" where
  "assign_lhs w name idx c =
     (if name \<in> self_scalar_refs c then
        (case env_name c name of Inl err \<Rightarrow> Inl err | Inr n \<Rightarrow> Inr (''*'' @ n, c))
      else case self_envtyp c name of
             None \<Rightarrow> Inl KeyError
           | Some nt \<Rightarrow>
               if is_real_scalar nt then
                 (case env_name c name of Inl err \<Rightarrow> Inl err | Inr n \<Rightarrow> Inr (n, c))
               else access_str w name idx c)"

definition assign_cast :: "world \<Rightarrow> ty \<Rightarrow> expr \<Rightarrow> string \<Rightarrow> error + string" where
  "assign_cast w t rhs rhs_s =
     (if basetype t \<noteq> basetype (type_of rhs) then
        (if \<not> is_real_scalar t \<or> \<not> is_real_scalar (type_of rhs)
         then Inl AssertionError
         else Inr (''('' @ ctype w (basetype t) @ '')('' @ rhs_s @ '')''))
      else Inr rhs_s)"

definition comp_Assign_Reduce :: "world \<Rightarrow> (memory \<Rightarrow> stmt \<Rightarrow> string \<Rightarrow> string \<Rightarrow> string)
    \<Rightarrow> stmt \<Rightarrow> Sym \<Rightarrow> ty \<Rightarrow> expr list \<Rightarrow> expr \<Rightarrow> Compiler \<Rightarrow> error + Compiler" where
  "comp_Assign_Reduce w hook s name t idx rhs c =
     (case assign_lhs w name idx c of
        Inl err \<Rightarrow> Inl err
      | Inr (lhs, c1) \<Rightarrow>
          (case comp_e w rhs 0 c1 of
             Inl err \<Rightarrow> Inl err
           | Inr (rhs_s, c2) \<Rightarrow>
               (case assign_cast w t rhs rhs_s of
                  Inl err \<Rightarrow> Inl err
                | Inr rhs_c \<Rightarrow>
                    (case self_mems c2 name of
                       None \<Rightarrow> Inl KeyError
                     | Some mem \<Rightarrow> Inr (add_line (hook (memory_of w mem) s lhs rhs_c) c2)))))"

text \<open>
  \<open>Compiler.comp_s\<close> on the statements that emit one line through a memory hook or
  directly. The branches for control flow, allocation, calls, windows and the device
  contexts are not part of this development, and \<open>comp_s\<close> is left unspecified on them.
\<close>

fun comp_s :: "world \<Rightarrow> stmt \<Rightarrow> Compiler \<Rightarrow> error + Compiler" where
  "comp_s w S_Pass c = Inr (add_line ''; // NO-OP'' c)"
| "comp_s w (S_SyncStmt codegen) c =
     (case codegen of None \<Rightarrow> Inl TypeError | Some txt \<Rightarrow> Inr (add_line txt c))"
| "comp_s w (S_Assign name t idx rhs) c =
     comp_Assign_Reduce w write_hook (S_Assign name t idx rhs) name t idx rhs c"
| "comp_s w (S_Reduce name t idx rhs) c =
     comp_Assign_Reduce w reduce_hook (S_Reduce name t idx rhs) name t idx rhs c"

section \<open>The static-memory check\<close>

text \<open>
  The two local functions of \<open>Compiler.static_memory_check\<close>. An \<open>Alloc\<close> whose
  \<open>mem\<close> is \<open>None\<close> makes \<open>issubclass(mem, Memory)\<close> raise \<open>TypeError\<close>.
\<close>

fun allocates_static_memory :: "world \<Rightarrow> stmt list \<Rightarrow> error + bool"
and allocates_static_stmt :: "world \<Rightarrow> stmt \<Rightarrow> error + bool" where
  "allocates_static_memory w [] = Inr False"
| "allocates_static_memory w (s # ss) =
     (case allocates_static_stmt w s of
        Inl err \<Rightarrow> Inl err
      | Inr b \<Rightarrow>
          (case allocates_static_memory w ss of
             Inl err \<Rightarrow> Inl err
           | Inr b' \<Rightarrow> Inr (b \<or> b')))"
| "allocates_static_stmt w (S_Alloc name t mem) =
     (case mem of None \<Rightarrow> Inl TypeError | Some m \<Rightarrow> Inr (is_static (memory_of w m)))"
| "allocates_static_stmt w (S_For iter lo hi mode body) = allocates_static_memory w body"
| "allocates_static_stmt w (S_If cond body orelse) =
     (case allocates_static_memory w body of
        Inl err \<Rightarrow> Inl err
      | Inr b \<Rightarrow>
          (case allocates_static_memory w orelse of
             Inl err \<Rightarrow> Inl err
           | Inr b' \<Rightarrow> Inr (b \<or> b')))"
| "allocates_static_stmt w s = Inr False"

fun is_leaf_proc :: "world \<Rightarrow> stmt list \<Rightarrow> bool"
and is_leaf_stmt :: "world \<Rightarrow> stmt \<Rightarrow> bool" where
  "is_leaf_proc w [] = True"
| "is_leaf_proc w (s # ss) = (is_leaf_stmt w s \<and> is_leaf_proc w ss)"
| "is_leaf_stmt w (S_Call f args) = (proc_instr (proc_of w f) \<noteq> None)"
| "is_leaf_stmt w (S_For iter lo hi mode body) = is_leaf_proc w body"
| "is_leaf_stmt w (S_If cond body orelse) = (is_leaf_proc w body \<and> is_leaf_proc w orelse)"
| "is_leaf_stmt w s = True"

text \<open>
  \<open>not allocates_static_memory(proc.body) or is_leaf_proc(proc.body)\<close>: the second
  operand is evaluated only when the first is false.
\<close>

definition static_memory_check :: "world \<Rightarrow> proc \<Rightarrow> error + bool" where
  "static_memory_check w p =
     (case allocates_static_memory w (proc_body p) of
        Inl err \<Rightarrow> Inl err
      | Inr a \<Rightarrow> Inr (\<not> a \<or> is_leaf_proc w (proc_body p)))"

text \<open>The step of \<open>Compiler.__init__\<close> that runs the check.\<close>

definition init_static_memory_check :: "world \<Rightarrow> proc \<Rightarrow> error + unit" where
  "init_static_memory_check w p =
     (case static_memory_check w p of
        Inl err \<Rightarrow> Inl err
      | Inr ok \<Rightarrow>
          if \<not> ok then Inl (MemGenError ''Cannot generate static memory in non-leaf procs'')
          else Inr ())"

text \<open>Every statement of a body, at any depth of \<open>For\<close> and \<open>If\<close>.\<close>

fun body_stmts :: "stmt list \<Rightarrow> stmt list"
and stmts_of :: "stmt \<Rightarrow> stmt list" where
  "body_stmts [] = []"
| "body_stmts (s # ss) = stmts_of s @ body_stmts ss"
| "stmts_of (S_For iter lo hi mode body) = S_For iter lo hi mode body # body_stmts body"
| "stmts_of (S_If cond body orelse) = S_If cond body orelse # body_stmts body @ body_stmts orelse"
| "stmts_of s = [s]"

definition static_alloc_in :: "world \<Rightarrow> stmt list \<Rightarrow> bool" where
  "static_alloc_in w body =
     (\<exists>name t m. S_Alloc name t (Some m) \<in> set (body_stmts body) \<and> is_static (memory_of w m))"

definition plain_call_in :: "world \<Rightarrow> stmt list \<Rightarrow> bool" where
  "plain_call_in w body =
     (\<exists>f args. S_Call f args \<in> set (body_stmts body) \<and> proc_instr (proc_of w f) = None)"

definition allocs_have_memory :: "stmt list \<Rightarrow> bool" where
  "allocs_have_memory body = (\<forall>name t. S_Alloc name t None \<notin> set (body_stmts body))"

section \<open>The call graph\<close>

text \<open>
  Modelled from the spec: the traversal skeleton \<open>LoopIR_Do\<close> is not among the sources;
  it visits the statements nested in \<open>For\<close> and \<open>If\<close>. \<open>LoopIR_SubProcs\<close> collects
  the callee of every call into a set, and visits nothing of an instruction procedure.
  The set is listed here in order of first occurrence; Python fixes no order.
\<close>

fun calls_of :: "stmt list \<Rightarrow> proc_ref list"
and calls_of_stmt :: "stmt \<Rightarrow> proc_ref list" where
  "calls_of [] = []"
| "calls_of (s # ss) = calls_of_stmt s @ calls_of ss"
| "calls_of_stmt (S_Call f args) = [f]"
| "calls_of_stmt (S_For iter lo hi mode body) = calls_of body"
| "calls_of_stmt (S_If cond body orelse) = calls_of body @ calls_of orelse"
| "calls_of_stmt s = []"

definition LoopIR_SubProcs :: "proc \<Rightarrow> proc_ref list" where
  "LoopIR_SubProcs p = (if proc_instr p = None then remdups (calls_of (proc_body p)) else [])"

text \<open>
  \<open>walk\<close> of \<open>find_all_subprocs\<close> and its loop over the callees. \<open>all_procs\<close> and
  \<open>seen\<close> always hold the same procedures, so the list stands for both. The heap of
  procedure objects may describe an infinite graph, on which the recursion does not
  end: the functions take fuel and return \<open>None\<close> when it runs out.
\<close>

fun walk :: "nat \<Rightarrow> (proc_ref \<Rightarrow> proc) \<Rightarrow> proc_ref \<Rightarrow> proc_ref set \<Rightarrow> proc_ref list
    \<Rightarrow> (error + proc_ref list) option"
and walk_callees :: "nat \<Rightarrow> (proc_ref \<Rightarrow> proc) \<Rightarrow> proc_ref list \<Rightarrow> proc_ref \<Rightarrow> proc_ref set
    \<Rightarrow> proc_ref list \<Rightarrow> (error + proc_ref list) option" where
  "walk 0 h p visited all_procs = None"
| "walk (Suc k) h p visited all_procs =
     (if p \<in> set all_procs then Some (Inr all_procs)
      else walk_callees k h (LoopIR_SubProcs (h p)) p visited (all_procs @ [p]))"
| "walk_callees 0 h sps p visited all_procs = None"
| "walk_callees (Suc k) h [] p visited all_procs = Some (Inr all_procs)"
| "walk_callees (Suc k) h (sp # sps) p visited all_procs =
     (if sp \<in> visited
      then Some (Inl (ValueError (''found call cycle involving '' @ proc_name (h sp))))
      else case walk k h sp (visited \<union> {p}) all_procs of
             None \<Rightarrow> None
           | Some (Inl err) \<Rightarrow> Some (Inl err)
           | Some (Inr all_procs') \<Rightarrow> walk_callees k h sps p visited all_procs')"

fun walk_list :: "nat \<Rightarrow> (proc_ref \<Rightarrow> proc) \<Rightarrow> proc_ref list \<Rightarrow> proc_ref list
    \<Rightarrow> (error + proc_ref list) option" where
  "walk_list k h [] all_procs = Some (Inr all_procs)"
| "walk_list k h (p # ps) all_procs =
     (case walk k h p {} all_procs of
        None \<Rightarrow> None
      | Some (Inl err) \<Rightarrow> Some (Inl err)
      | Some (Inr all_procs') \<Rightarrow> walk_list k h ps all_procs')"

definition find_all_subprocs :: "nat \<Rightarrow> (proc_ref \<Rightarrow> proc) \<Rightarrow> proc_ref list
    \<Rightarrow> (error + proc_ref list) option" where
  "find_all_subprocs k h proc_list =
     (case walk_list k h proc_list [] of
        None \<Rightarrow> None
      | Some (Inl err) \<Rightarrow> Some (Inl err)
      | Some (Inr all_procs) \<Rightarrow> Some (Inr (rev all_procs)))"

section \<open>Fresh names\<close>

text \<open>
  \<open>re.match(r"^(.*)_([0-9]*)$", s)\<close>: the groups, if the pattern matches. \<open>.\<close> does not
  match a newline and \<open>$\<close> also matches just before a final newline, so the text
  matched is \<open>s\<close> without its final newline, it holds no other newline, and the second
  group is what follows its last underscore.
\<close>

definition name_match :: "string \<Rightarrow> (string \<times> string) option" where
  "name_match s =
     (let t = (if s \<noteq> [] \<and> last s = CHR 0x0A then butlast s else s);
          digits = rev (takeWhile (\<lambda>ch. ch \<noteq> CHR ''_'') (rev t));
          before = rev (drop 1 (dropWhile (\<lambda>ch. ch \<noteq> CHR ''_'') (rev t)))
      in if CHR 0x0A \<in> set t \<or> CHR ''_'' \<notin> set t \<or> \<not> list_all is_digit digits then None
         else Some (before, digits))"

text \<open>
  The renaming step shared by \<open>Compiler.new_varname\<close> and the printers' \<open>new_name\<close>:
  append \<open>_1\<close>, or add one to the number after the last underscore. \<open>int("")\<close> raises
  \<open>ValueError\<close>.
\<close>

definition bump_name :: "string \<Rightarrow> error + string" where
  "bump_name s =
     (case name_match s of
        None \<Rightarrow> Inr (s @ ''_1'')
      | Some (m1, m2) \<Rightarrow>
          if m2 = [] then Inl (ValueError ''invalid literal for int() with base 10'')
          else Inr (m1 @ ''_'' @ str_nat (nat_of_digits m2 + 1)))"

text \<open>
  \<open>while s in self.names: ...\<close> of \<open>Compiler.new_varname\<close>. The loop is not bounded by
  its text, so not returning is the value \<open>None\<close>.
\<close>

partial_function (option) fresh_loop :: "(string, string) ChainMap \<Rightarrow> string \<Rightarrow> (error + string) option" where
  "fresh_loop names s =
     (if chain_mem s names then
        (case bump_name s of
           Inl err \<Rightarrow> Some (Inl err)
         | Inr s' \<Rightarrow> fresh_loop names s')
      else Some (Inr s))"

text \<open>
  \<open>Compiler.new_varname(symbol, typ, mem)\<close>. A symbol introduced with \<open>typ=None\<close> (the
  reserved \<open>ctxt\<close>) gets no entry in \<open>envtyp\<close> here, where Python stores \<open>None\<close>.
\<close>

definition new_varname :: "Sym \<Rightarrow> ty option \<Rightarrow> mem_ref option \<Rightarrow> Compiler
    \<Rightarrow> (error + (string \<times> Compiler)) option" where
  "new_varname symbol t mem c =
     (let strnm = str_Sym symbol;
          chosen =
            (if \<not> chain_mem strnm (self_names c) then Some (Inr (strnm, self_names c))
             else case chain_lookup (self_names c) strnm of
                    None \<Rightarrow> Some (Inl KeyError)
                  | Some s0 \<Rightarrow>
                      (case fresh_loop (self_names c) s0 of
                         None \<Rightarrow> None
                       | Some (Inl err) \<Rightarrow> Some (Inl err)
                       | Some (Inr s) \<Rightarrow> Some (Inr (s, chain_set (self_names c) strnm s))))
      in case chosen of
           None \<Rightarrow> None
         | Some (Inl err) \<Rightarrow> Some (Inl err)
         | Some (Inr (nm, names1)) \<Rightarrow>
             Some (Inr (nm,
               c\<lparr> self_names := chain_set names1 nm nm,
                  self_env := chain_set (self_env c) symbol nm,
                  self_envtyp := (self_envtyp c)(symbol := t),
                  self_mems := (self_mems c)(symbol \<mapsto> (case mem of Some m \<Rightarrow> m | None \<Rightarrow> DRAM)) \<rparr>)))"

text \<open>
  Modelled from the spec: the printers' \<open>Environment\<close> (\<open>prelude.py\<close>) is not among
  the sources; it is a layered name environment with push and pop, here a
  \<open>ChainMap\<close>. \<open>new_name\<close> is the method of \<open>LoopIR_PPrinter\<close> (and, word for word, of
  \<open>UAST_PPrinter\<close>).
\<close>

definition new_name :: "Sym \<Rightarrow> (string, string) ChainMap \<Rightarrow> error + (string \<times> (string, string) ChainMap)" where
  "new_name nm env =
     (let strnm = str_Sym nm
      in if \<not> chain_mem strnm env then Inr (strnm, chain_set env strnm strnm)
         else case chain_lookup env strnm of
                None \<Rightarrow> Inl KeyError
              | Some s \<Rightarrow>
                  (case bump_name s of
                     Inl err \<Rightarrow> Inl err
                   | Inr s' \<Rightarrow> Inr (s', chain_set env strnm s')))"

text \<open>Introducing symbols one after the other in the same scope, as \<open>pproc\<close> does for the arguments.\<close>

fun new_names :: "Sym list \<Rightarrow> (string, string) ChainMap \<Rightarrow> error + (string list \<times> (string, string) ChainMap)" where
  "new_names [] env = Inr ([], env)"
| "new_names (nm # nms) env =
     (case new_name nm env of
        Inl err \<Rightarrow> Inl err
      | Inr (s, env1) \<Rightarrow>
          (case new_names nms env1 of
             Inl err \<Rightarrow> Inl err
           | Inr (ss, env2) \<Rightarrow> Inr (s # ss, env2)))"

fun new_varnames :: "Sym list \<Rightarrow> Compiler \<Rightarrow> (error + (string list \<times> Compiler)) option" where
  "new_varnames [] c = Some (Inr ([], c))"
| "new_varnames (nm # nms) c =
     (case new_varname nm (Some T_index) None c of
        None \<Rightarrow> None
      | Some (Inl err) \<Rightarrow> Some (Inl err)
      | Some (Inr (s, c1)) \<Rightarrow>
          (case new_varnames nms c1 of
             None \<Rightarrow> None
           | Some (Inl err) \<Rightarrow> Some (Inl err)
           | Some (Inr (ss, c2)) \<Rightarrow> Some (Inr (s # ss, c2))))"

section \<open>The collective algebra\<close>

datatype base_value = BaseStr string | BaseInt int

record CollIndexExpr =
  base_expr :: base_value
  ops :: "(string \<times> int) list"

text \<open>\<open>CollIndexExpr.__init__\<close>; the pre-computed hash is not modelled.\<close>

definition CollIndexExpr_init :: "base_value \<Rightarrow> (string \<times> int) list \<Rightarrow> error + CollIndexExpr" where
  "CollIndexExpr_init b os =
     (case b of
        BaseInt i \<Rightarrow>
          if os \<noteq> [] then Inl AssertionError else Inr \<lparr> base_expr = b, ops = os \<rparr>
      | BaseStr s \<Rightarrow> Inr \<lparr> base_expr = b, ops = os \<rparr>)"

text \<open>
  \<open>CollIndexExpr.__sub__(self, v)\<close>. A Python function that reaches its end without
  \<open>return\<close> gives \<open>None\<close>: the result is an optional object.
\<close>

definition CollIndexExpr_sub :: "CollIndexExpr \<Rightarrow> int \<Rightarrow> error + CollIndexExpr option" where
  "CollIndexExpr_sub self v =
     (case base_expr self of
        BaseInt i \<Rightarrow>
          (case CollIndexExpr_init (BaseInt (i - v)) [] of
             Inl err \<Rightarrow> Inl err
           | Inr r \<Rightarrow> Inr (Some r))
      | BaseStr s \<Rightarrow>
          if v = 0 then Inr (Some self)
          else
            (let new_ops =
                   (if ops self \<noteq> [] \<and> fst (last (ops self)) = ''-''
                    then butlast (ops self) @ [(''-'', snd (last (ops self)) + v)]
                    else ops self @ [(''-'', v)])
             in case CollIndexExpr_init (base_expr self) new_ops of
                  Inl err \<Rightarrow> Inl err
                | Inr result \<Rightarrow> Inr None))"

record CollParam =
  param_name :: string

record CollSizeExpr =
  scalar :: rat
  coll_params :: "CollParam list"

record CollSpecialize =
  spec_partial_domain :: "(CollSizeExpr + int) list"
  spec_offset :: "(CollSizeExpr + int) list"
  spec_box :: "(CollSizeExpr + int) list"

record CollTiling =
  tiling_domain :: "int list"
  tiling_tile :: "int list"
  tiling_offset :: "int list"
  tiling_box :: "int list"
  intra_box_exprs :: "CollIndexExpr list"

text \<open>
  The names bound at module level in \<open>coll_algebra.py\<close> (its imports, classes,
  functions and constants); a name that is neither local, nor one of these, nor a
  builtin raises \<open>NameError\<close> when it is read. \<open>env\<close> is no builtin.
\<close>

definition coll_algebra_globals :: "string list" where
  "coll_algebra_globals =
     [''annotations'', ''Fraction'', ''Dict'', ''Optional'', ''Tuple'',
      ''CollParam'', ''CollSizeExpr'', ''blockDim_param'', ''blockDim'',
      ''clusterDim_param'', ''clusterDim'', ''int_tuple'', ''CollUnit'',
      ''CollSpecialize'', ''CollIndexExpr'', ''CollTiling'', ''DomainCompletionOp'']"

definition load_global :: "string \<Rightarrow> (string \<Rightarrow> 'a) \<Rightarrow> error + 'a" where
  "load_global nm val = (if nm \<in> set coll_algebra_globals then Inr (val nm) else Inl (NameError nm))"

text \<open>
  \<open>CollTiling.specialized(self, spec)\<close>. Its first statement reads the name \<open>env\<close>,
  which is neither a parameter nor a local. What the statements would do with the
  value is the parameter \<open>rest\<close>; \<open>val\<close> gives the values of the module's globals.
\<close>

definition specialized :: "(string \<Rightarrow> 'a) \<Rightarrow> ('a \<Rightarrow> CollTiling \<Rightarrow> CollSpecialize \<Rightarrow> error + 'b)
    \<Rightarrow> CollTiling \<Rightarrow> CollSpecialize \<Rightarrow> error + 'b" where
  "specialized val rest self spec =
     (case load_global ''env'' val of
        Inl err \<Rightarrow> Inl err
      | Inr env \<Rightarrow> rest env self spec)"

section \<open>Notions used to state the properties\<close>

text \<open>The helper set holds nothing, or the one helper there is.\<close>

definition helpers_ok :: "string list \<Rightarrow> bool" where
  "helpers_ok hs = (hs = [] \<or> hs = [''exo_floor_div''])"

text \<open>Compiling an expression changes no field but the helper set and the window structs.\<close>

definition same_but_sets :: "Compiler \<Rightarrow> Compiler \<Rightarrow> bool" where
  "same_but_sets c c' =
     (\<exists>hs wd. c' = c\<lparr>self_needed_helpers := hs, self_window_defns := wd\<rparr>)"

text \<open>The same world with other \<open>read\<close> hooks.\<close>

definition with_read_hook :: "world \<Rightarrow> (mem_ref \<Rightarrow> expr \<Rightarrow> string \<Rightarrow> string \<Rightarrow> string) \<Rightarrow> world" where
  "with_read_hook w h = w\<lparr>memory_of := (\<lambda>m. (memory_of w m)\<lparr>read_hook := h m\<rparr>)\<rparr>"

text \<open>One step of the helper set: unchanged, or the one helper added.\<close>

definition helpers_step :: "string list \<Rightarrow> string list \<Rightarrow> bool" where
  "helpers_step hs hs' = (hs' = hs \<or> hs' = set_add ''exo_floor_div'' hs)"

definition keeps :: "Compiler \<Rightarrow> Compiler \<Rightarrow> bool" where
  "keeps c c' = (same_but_sets c c' \<and> helpers_step (self_needed_helpers c) (self_needed_helpers c'))"


text \<open>
  Which expressions reach the helper when they compile: an index expression whose
  simplified form holds a division sent to the helper, and an expression of the loop IR
  that holds such an index expression, in a buffer access, a window or a stride, or a
  division of a type that is not numeric and whose quotient the range environment
  does not prove non-negative.
\<close>

definition idx_calls_helper :: "cir \<Rightarrow> bool" where
  "idx_calls_helper e = (case simplify_cir e of Inl err \<Rightarrow> False | Inr e' \<Rightarrow> calls_helper e')"

definition access_calls_helper :: "world \<Rightarrow> Compiler \<Rightarrow> Sym \<Rightarrow> expr list \<Rightarrow> bool" where
  "access_calls_helper w c nm idx_list =
     (case self_envtyp c nm of
        None \<Rightarrow> False
      | Some t \<Rightarrow>
          (case map_result (lift_to_cir (check_non_neg w)) idx_list of
             Inl err \<Rightarrow> False
           | Inr cirs \<Rightarrow>
               (case get_idx_offset w c nm t cirs of
                  Inl err \<Rightarrow> False
                | Inr idx_expr \<Rightarrow> idx_calls_helper idx_expr)))"

definition read_uses_access :: "Compiler \<Rightarrow> Sym \<Rightarrow> bool" where
  "read_uses_access c name =
     (case self_envtyp c name of
        None \<Rightarrow> False
      | Some rtyp \<Rightarrow>
          \<not> (is_indexable rtyp \<or> rtyp = T_bool \<or> rtyp = T_stride) \<and>
          (case self_mems c name of
             None \<Rightarrow> False
           | Some mem \<Rightarrow> mem \<noteq> CudaRmem \<and> name \<notin> self_scalar_refs c \<and> is_tensor_or_window rtyp))"

definition window_calls_helper :: "world \<Rightarrow> Compiler \<Rightarrow> Sym \<Rightarrow> w_access list \<Rightarrow> bool" where
  "window_calls_helper w c name idx =
     (case self_envtyp c name of
        None \<Rightarrow> False
      | Some basetyp \<Rightarrow>
          (case map_result (\<lambda>a. lift_to_cir (check_non_neg w) (w_lo a)) idx of
             Inl err \<Rightarrow> False
           | Inr cirs \<Rightarrow>
               (case get_strides w c name basetyp of
                  Inl err \<Rightarrow> False
                | Inr all_strides \<Rightarrow> list_ex idx_calls_helper (cirs @ all_strides))))"

definition stride_calls_helper :: "world \<Rightarrow> Compiler \<Rightarrow> Sym \<Rightarrow> nat \<Rightarrow> bool" where
  "stride_calls_helper w c name d =
     (case self_envtyp c name of
        None \<Rightarrow> False
      | Some basetyp \<Rightarrow>
          (case get_strides w c name basetyp of
             Inl err \<Rightarrow> False
           | Inr strides \<Rightarrow> d < length strides \<and> idx_calls_helper (strides ! d)))"

fun e_calls_helper :: "world \<Rightarrow> Compiler \<Rightarrow> expr \<Rightarrow> bool"
and es_call_helper :: "world \<Rightarrow> Compiler \<Rightarrow> expr list \<Rightarrow> bool" where
  "e_calls_helper w c (IR_Read name idx t) = (read_uses_access c name \<and> access_calls_helper w c name idx)"
| "e_calls_helper w c (IR_WindowExpr name idx t) = window_calls_helper w c name idx"
| "e_calls_helper w c (IR_Const v t) = False"
| "e_calls_helper w c (IR_BinOp op lhs rhs t) =
     (e_calls_helper w c lhs \<or> e_calls_helper w c rhs \<or>
      (op = Div \<and> \<not> is_numeric t \<and> \<not> check_non_neg w (IR_BinOp op lhs rhs t)))"
| "e_calls_helper w c (IR_USub arg t) = e_calls_helper w c arg"
| "e_calls_helper w c (IR_Extern f args t) = es_call_helper w c args"
| "e_calls_helper w c (IR_StrideExpr name d t) = stride_calls_helper w c name d"
| "e_calls_helper w c (IR_ReadConfig cfg field t) = False"
| "es_call_helper w c [] = False"
| "es_call_helper w c (a # rest) = (e_calls_helper w c a \<or> es_call_helper w c rest)"

text \<open>An assignment or reduction to \<open>name[idx]\<close> with right-hand side \<open>rhs\<close>.\<close>

definition assign_calls_helper :: "world \<Rightarrow> Compiler \<Rightarrow> Sym \<Rightarrow> expr list \<Rightarrow> expr \<Rightarrow> bool" where
  "assign_calls_helper w c name idx rhs =
     ((name \<notin> self_scalar_refs c \<and>
       (case self_envtyp c name of None \<Rightarrow> False | Some nt \<Rightarrow> \<not> is_real_scalar nt) \<and>
       access_calls_helper w c name idx)
      \<or> e_calls_helper w c rhs)"

section \<open>An example world\<close>

text \<open>
  Memories in the style of the host's library: \<open>DRAM\<close> reads and writes plain C;
  \<open>MemClass 1\<close> is static; \<open>MemClass 2\<close> and \<open>CudaRmem\<close> cannot be read. Procedure 0 is
  an ordinary procedure, every other one an instruction. The range environment proves
  the variable \<open>i\<close> non-negative, every negation, and every quotient of one of these.
\<close>

definition ex_memory :: "mem_ref \<Rightarrow> memory" where
  "ex_memory m =
     \<lparr> mem_name = (case m of DRAM \<Rightarrow> ''DRAM'' | CudaRmem \<Rightarrow> ''CudaRmem'' | MemClass k \<Rightarrow> ''Scratch''),
       is_static = (m = MemClass 1),
       can_read = (m \<noteq> CudaRmem \<and> m \<noteq> MemClass 2),
       can_write = True,
       read_hook = (\<lambda>e l r. ''load('' @ l @ '')''),
       write_hook = (\<lambda>s l r. l @ '' = '' @ r @ '';''),
       reduce_hook = (\<lambda>s l r. l @ '' += '' @ r @ '';''),
       window_hook = (\<lambda>t base idxs strides.
          base @ ''['' @ join '' + '' (map (\<lambda>(i, s). ''('' @ i @ '') * ('' @ s @ '')'') (zip idxs strides)) @ '']'') \<rparr>"

definition ex_proc :: "proc_ref \<Rightarrow> proc" where
  "ex_proc r =
     \<lparr> proc_name = ''callee'', proc_args = [], proc_body = [S_Pass],
       proc_instr = (if r = 0 then None else Some \<lparr> c_instr = ''intrin({x_data});'', c_global = [] \<rparr>) \<rparr>"

fun ex_known_non_neg :: "expr \<Rightarrow> bool" where
  "ex_known_non_neg (IR_Read n idx t) = (sym_name n = ''i'')"
| "ex_known_non_neg (IR_USub a t) = True"
| "ex_known_non_neg e = False"

fun ex_non_neg :: "expr \<Rightarrow> bool" where
  "ex_non_neg (IR_BinOp Div l r t) = ex_known_non_neg l"
| "ex_non_neg e = ex_known_non_neg e"

fun ex_ctype :: "ty \<Rightarrow> string" where
  "ex_ctype T_f32 = ''float''"
| "ex_ctype T_f64 = ''double''"
| "ex_ctype T_i8 = ''int8_t''"
| "ex_ctype T_i32 = ''int32_t''"
| "ex_ctype t = ''int_fast32_t''"

definition ex_world :: world where
  "ex_world =
     \<lparr> memory_of = ex_memory, proc_of = ex_proc,
       extern_of = (\<lambda>f. \<lparr> extern_name = ''sin'', extern_compile = (\<lambda>args ct. ''sin('' @ join '', '' args @ '')'') \<rparr>),
       check_non_neg = ex_non_neg,
       ctype = ex_ctype, str_float = (\<lambda>q. ''0.0'') \<rparr>"

text \<open>
  A compiler in the middle of a procedure with the index variables \<open>i\<close> and \<open>x\<close>, the
  size \<open>n\<close>, the tensors \<open>A : f32[n, 16]\<close> in \<open>DRAM\<close> and \<open>R : f32[n]\<close> in \<open>CudaRmem\<close>, and
  the scalar \<open>acc : f32\<close> in \<open>DRAM\<close>.
\<close>

definition ex_i :: Sym where "ex_i = Sym ''i'' 1"
definition ex_x :: Sym where "ex_x = Sym ''x'' 2"
definition ex_n :: Sym where "ex_n = Sym ''n'' 3"
definition ex_A :: Sym where "ex_A = Sym ''A'' 4"
definition ex_R :: Sym where "ex_R = Sym ''R'' 5"
definition ex_acc :: Sym where "ex_acc = Sym ''acc'' 6"

definition ex_A_type :: ty where
  "ex_A_type = T_Tensor T_f32 [IR_Read ex_n [] T_size, IR_Const (PInt 16) T_size] False"

definition ex_R_type :: ty where
  "ex_R_type = T_Tensor T_f32 [IR_Read ex_n [] T_size] False"

definition ex_compiler :: Compiler where
  "ex_compiler =
     \<lparr> self_env = [[ex_i \<mapsto> ''i'', ex_x \<mapsto> ''x'', ex_n \<mapsto> ''n'', ex_A \<mapsto> ''A'', ex_R \<mapsto> ''R'',
                    ex_acc \<mapsto> ''acc'']],
       self_names = [[''i'' \<mapsto> ''i'', ''x'' \<mapsto> ''x'', ''n'' \<mapsto> ''n'', ''A'' \<mapsto> ''A'', ''R'' \<mapsto> ''R'',
                      ''acc'' \<mapsto> ''acc'']],
       self_envtyp = [ex_i \<mapsto> T_index, ex_x \<mapsto> T_index, ex_n \<mapsto> T_size, ex_A \<mapsto> ex_A_type,
                      ex_R \<mapsto> ex_R_type, ex_acc \<mapsto> T_f32],
       self_mems = [ex_i \<mapsto> DRAM, ex_x \<mapsto> DRAM, ex_n \<mapsto> DRAM, ex_A \<mapsto> DRAM, ex_R \<mapsto> CudaRmem,
                    ex_acc \<mapsto> DRAM],
       self_scalar_refs = {},
       self_known_strides = Map.empty,
       self_non_const = {ex_A, ex_acc},
       self_needed_helpers = [],
       self_window_defns = [],
       self_lines = [],
       self_tab = ''  '' \<rparr>"

text \<open>
  A body that allocates a buffer in the static memory inside a loop and then calls
  procedure \<open>f\<close>.
\<close>

definition ex_body :: "proc_ref \<Rightarrow> stmt list" where
  "ex_body f =
     [S_For ex_i (IR_Const (PInt 0) T_index) (IR_Const (PInt 8) T_index) LM_Seq
        [S_Alloc (Sym ''buf'' 7) (T_Tensor T_f32 [IR_Const (PInt 8) T_size] False) (Some (MemClass 1)),
         S_Call f []]]"

definition ex_caller :: "proc_ref \<Rightarrow> proc" where
  "ex_caller f = \<lparr> proc_name = ''p'', proc_args = [], proc_body = ex_body f, proc_instr = None \<rparr>"

text \<open>
  Expressions over this compiler: the reads \<open>A[i / 8, i]\<close>, \<open>A[(-x) / 8, i]\<close> and \<open>R[i]\<close>,
  the quotients \<open>i / 8\<close> and \<open>x / 8\<close>, the window \<open>A[0:n, 4]\<close>, and these as index
  expressions of the C back end.
\<close>

definition ex_idx_i :: expr where "ex_idx_i = IR_Read ex_i [] T_index"
definition ex_idx_x :: expr where "ex_idx_x = IR_Read ex_x [] T_index"
definition ex_eight :: expr where "ex_eight = IR_Const (PInt 8) T_index"

definition ex_quot_i :: expr where "ex_quot_i = IR_BinOp Div ex_idx_i ex_eight T_index"
definition ex_quot_x :: expr where "ex_quot_x = IR_BinOp Div ex_idx_x ex_eight T_index"
definition ex_neg_x :: expr where "ex_neg_x = IR_USub ex_idx_x T_index"
definition ex_quot_neg_x :: expr where "ex_quot_neg_x = IR_BinOp Div ex_neg_x ex_eight T_index"

definition ex_read_div :: expr where "ex_read_div = IR_Read ex_A [ex_quot_i, ex_idx_i] T_f32"
definition ex_read_neg_div :: expr where "ex_read_neg_div = IR_Read ex_A [ex_quot_neg_x, ex_idx_i] T_f32"
definition ex_read_R :: expr where "ex_read_R = IR_Read ex_R [ex_idx_i] T_f32"

definition ex_window :: expr where
  "ex_window =
     IR_WindowExpr ex_A [Interval (IR_Const (PInt 0) T_index) (IR_Read ex_n [] T_size),
                         Point (IR_Const (PInt 4) T_index)]
       (T_Window (T_Tensor T_f32 [IR_Read ex_n [] T_size] True) ex_A)"

definition ex_cir_env :: "Sym \<rightharpoonup> string" where
  "ex_cir_env = chain_lookup (self_env ex_compiler)"

definition ex_cir_quot_i :: cir where
  "ex_cir_quot_i = CIR_BinOp Div (CIR_Read ex_i True) (CIR_Const (PInt 8)) True"

definition ex_cir_quot_neg_x :: cir where
  "ex_cir_quot_neg_x = CIR_BinOp Div (CIR_USub (CIR_Read ex_x False) True) (CIR_Const (PInt 8)) True"

text \<open>The same compiler with \<open>A\<close> in the memory that cannot be read, and other \<open>read\<close> hooks.\<close>

definition ex_compiler_unreadable :: Compiler where
  "ex_compiler_unreadable = ex_compiler\<lparr>self_mems := (self_mems ex_compiler)(ex_A \<mapsto> MemClass 2)\<rparr>"

definition ex_other_read :: "mem_ref \<Rightarrow> expr \<Rightarrow> string \<Rightarrow> string \<Rightarrow> string" where
  "ex_other_read m e l r = ''fetch('' @ l @ '')''"

definition ex_assign :: stmt where
  "ex_assign = S_Assign ex_A T_f32 [ex_quot_i, ex_idx_i] ex_read_R"

definition ex_reduce :: stmt where
  "ex_reduce = S_Reduce ex_acc T_f32 [] ex_read_div"





definition ex_window_type :: ty where
  "ex_window_type = T_Window (T_Tensor T_f32 [IR_Read ex_n [] T_size] True) ex_A"

text \<open>The assignment \<open>A[x / 8, i] = R[i]\<close>, whose index reaches the helper.\<close>

definition ex_assign_floor :: stmt where
  "ex_assign_floor = S_Assign ex_A T_f32 [ex_quot_x, ex_idx_i] ex_read_R"










text \<open>
  A compiler in which \<open>acc\<close> is passed by reference, \<open>W\<close> is a window on \<open>A\<close> and \<open>D\<close> is
  a scalar of type \<open>f64\<close>; the reads \<open>acc\<close> and \<open>W[i]\<close>, the assignment \<open>D = acc\<close> and the
  reduction \<open>acc += W[i]\<close>.
\<close>

definition ex_W :: Sym where "ex_W = Sym ''W'' 8"
definition ex_D :: Sym where "ex_D = Sym ''D'' 9"

definition ex_compiler_refs :: Compiler where
  "ex_compiler_refs =
     ex_compiler
       \<lparr> self_env := [[ex_i \<mapsto> ''i'', ex_x \<mapsto> ''x'', ex_n \<mapsto> ''n'', ex_A \<mapsto> ''A'', ex_R \<mapsto> ''R'',
                       ex_acc \<mapsto> ''acc'', ex_W \<mapsto> ''W'', ex_D \<mapsto> ''D'']],
         self_envtyp := (self_envtyp ex_compiler)(ex_W \<mapsto> ex_window_type, ex_D \<mapsto> T_f64),
         self_mems := (self_mems ex_compiler)(ex_W \<mapsto> DRAM, ex_D \<mapsto> DRAM),
         self_scalar_refs := {ex_acc} \<rparr>"

definition ex_read_acc :: expr where "ex_read_acc = IR_Read ex_acc [] T_f32"
definition ex_read_W :: expr where "ex_read_W = IR_Read ex_W [ex_idx_i] T_f32"
definition ex_read_D :: expr where "ex_read_D = IR_Read ex_D [] T_f64"

definition ex_assign_cast :: stmt where
  "ex_assign_cast = S_Assign ex_D T_f64 [] ex_read_acc"

definition ex_reduce_ref :: stmt where
  "ex_reduce_ref = S_Reduce ex_acc T_f32 [] ex_read_W"

section \<open>Properties of the simplifier\<close>

lemma simplify_BinOp_nonconst:
  "\<not> (is_CIR_Const l \<and> is_CIR_Const r) \<Longrightarrow>
   simplify_BinOp op l r nn = simplify_identities op l r nn"
  by (cases l; cases r; simp)

lemma simplify_identities_cases:
  assumes "simplify_identities op l r nn = Inr e'"
  shows "is_CIR_Const e' \<or> e' = l \<or> e' = r \<or> e' = CIR_BinOp op l r nn"
  using assms unfolding simplify_identities_def Let_def
  by (auto split: if_splits)

lemma simplify_BinOp_cases:
  assumes "simplify_BinOp op l r nn = Inr e'"
  shows "is_CIR_Const e' \<or> e' = l \<or> e' = r \<or> e' = CIR_BinOp op l r nn"
proof (cases "is_CIR_Const l \<and> is_CIR_Const r")
  case True
  then obtain a b where "l = CIR_Const a" "r = CIR_Const b"
    by (cases l; cases r; simp)
  with assms show ?thesis
    by (auto split: option.splits sum.splits)
next
  case False
  then show ?thesis
    using assms simplify_identities_cases by (simp add: simplify_BinOp_nonconst)
qed

text \<open>The simplifier never returns a larger tree.\<close>

lemma size_simplify_cir: "simplify_cir e = Inr e' \<Longrightarrow> size e' \<le> size e"
proof (induction e arbitrary: e')
  case (CIR_BinOp op l r nn)
  then obtain l1 r1 where a: "simplify_cir l = Inr l1" "simplify_cir r = Inr r1"
      "simplify_BinOp op l1 r1 nn = Inr e'"
    by (auto split: sum.splits)
  from simplify_BinOp_cases[OF a(3)] CIR_BinOp.IH(1)[OF a(1)] CIR_BinOp.IH(2)[OF a(2)]
  show ?case by (cases e') auto
next
  case (CIR_USub a nn)
  then obtain a1 where a: "simplify_cir a = Inr a1" "e' = simplify_USub a1 nn"
    by (auto split: sum.splits)
  with CIR_USub.IH[OF a(1)] show ?case
    by (cases a1) (auto simp: simplify_USub_def)
qed auto

text \<open>Whatever the simplifier returns is a fixed point of the simplifier.\<close>

lemma simplify_cir_fixed: "simplify_cir e = Inr e' \<Longrightarrow> simplify_cir e' = Inr e'"
proof (induction e arbitrary: e')
  case (CIR_BinOp op l r nn)
  from CIR_BinOp.prems obtain l1 r1 where a: "simplify_cir l = Inr l1"
      "simplify_cir r = Inr r1" "simplify_BinOp op l1 r1 nn = Inr e'"
    by (auto split: sum.splits)
  have l1: "simplify_cir l1 = Inr l1" by (rule CIR_BinOp.IH(1)[OF a(1)])
  have r1: "simplify_cir r1 = Inr r1" by (rule CIR_BinOp.IH(2)[OF a(2)])
  from simplify_BinOp_cases[OF a(3)] show ?case
  proof (elim disjE)
    assume "is_CIR_Const e'"
    then show ?thesis by (cases e') simp_all
  next
    assume "e' = CIR_BinOp op l1 r1 nn"
    then show ?thesis using l1 r1 a(3) by simp
  next
    assume "e' = l1"
    then show ?thesis using l1 by simp
  next
    assume "e' = r1"
    then show ?thesis using r1 by simp
  qed
next
  case (CIR_USub a nn)
  from CIR_USub.prems obtain a1 where a: "simplify_cir a = Inr a1" "e' = simplify_USub a1 nn"
    by (auto split: sum.splits)
  have a1: "simplify_cir a1 = Inr a1" by (rule CIR_USub.IH[OF a(1)])
  show ?case
  proof (cases a1)
    case (CIR_USub x f)
    then have e': "e' = x" using a by (simp add: simplify_USub_def)
    from a1 CIR_USub obtain x1 where x1: "simplify_cir x = Inr x1"
        "simplify_USub x1 f = CIR_USub x f"
      by (auto split: sum.splits)
    have "size x1 \<le> size x" using size_simplify_cir[OF x1(1)] .
    with x1(2) have "x1 = x"
      by (cases x1) (auto simp: simplify_USub_def)
    then show ?thesis using x1 e' by simp
  qed (use a a1 in \<open>simp_all add: simplify_USub_def\<close>)
qed simp_all

text \<open>
  Claim C9. \<open>simplify_cir\<close> is idempotent: simplifying the result of a simplification
  gives back that result, structurally; where the first simplification raises, so does
  the composition, with the same exception.
\<close>

theorem simplify_cir_idempotent: "simplify_twice e = simplify_cir e"
proof (cases "simplify_cir e")
  case (Inl err)
  then show ?thesis by (simp add: simplify_twice_def)
next
  case (Inr e')
  then show ?thesis using simplify_cir_fixed[OF Inr] by (simp add: simplify_twice_def)
qed

section \<open>Constant folding of a division\<close>

text \<open>
  Claim C8. \<open>simplify_cir\<close> is claimed to return, for every CIR expression, an expression
  that denotes the same integer. It does not where it folds a division of two constants:
  the table \<open>operations\<close> divides with Python's true division, so \<open>7 / 2\<close>, which denotes
  3 (the floored quotient), is folded to the constant \<open>3.5\<close>, which is no integer.
\<close>

theorem simplify_cir_folds_true_division:
  "simplify_cir (CIR_BinOp Div (CIR_Const (PInt 7)) (CIR_Const (PInt 2)) True)
     = Inr (CIR_Const (PFloat (7 / 2)))
   \<and> cir_eval (\<lambda>n. 0) (\<lambda>n d. 1) (CIR_BinOp Div (CIR_Const (PInt 7)) (CIR_Const (PInt 2)) True)
     = Some 3
   \<and> cir_eval (\<lambda>n. 0) (\<lambda>n d. 1) (CIR_Const (PFloat (7 / 2))) = None"
  by (simp add: py_truediv_def)

section \<open>The half-written methods of the collective algebra\<close>

text \<open>
  Claim C10, as amended. \<open>CollIndexExpr.__sub__\<close> returns no value (\<open>None\<close>) for every
  expression whose base is a string and every non-zero \<open>v\<close>, whatever the last recorded
  operator is: the branch that merges into a trailing \<open>-\<close> falls off the end of the
  function like the branch that appends. It returns the expression itself for \<open>v = 0\<close>
  and a new constant for an integer base. \<open>CollTiling.specialized\<close> fails on every call
  with \<open>NameError\<close> for \<open>env\<close>.
\<close>

theorem CollIndexExpr_sub_and_specialized:
  "(\<forall>self v s. base_expr self = BaseStr s \<and> v \<noteq> 0 \<longrightarrow> CollIndexExpr_sub self v = Inr None)
   \<and> (\<forall>self s. base_expr self = BaseStr s \<longrightarrow> CollIndexExpr_sub self 0 = Inr (Some self))
   \<and> (\<forall>self v i. base_expr self = BaseInt i \<longrightarrow>
         CollIndexExpr_sub self v = Inr (Some \<lparr> base_expr = BaseInt (i - v), ops = [] \<rparr>))
   \<and> (\<forall>val rest self spec. specialized val rest self spec = Inl (NameError ''env''))"
  by (simp add: CollIndexExpr_sub_def CollIndexExpr_init_def Let_def specialized_def
      load_global_def coll_algebra_globals_def)

text \<open>
  The claim as stated says that merging into a trailing \<open>-\<close> returns a value. It does
  not: \<open>CollIndexExpr("threadIdx", (("-", 3),)) - 2\<close> is \<open>None\<close>.
\<close>

theorem CollIndexExpr_sub_merge_returns_None:
  "CollIndexExpr_sub \<lparr> base_expr = BaseStr ''threadIdx'', ops = [(''-'', 3)] \<rparr> 2 = Inr None"
  by (simp add: CollIndexExpr_sub_def CollIndexExpr_init_def Let_def)

theorem CollIndexExpr_sub_and_specialized_witness:
  "CollIndexExpr_sub \<lparr> base_expr = BaseStr ''threadIdx'', ops = [(''/'', 4)] \<rparr> 2 = Inr None
   \<and> CollIndexExpr_sub \<lparr> base_expr = BaseStr ''threadIdx'', ops = [(''/'', 4)] \<rparr> 0
        = Inr (Some \<lparr> base_expr = BaseStr ''threadIdx'', ops = [(''/'', 4)] \<rparr>)
   \<and> CollIndexExpr_sub \<lparr> base_expr = BaseInt 7, ops = [] \<rparr> 2
        = Inr (Some \<lparr> base_expr = BaseInt 5, ops = [] \<rparr>)
   \<and> specialized (\<lambda>nm. ()) (\<lambda>env self spec. Inr ())
        \<lparr> tiling_domain = [4], tiling_tile = [4], tiling_offset = [0], tiling_box = [4],
          intra_box_exprs = [\<lparr> base_expr = BaseStr ''threadIdx'', ops = [] \<rparr>] \<rparr>
        \<lparr> spec_partial_domain = [Inr 4], spec_offset = [Inr 0], spec_box = [Inr 2] \<rparr>
        = (Inl (NameError ''env'') :: error + unit)"
proof -
  note t = CollIndexExpr_sub_and_specialized
  have a: "CollIndexExpr_sub \<lparr> base_expr = BaseStr ''threadIdx'', ops = [(''/'', 4)] \<rparr> 2 = Inr None"
    using t[THEN conjunct1, rule_format,
        of "\<lparr> base_expr = BaseStr ''threadIdx'', ops = [(''/'', 4)] \<rparr>" "''threadIdx''" 2]
    by simp
  have b: "CollIndexExpr_sub \<lparr> base_expr = BaseStr ''threadIdx'', ops = [(''/'', 4)] \<rparr> 0
        = Inr (Some \<lparr> base_expr = BaseStr ''threadIdx'', ops = [(''/'', 4)] \<rparr>)"
    using t[THEN conjunct2, THEN conjunct1, rule_format,
        of "\<lparr> base_expr = BaseStr ''threadIdx'', ops = [(''/'', 4)] \<rparr>" "''threadIdx''"]
    by simp
  have c: "CollIndexExpr_sub \<lparr> base_expr = BaseInt 7, ops = [] \<rparr> 2
        = Inr (Some \<lparr> base_expr = BaseInt 5, ops = [] \<rparr>)"
    using t[THEN conjunct2, THEN conjunct2, THEN conjunct1, rule_format,
        of "\<lparr> base_expr = BaseInt 7, ops = [] \<rparr>" 7 2]
    by simp
  show ?thesis
    using a b c t[THEN conjunct2, THEN conjunct2, THEN conjunct2, rule_format] by simp
qed

section \<open>Fresh names in the printer\<close>

text \<open>
  Claim C5. Two distinct symbols are claimed to receive two distinct names. The
  printers' \<open>new_name\<close> renames once and neither checks the new name against the scope
  nor records it: introducing the symbols \<open>x\<close>, \<open>x\<close> and \<open>x_1\<close> in one scope prints the
  second and the third as \<open>x_1\<close>.
\<close>

theorem new_name_collision:
  "map_sum id fst (new_names [Sym ''x'' 1, Sym ''x'' 2, Sym ''x_1'' 3] [Map.empty])
     = Inr [''x'', ''x_1'', ''x_1'']"
  by (simp add: new_name_def str_Sym_def chain_mem_def bump_name_def name_match_def Let_def)

text \<open>On the same symbols the loop of \<open>Compiler.new_varname\<close> finds three distinct names.\<close>

lemma new_varname_same_symbols:
  "map_option (map_sum id fst) (new_varnames [Sym ''x'' 1, Sym ''x'' 2, Sym ''x_1'' 3]
    \<lparr> self_env = [Map.empty], self_names = [Map.empty], self_envtyp = Map.empty,
      self_mems = Map.empty, self_scalar_refs = {}, self_known_strides = Map.empty,
      self_non_const = {}, self_needed_helpers = [], self_window_defns = [],
      self_lines = [], self_tab = [] \<rparr>)
     = Some (Inr [''x'', ''x_1'', ''x_2''])"
  by (simp add: new_varname_def str_Sym_def chain_mem_def bump_name_def name_match_def Let_def
      fresh_loop.simps is_digit_def nat_of_digits_def digit_val_def str_nat.simps digit_char_def)

section \<open>The order of the call-graph walk\<close>

text \<open>
  Claim C7. The walk is claimed to reject every call cycle and to list callees before
  their callers. With procedure 1 (\<open>B\<close>) calling procedure 2 (\<open>C\<close>), the list \<open>[C, B]\<close>
  comes back as \<open>[B, C]\<close>: the caller first. And a procedure 0 (\<open>A\<close>) that calls itself
  is accepted: \<open>visited\<close> does not hold the procedure being walked.
\<close>

theorem find_all_subprocs_caller_first:
  "find_all_subprocs 5
     (\<lambda>r. if r = 0 then \<lparr> proc_name = ''A'', proc_args = [], proc_body = [S_Call 0 []], proc_instr = None \<rparr>
          else if r = 1 then \<lparr> proc_name = ''B'', proc_args = [], proc_body = [S_Call 2 []], proc_instr = None \<rparr>
          else \<lparr> proc_name = ''C'', proc_args = [], proc_body = [S_Pass], proc_instr = None \<rparr>)
     [2, 1] = Some (Inr [1, 2])
   \<and> find_all_subprocs 5
     (\<lambda>r. if r = 0 then \<lparr> proc_name = ''A'', proc_args = [], proc_body = [S_Call 0 []], proc_instr = None \<rparr>
          else if r = 1 then \<lparr> proc_name = ''B'', proc_args = [], proc_body = [S_Call 2 []], proc_instr = None \<rparr>
          else \<lparr> proc_name = ''C'', proc_args = [], proc_body = [S_Pass], proc_instr = None \<rparr>)
     [0] = Some (Inr [0])"
  by (simp add: find_all_subprocs_def LoopIR_SubProcs_def eval_nat_numeral)

section \<open>The static-memory check decides leafness\<close>

lemma body_stmts_append: "body_stmts (xs @ ys) = body_stmts xs @ body_stmts ys"
  by (induction xs) simp_all

lemma allocates_static_sound:
  "(\<forall>name t. S_Alloc name t None \<notin> set (body_stmts ss)) \<Longrightarrow>
     allocates_static_memory w ss =
       Inr (\<exists>name t m. S_Alloc name t (Some m) \<in> set (body_stmts ss) \<and> is_static (memory_of w m))"
  "(\<forall>name t. S_Alloc name t None \<notin> set (stmts_of s)) \<Longrightarrow>
     allocates_static_stmt w s =
       Inr (\<exists>name t m. S_Alloc name t (Some m) \<in> set (stmts_of s) \<and> is_static (memory_of w m))"
proof (induction w ss and w s rule: allocates_static_memory_allocates_static_stmt.induct)
  case (2 w s ss)
  then show ?case by (auto simp: all_conj_distrib)
next
  case (3 w name t mem)
  then show ?case by (cases mem) auto
next
  case (5 w cond body orelse)
  then show ?case by (auto simp: all_conj_distrib)
qed auto

lemma is_leaf_sound:
  "is_leaf_proc w ss = (\<not> (\<exists>f args. S_Call f args \<in> set (body_stmts ss) \<and> proc_instr (proc_of w f) = None))"
  "is_leaf_stmt w s = (\<not> (\<exists>f args. S_Call f args \<in> set (stmts_of s) \<and> proc_instr (proc_of w f) = None))"
proof (induction w ss and w s rule: is_leaf_proc_is_leaf_stmt.induct)
qed auto

text \<open>
  Claim C6. When every \<open>Alloc\<close> of the body carries a memory, the check step of
  \<open>Compiler.__init__\<close> raises \<open>MemGenError\<close> with the message
  \<open>Cannot generate static memory in non-leaf procs\<close> exactly when the body holds, at
  any depth of \<open>For\<close> and \<open>If\<close>, an \<open>Alloc\<close> in a static memory and a \<open>Call\<close> of a
  procedure without an instruction record; otherwise the step passes. So a procedure
  that allocates static memory and calls only instructions, or nothing, passes.
\<close>

theorem static_memory_check_iff:
  assumes "allocs_have_memory (proc_body p)"
  shows "init_static_memory_check w p =
    (if static_alloc_in w (proc_body p) \<and> plain_call_in w (proc_body p)
     then Inl (MemGenError ''Cannot generate static memory in non-leaf procs'')
     else Inr ())"
  using assms allocates_static_sound(1)[of "proc_body p" w] is_leaf_sound(1)[of w "proc_body p"]
  by (simp add: init_static_memory_check_def static_memory_check_def allocs_have_memory_def
      static_alloc_in_def plain_call_in_def)

theorem static_memory_check_iff_witness:
  "allocs_have_memory (proc_body (ex_caller 0))
   \<and> static_alloc_in ex_world (proc_body (ex_caller 0))
   \<and> plain_call_in ex_world (proc_body (ex_caller 0))
   \<and> init_static_memory_check ex_world (ex_caller 0)
       = Inl (MemGenError ''Cannot generate static memory in non-leaf procs'')
   \<and> allocs_have_memory (proc_body (ex_caller 1))
   \<and> static_alloc_in ex_world (proc_body (ex_caller 1))
   \<and> \<not> plain_call_in ex_world (proc_body (ex_caller 1))
   \<and> init_static_memory_check ex_world (ex_caller 1) = Inr ()"
proof -
  have a: "allocs_have_memory (proc_body (ex_caller f))" for f
    by (simp add: allocs_have_memory_def ex_body_def ex_caller_def)
  have s: "static_alloc_in ex_world (proc_body (ex_caller f))" for f
    by (simp add: static_alloc_in_def ex_body_def ex_caller_def ex_world_def ex_memory_def)
  have p0: "plain_call_in ex_world (proc_body (ex_caller 0))"
    by (simp add: plain_call_in_def ex_body_def ex_caller_def ex_world_def ex_proc_def)
  have p1: "\<not> plain_call_in ex_world (proc_body (ex_caller 1))"
    by (simp add: plain_call_in_def ex_body_def ex_caller_def ex_world_def ex_proc_def)
  show ?thesis
    using static_memory_check_iff[of "ex_caller 0" ex_world]
      static_memory_check_iff[of "ex_caller 1" ex_world] a s p0 p1 by simp
qed

section \<open>What compiling an expression leaves unchanged\<close>

lemma set_add_idem: "set_add x (set_add x hs) = set_add x hs"
  by (simp add: set_add_def)

lemma helpers_ok_set_add: "helpers_ok hs \<Longrightarrow> helpers_ok (set_add ''exo_floor_div'' hs)"
  by (auto simp: helpers_ok_def set_add_def)

lemma helpers_step_ok: "helpers_step hs hs' \<Longrightarrow> helpers_ok hs \<Longrightarrow> helpers_ok hs'"
  by (auto simp: helpers_step_def helpers_ok_set_add)

lemma helpers_step_refl: "helpers_step hs hs"
  by (simp add: helpers_step_def)

lemma helpers_step_trans: "helpers_step a b \<Longrightarrow> helpers_step b c \<Longrightarrow> helpers_step a c"
  by (auto simp: helpers_step_def set_add_idem)

lemma comp_cir_helpers:
  "comp_cir sf env e prec hs = Inr (s, hs') \<Longrightarrow>
   hs' = (if calls_helper e then set_add ''exo_floor_div'' hs else hs)"
proof (induction e arbitrary: prec hs s hs')
  case (CIR_BinOp op l r nn)
  from CIR_BinOp.prems obtain ls hs1 rs hs2 where
    l: "comp_cir sf env l (op_prec op) hs = Inr (ls, hs1)" and
    r: "comp_cir sf env r (op_prec op) hs1 = Inr (rs, hs2)"
    by (auto split: sum.splits prod.splits)
  have h1: "hs1 = (if calls_helper l then set_add ''exo_floor_div'' hs else hs)"
    by (rule CIR_BinOp.IH(1)[OF l])
  have h2: "hs2 = (if calls_helper r then set_add ''exo_floor_div'' hs1 else hs1)"
    by (rule CIR_BinOp.IH(2)[OF r])
  have h': "hs' = (if op = Div \<and> \<not> native_div l then set_add ''exo_floor_div'' hs2 else hs2)"
    using CIR_BinOp.prems l r by (auto simp: Let_def call_static_helper_def split: if_splits)
  show ?case using h1 h2 h' by (auto simp: set_add_idem)
next
  case (CIR_USub a nn)
  from CIR_USub.prems obtain s1 where a: "comp_cir sf env a prec_usub hs = Inr (s1, hs')"
    by (auto split: sum.splits prod.splits)
  show ?case using CIR_USub.IH[OF a] by simp
qed (auto split: option.splits)

lemma same_but_sets_refl: "same_but_sets c c"
  unfolding same_but_sets_def
  by (rule exI[of _ "self_needed_helpers c"], rule exI[of _ "self_window_defns c"]) simp

lemma same_but_sets_helpers: "same_but_sets c (c\<lparr>self_needed_helpers := hs\<rparr>)"
  unfolding same_but_sets_def
  by (rule exI[of _ hs], rule exI[of _ "self_window_defns c"]) simp

lemma same_but_sets_windows: "same_but_sets c (c\<lparr>self_window_defns := wd\<rparr>)"
  unfolding same_but_sets_def
  by (rule exI[of _ "self_needed_helpers c"], rule exI[of _ wd]) simp

lemma same_but_sets_trans:
  assumes "same_but_sets a b" "same_but_sets b c"
  shows "same_but_sets a c"
proof -
  from assms(1) obtain hs wd where b: "b = a\<lparr>self_needed_helpers := hs, self_window_defns := wd\<rparr>"
    unfolding same_but_sets_def by blast
  from assms(2) obtain hs' wd' where c: "c = b\<lparr>self_needed_helpers := hs', self_window_defns := wd'\<rparr>"
    unfolding same_but_sets_def by blast
  show ?thesis unfolding same_but_sets_def
    by (rule exI[of _ hs'], rule exI[of _ wd']) (simp add: b c)
qed

lemma keeps_refl: "keeps c c"
  by (simp add: keeps_def same_but_sets_refl helpers_step_refl)

lemma keeps_trans: "keeps a b \<Longrightarrow> keeps b c \<Longrightarrow> keeps a c"
  unfolding keeps_def using same_but_sets_trans helpers_step_trans by blast

lemma keeps_helpers: "helpers_step (self_needed_helpers c) hs \<Longrightarrow> keeps c (c\<lparr>self_needed_helpers := hs\<rparr>)"
  by (simp add: keeps_def same_but_sets_helpers)

lemma keeps_windows: "keeps c (c\<lparr>self_window_defns := wd\<rparr>)"
  by (simp add: keeps_def same_but_sets_windows helpers_step_refl)

lemma comp_simplified_keeps:
  assumes "comp_simplified w e prec c = Inr (s, c')"
  shows "keeps c c'"
proof -
  from assms obtain e' hs where e': "simplify_cir e = Inr e'"
    and cc: "comp_cir (str_float w) (chain_lookup (self_env c)) e' prec (self_needed_helpers c) = Inr (s, hs)"
    and c': "c' = c\<lparr>self_needed_helpers := hs\<rparr>"
    by (auto simp: comp_simplified_def split: sum.splits prod.splits)
  have "helpers_step (self_needed_helpers c) hs"
    using comp_cir_helpers[OF cc] by (simp add: helpers_step_def)
  then show ?thesis unfolding c' by (rule keeps_helpers)
qed

lemma comp_all_simplified_keeps:
  "comp_all_simplified w es prec c = Inr (ss, c') \<Longrightarrow> keeps c c'"
proof (induction es arbitrary: c ss c')
  case Nil then show ?case by (simp add: keeps_refl)
next
  case (Cons e es)
  from Cons.prems obtain s1 c1 ss1 where a: "comp_simplified w e prec c = Inr (s1, c1)"
    and b: "comp_all_simplified w es prec c1 = Inr (ss1, c')"
    by (auto split: sum.splits prod.splits)
  show ?case using comp_simplified_keeps[OF a] Cons.IH[OF b] keeps_trans by blast
qed

lemma access_str_keeps:
  assumes "access_str w nm idx c = Inr (s, c')"
  shows "keeps c c'"
proof -
  from assms obtain e s1 where "comp_simplified w e 0 c = Inr (s1, c')"
    by (auto simp: access_str_def split: option.splits sum.splits prod.splits if_splits)
  then show ?thesis by (rule comp_simplified_keeps)
qed

lemma get_window_type_keeps:
  assumes "get_window_type w t ic c = Inr (s, c')"
  shows "keeps c c'"
proof -
  from assms obtain wd where "c' = c\<lparr>self_window_defns := wd\<rparr>"
    by (auto simp: get_window_type_def Let_def split: option.splits sum.splits prod.splits if_splits)
  then show ?thesis by (simp add: keeps_windows)
qed

lemma window_struct_fields_keeps:
  assumes "window_struct_fields w name idx c = Inr (r, c')"
  shows "keeps c c'"
proof -
  from assms obtain cirs idxs c1 strs ss where
    a: "comp_all_simplified w cirs 0 c = Inr (idxs, c1)" and
    b: "comp_all_simplified w strs 0 c1 = Inr (ss, c')"
    by (auto simp: window_struct_fields_def split: option.splits sum.splits prod.splits if_splits)
  show ?thesis using comp_all_simplified_keeps[OF a] comp_all_simplified_keeps[OF b] by (rule keeps_trans)
qed

lemma comp_Read_keeps:
  assumes "comp_Read w name idx c = Inr (s, c')"
  shows "keeps c c'"
proof -
  from assms have "c' = c \<or> access_str w name idx c = Inr (s, c')"
    by (auto simp: comp_Read_def split: option.splits sum.splits prod.splits if_splits)
  then show ?thesis using access_str_keeps keeps_refl by blast
qed

lemma comp_e_keeps:
  "comp_e w e prec c = Inr (s, c') \<Longrightarrow> keeps c c'"
  "comp_args w es c = Inr (ss, c') \<Longrightarrow> keeps c c'"
proof (induction w e prec c and w es c arbitrary: s c' and ss c' rule: comp_e_comp_args.induct)
  case (1 w name idx t prec c)
  then show ?case by (auto dest: comp_Read_keeps)
next
  case (2 w name idx t prec c)
  from 2 obtain ws c1 r where a: "get_window_type w (Inl t) None c = Inr (ws, c1)"
    and b: "window_struct_fields w name idx c1 = Inr (r, c')"
    by (auto split: sum.splits prod.splits)
  show ?case using get_window_type_keeps[OF a] window_struct_fields_keeps[OF b] by (rule keeps_trans)
next
  case (3 w v t prec c)
  then show ?case by (auto split: sum.splits simp: keeps_refl)
next
  case (4 w op lhs rhs t prec c)
  define lp where "lp = (if op = Div \<and> \<not> is_numeric t then 0 else op_prec op)"
  from 4(3) obtain l c1 r c2 where a: "comp_e w lhs lp c = Inr (l, c1)"
    and b: "comp_e w rhs (lp + 1) c1 = Inr (r, c2)"
    and c': "c' = c2 \<or> c' = c2\<lparr>self_needed_helpers := set_add ''exo_floor_div'' (self_needed_helpers c2)\<rparr>"
    by (auto simp: Let_def lp_def call_static_helper_def split: sum.splits prod.splits if_splits)
  have k1: "keeps c c1" using 4(1)[OF refl refl refl] a unfolding lp_def by blast
  have k2: "keeps c1 c2" using 4(2)[OF refl refl refl _ refl] a b unfolding lp_def by blast
  have k3: "keeps c2 c'" using c' keeps_refl[of c2]
      keeps_helpers[of c2 "set_add ''exo_floor_div'' (self_needed_helpers c2)"]
    by (auto simp: helpers_step_def)
  show ?case using k1 k2 k3 keeps_trans by blast
next
  case (5 w arg t prec c)
  from 5(2) obtain s1 where "comp_e w arg prec_usub c = Inr (s1, c')"
    by (auto split: sum.splits prod.splits)
  then show ?case by (rule 5(1))
next
  case (6 w f args t prec c)
  from 6(2) obtain ss where "comp_args w args c = Inr (ss, c')"
    by (auto split: sum.splits prod.splits)
  then show ?case by (rule 6(1))
next
  case (7 w name d t prec c)
  from 7 obtain e where "comp_simplified w e 0 c = Inr (s, c')"
    by (auto split: option.splits sum.splits prod.splits if_splits)
  then show ?case by (rule comp_simplified_keeps)
next
  case (8 w cfg field t prec c)
  then show ?case by (auto split: if_splits simp: keeps_refl)
next
  case (9 w c)
  then show ?case by (simp add: keeps_refl)
next
  case (10 w a rest c)
  from 10(3) obtain s1 c1 ss1 where a: "comp_e w a 0 c = Inr (s1, c1)"
    and b: "comp_args w rest c1 = Inr (ss1, c')"
    by (auto split: sum.splits prod.splits)
  have k1: "keeps c c1" using 10(1)[OF a] .
  have k2: "keeps c1 c'" using 10(2)[OF a refl b] .
  show ?case using k1 k2 by (rule keeps_trans)
qed

lemma assign_lhs_keeps:
  assumes "assign_lhs w name idx c = Inr (lhs, c1)"
  shows "keeps c c1"
proof -
  from assms have "c1 = c \<or> access_str w name idx c = Inr (lhs, c1)"
    by (auto simp: assign_lhs_def split: option.splits sum.splits if_splits)
  then show ?thesis using access_str_keeps keeps_refl by blast
qed

lemma comp_Assign_Reduce_line:
  assumes "comp_Assign_Reduce w hook st name t idx rhs c = Inr c'"
  shows "\<exists>lhs c1 rhs_s c2 rhs_c mem.
           assign_lhs w name idx c = Inr (lhs, c1) \<and> comp_e w rhs 0 c1 = Inr (rhs_s, c2)
           \<and> assign_cast w t rhs rhs_s = Inr rhs_c \<and> self_mems c name = Some mem \<and> keeps c c2
           \<and> c' = add_line (hook (memory_of w mem) st lhs rhs_c) c2"
proof -
  from assms obtain lhs c1 where l: "assign_lhs w name idx c = Inr (lhs, c1)"
    unfolding comp_Assign_Reduce_def by (cases "assign_lhs w name idx c") auto
  from assms l obtain rhs_s c2 where r: "comp_e w rhs 0 c1 = Inr (rhs_s, c2)"
    unfolding comp_Assign_Reduce_def by (cases "comp_e w rhs 0 c1") auto
  from assms l r obtain rhs_c where k: "assign_cast w t rhs rhs_s = Inr rhs_c"
    unfolding comp_Assign_Reduce_def by (cases "assign_cast w t rhs rhs_s") auto
  from assms l r k obtain mem where m: "self_mems c2 name = Some mem"
    unfolding comp_Assign_Reduce_def by (cases "self_mems c2 name") auto
  have c': "c' = add_line (hook (memory_of w mem) st lhs rhs_c) c2"
    using assms l r k m unfolding comp_Assign_Reduce_def by simp
  have k1: "keeps c c1" using l by (rule assign_lhs_keeps)
  have k2: "keeps c1 c2" using r by (rule comp_e_keeps(1))
  have kk: "keeps c c2" using k1 k2 by (rule keeps_trans)
  then have "self_mems c2 = self_mems c" by (auto simp: keeps_def same_but_sets_def)
  then have m': "self_mems c name = Some mem" using m by simp
  show ?thesis using l r k m' kk c' by blast
qed

lemma add_line_helpers: "self_needed_helpers (add_line l c) = self_needed_helpers c"
  by (simp add: add_line_def)

section \<open>Which expressions reach the helper\<close>

lemma helpers_if_trans:
  assumes "b = (if A then set_add x a else a)" "c = (if B then set_add x b else b)"
  shows "c = (if A \<or> B then set_add x a else a)"
  using assms by (auto simp: set_add_idem)

lemma keeps_same: "keeps c c1 \<Longrightarrow> same_but_sets c c1"
  by (simp add: keeps_def)

lemma get_strides_frame: "same_but_sets c c1 \<Longrightarrow> get_strides w c1 name t = get_strides w c name t"
  by (auto simp: same_but_sets_def get_strides_def)

lemma get_idx_offset_frame:
  "same_but_sets c c1 \<Longrightarrow> get_idx_offset w c1 name t idx = get_idx_offset w c name t idx"
  by (simp add: get_idx_offset_def get_strides_frame
      cong: option.case_cong sum.case_cong if_cong)

lemma frame_fields:
  assumes "same_but_sets c c1"
  shows "self_envtyp c1 = self_envtyp c" "self_mems c1 = self_mems c"
    "self_scalar_refs c1 = self_scalar_refs c" "self_env c1 = self_env c"
    "self_non_const c1 = self_non_const c" "self_known_strides c1 = self_known_strides c"
  using assms by (auto simp: same_but_sets_def)

lemma access_calls_helper_frame:
  "same_but_sets c c1 \<Longrightarrow> access_calls_helper w c1 nm idx = access_calls_helper w c nm idx"
  by (simp add: access_calls_helper_def frame_fields get_idx_offset_frame
      cong: option.case_cong sum.case_cong if_cong)

lemma read_uses_access_frame: "same_but_sets c c1 \<Longrightarrow> read_uses_access c1 name = read_uses_access c name"
  by (simp add: read_uses_access_def frame_fields
      cong: option.case_cong sum.case_cong if_cong)

lemma window_calls_helper_frame:
  "same_but_sets c c1 \<Longrightarrow> window_calls_helper w c1 name idx = window_calls_helper w c name idx"
  by (simp add: window_calls_helper_def frame_fields get_strides_frame
      cong: option.case_cong sum.case_cong if_cong)

lemma stride_calls_helper_frame:
  "same_but_sets c c1 \<Longrightarrow> stride_calls_helper w c1 name d = stride_calls_helper w c name d"
  by (simp add: stride_calls_helper_def frame_fields get_strides_frame
      cong: option.case_cong sum.case_cong if_cong)

lemma e_calls_helper_frame:
  "same_but_sets c c1 \<Longrightarrow> e_calls_helper w c1 e = e_calls_helper w c e"
  "same_but_sets c c1 \<Longrightarrow> es_call_helper w c1 es = es_call_helper w c es"
proof (induction w c e and w c es rule: e_calls_helper_es_call_helper.induct)
qed (simp_all add: access_calls_helper_frame read_uses_access_frame window_calls_helper_frame
    stride_calls_helper_frame)

lemma comp_simplified_exact:
  assumes "comp_simplified w e prec c = Inr (s, c')"
  shows "self_needed_helpers c' =
         (if idx_calls_helper e then set_add ''exo_floor_div'' (self_needed_helpers c) else self_needed_helpers c)"
proof -
  from assms obtain e' hs where e': "simplify_cir e = Inr e'"
    and cc: "comp_cir (str_float w) (chain_lookup (self_env c)) e' prec (self_needed_helpers c) = Inr (s, hs)"
    and c': "c' = c\<lparr>self_needed_helpers := hs\<rparr>"
    by (auto simp: comp_simplified_def split: sum.splits prod.splits)
  show ?thesis using comp_cir_helpers[OF cc] e' c' by (simp add: idx_calls_helper_def)
qed

lemma comp_all_simplified_exact:
  "comp_all_simplified w es prec c = Inr (ss, c') \<Longrightarrow>
   self_needed_helpers c' =
     (if list_ex idx_calls_helper es then set_add ''exo_floor_div'' (self_needed_helpers c)
      else self_needed_helpers c)"
proof (induction es arbitrary: c ss c')
  case Nil then show ?case by simp
next
  case (Cons e es)
  from Cons.prems obtain s1 c1 ss1 where a: "comp_simplified w e prec c = Inr (s1, c1)"
    and b: "comp_all_simplified w es prec c1 = Inr (ss1, c')"
    by (auto split: sum.splits prod.splits)
  have "self_needed_helpers c' =
        (if idx_calls_helper e \<or> list_ex idx_calls_helper es
         then set_add ''exo_floor_div'' (self_needed_helpers c) else self_needed_helpers c)"
    using comp_simplified_exact[OF a] Cons.IH[OF b] by (rule helpers_if_trans)
  then show ?case by simp
qed

lemma access_str_exact:
  assumes "access_str w nm idx c = Inr (s, c')"
  shows "self_needed_helpers c' =
         (if access_calls_helper w c nm idx then set_add ''exo_floor_div'' (self_needed_helpers c)
          else self_needed_helpers c)"
proof -
  from assms obtain t where t: "self_envtyp c nm = Some t"
    unfolding access_str_def by (cases "self_envtyp c nm") auto
  from assms t obtain cirs where ci: "map_result (lift_to_cir (check_non_neg w)) idx = Inr cirs"
    unfolding access_str_def by (cases "map_result (lift_to_cir (check_non_neg w)) idx") auto
  from assms t ci obtain ie where ie: "get_idx_offset w c nm t cirs = Inr ie"
    unfolding access_str_def by (cases "get_idx_offset w c nm t cirs") auto
  from assms t ci ie obtain s1 where cs: "comp_simplified w ie 0 c = Inr (s1, c')"
    unfolding access_str_def
    by (cases "comp_simplified w ie 0 c") (auto split: sum.splits if_splits)
  show ?thesis using comp_simplified_exact[OF cs] t ci ie by (simp add: access_calls_helper_def)
qed

lemma comp_Read_exact:
  assumes "comp_Read w name idx c = Inr (s, c')"
  shows "self_needed_helpers c' =
         (if read_uses_access c name \<and> access_calls_helper w c name idx
          then set_add ''exo_floor_div'' (self_needed_helpers c) else self_needed_helpers c)"
proof (cases "read_uses_access c name")
  case True
  then have "comp_Read w name idx c = access_str w name idx c \<or> (\<exists>err. comp_Read w name idx c = Inl err)"
    by (auto simp: comp_Read_def read_uses_access_def split: option.splits)
  then have "access_str w name idx c = Inr (s, c')" using assms by auto
  from access_str_exact[OF this] True show ?thesis by simp
next
  case False
  then have "c' = c" using assms
    by (auto simp: comp_Read_def read_uses_access_def split: option.splits sum.splits if_splits)
  then show ?thesis using False by simp
qed

lemma window_struct_fields_exact:
  assumes "window_struct_fields w name idx c = Inr (r, c2)"
  shows "self_needed_helpers c2 =
         (if window_calls_helper w c name idx then set_add ''exo_floor_div'' (self_needed_helpers c)
          else self_needed_helpers c)"
proof -
  from assms obtain base where b: "env_name c name = Inr base"
    unfolding window_struct_fields_def by (cases "env_name c name") auto
  from assms b obtain basetyp where t: "self_envtyp c name = Some basetyp"
    unfolding window_struct_fields_def by (cases "self_envtyp c name") auto
  from assms b t obtain mem where m: "self_mems c name = Some mem"
    unfolding window_struct_fields_def by (cases "self_mems c name") auto
  from assms b t m obtain cirs where
    ci: "map_result (\<lambda>a. lift_to_cir (check_non_neg w) (w_lo a)) idx = Inr cirs"
    unfolding window_struct_fields_def
    by (cases "map_result (\<lambda>a. lift_to_cir (check_non_neg w) (w_lo a)) idx") auto
  from assms b t m ci obtain idxs c1 where ix: "comp_all_simplified w cirs 0 c = Inr (idxs, c1)"
    unfolding window_struct_fields_def by (cases "comp_all_simplified w cirs 0 c") auto
  from assms b t m ci ix obtain all_strides where st: "get_strides w c1 name basetyp = Inr all_strides"
    unfolding window_struct_fields_def by (cases "get_strides w c1 name basetyp") auto
  from assms b t m ci ix st obtain all_strides_s c2' where
    ss: "comp_all_simplified w all_strides 0 c1 = Inr (all_strides_s, c2')"
    unfolding window_struct_fields_def by (cases "comp_all_simplified w all_strides 0 c1") auto
  have c2: "c2' = c2"
    using assms b t m ci ix st ss unfolding window_struct_fields_def by (auto split: if_splits)
  have st': "get_strides w c name basetyp = Inr all_strides"
    using st get_strides_frame[OF keeps_same[OF comp_all_simplified_keeps[OF ix]]] by simp
  have "self_needed_helpers c2 =
        (if list_ex idx_calls_helper cirs \<or> list_ex idx_calls_helper all_strides
         then set_add ''exo_floor_div'' (self_needed_helpers c) else self_needed_helpers c)"
    using comp_all_simplified_exact[OF ix] comp_all_simplified_exact[OF ss[unfolded c2]]
    by (rule helpers_if_trans)
  then show ?thesis using t ci st' by (simp add: window_calls_helper_def)
qed

lemma get_window_type_helpers:
  assumes "get_window_type w t ic c = Inr (s, c')"
  shows "self_needed_helpers c' = self_needed_helpers c"
proof -
  from assms obtain wd where "c' = c\<lparr>self_window_defns := wd\<rparr>"
    by (auto simp: get_window_type_def Let_def split: option.splits sum.splits prod.splits if_splits)
  then show ?thesis by simp
qed

lemma comp_e_exact:
  "comp_e w e prec c = Inr (s, c') \<Longrightarrow>
     self_needed_helpers c' =
       (if e_calls_helper w c e then set_add ''exo_floor_div'' (self_needed_helpers c)
        else self_needed_helpers c)"
  "comp_args w es c = Inr (ss, c') \<Longrightarrow>
     self_needed_helpers c' =
       (if es_call_helper w c es then set_add ''exo_floor_div'' (self_needed_helpers c)
        else self_needed_helpers c)"
proof (induction w e prec c and w es c arbitrary: s c' and ss c' rule: comp_e_comp_args.induct)
  case (1 w name idx t prec c)
  then have "comp_Read w name idx c = Inr (s, c')" by simp
  from comp_Read_exact[OF this] show ?case by simp
next
  case (2 w name idx t prec c)
  from 2 obtain ws c1 r where a: "get_window_type w (Inl t) None c = Inr (ws, c1)"
    and b: "window_struct_fields w name idx c1 = Inr (r, c')"
    by (auto split: sum.splits prod.splits)
  have f: "same_but_sets c c1" using get_window_type_keeps[OF a] by (rule keeps_same)
  show ?case
    using window_struct_fields_exact[OF b] get_window_type_helpers[OF a] window_calls_helper_frame[OF f]
    by simp
next
  case (3 w v t prec c)
  then show ?case by (auto split: sum.splits)
next
  case (4 w op lhs rhs t prec c)
  define lp where "lp = (if op = Div \<and> \<not> is_numeric t then 0 else op_prec op)"
  define hd where "hd = (op = Div \<and> \<not> is_numeric t \<and> \<not> check_non_neg w (IR_BinOp op lhs rhs t))"
  from 4(3) obtain l c1 r c2 where a: "comp_e w lhs lp c = Inr (l, c1)"
    and b: "comp_e w rhs (lp + 1) c1 = Inr (r, c2)"
    and c': "self_needed_helpers c' =
             (if hd then set_add ''exo_floor_div'' (self_needed_helpers c2) else self_needed_helpers c2)"
    by (auto simp: Let_def lp_def hd_def call_static_helper_def split: sum.splits prod.splits if_splits)
  have h1: "self_needed_helpers c1 =
       (if e_calls_helper w c lhs then set_add ''exo_floor_div'' (self_needed_helpers c)
        else self_needed_helpers c)"
    using 4(1)[OF refl refl refl] a unfolding lp_def by blast
  have h2: "self_needed_helpers c2 =
       (if e_calls_helper w c1 rhs then set_add ''exo_floor_div'' (self_needed_helpers c1)
        else self_needed_helpers c1)"
    using 4(2)[OF refl refl refl _ refl] a b unfolding lp_def by blast
  have f: "same_but_sets c c1" using comp_e_keeps(1)[OF a] by (rule keeps_same)
  have h12: "self_needed_helpers c2 =
       (if e_calls_helper w c lhs \<or> e_calls_helper w c rhs
        then set_add ''exo_floor_div'' (self_needed_helpers c) else self_needed_helpers c)"
    using h1 h2[unfolded e_calls_helper_frame(1)[OF f]] by (rule helpers_if_trans)
  have "self_needed_helpers c' =
       (if (e_calls_helper w c lhs \<or> e_calls_helper w c rhs) \<or> hd
        then set_add ''exo_floor_div'' (self_needed_helpers c) else self_needed_helpers c)"
    using h12 c' by (rule helpers_if_trans)
  then show ?case by (simp add: hd_def disj_assoc)
next
  case (5 w arg t prec c)
  from 5(2) obtain s1 where "comp_e w arg prec_usub c = Inr (s1, c')"
    by (auto split: sum.splits prod.splits)
  from 5(1)[OF this] show ?case by simp
next
  case (6 w f args t prec c)
  from 6(2) obtain ss where "comp_args w args c = Inr (ss, c')"
    by (auto split: sum.splits prod.splits)
  from 6(1)[OF this] show ?case by simp
next
  case (7 w name d t prec c)
  from 7 obtain basetyp where t: "self_envtyp c name = Some basetyp"
    by (cases "self_envtyp c name") auto
  from 7 t obtain strides where st: "get_strides w c name basetyp = Inr strides"
    by (cases "get_strides w c name basetyp") auto
  from 7 t st have d: "d < length strides" and cs: "comp_simplified w (strides ! d) 0 c = Inr (s, c')"
    by (auto split: if_splits)
  show ?case using comp_simplified_exact[OF cs] t st d by (simp add: stride_calls_helper_def)
next
  case (8 w cfg field t prec c)
  then show ?case by (auto split: if_splits)
next
  case (9 w c)
  then show ?case by simp
next
  case (10 w a rest c)
  from 10(3) obtain s1 c1 ss1 where a: "comp_e w a 0 c = Inr (s1, c1)"
    and b: "comp_args w rest c1 = Inr (ss1, c')"
    by (auto split: sum.splits prod.splits)
  have f: "same_but_sets c c1" using comp_e_keeps(1)[OF a] by (rule keeps_same)
  have "self_needed_helpers c' =
       (if e_calls_helper w c a \<or> es_call_helper w c rest
        then set_add ''exo_floor_div'' (self_needed_helpers c) else self_needed_helpers c)"
    using 10(1)[OF a] 10(2)[OF a refl b, unfolded e_calls_helper_frame(2)[OF f]]
    by (rule helpers_if_trans)
  then show ?case by simp
qed

lemma assign_lhs_exact:
  assumes "assign_lhs w name idx c = Inr (lhs, c1)"
  shows "self_needed_helpers c1 =
     (if name \<notin> self_scalar_refs c \<and>
         (case self_envtyp c name of None \<Rightarrow> False | Some nt \<Rightarrow> \<not> is_real_scalar nt) \<and>
         access_calls_helper w c name idx
      then set_add ''exo_floor_div'' (self_needed_helpers c) else self_needed_helpers c)"
proof (cases "name \<notin> self_scalar_refs c \<and>
         (case self_envtyp c name of None \<Rightarrow> False | Some nt \<Rightarrow> \<not> is_real_scalar nt)")
  case True
  then have "assign_lhs w name idx c = access_str w name idx c"
    by (auto simp: assign_lhs_def split: option.splits)
  then have "access_str w name idx c = Inr (lhs, c1)" using assms by simp
  from access_str_exact[OF this] True show ?thesis by simp
next
  case False
  then have "c1 = c" using assms
    by (auto simp: assign_lhs_def split: option.splits sum.splits if_splits)
  then show ?thesis using False by auto
qed

lemma comp_Assign_Reduce_exact:
  assumes "comp_Assign_Reduce w hook st name t idx rhs c = Inr c'"
  shows "self_needed_helpers c' =
     (if assign_calls_helper w c name idx rhs then set_add ''exo_floor_div'' (self_needed_helpers c)
      else self_needed_helpers c)"
proof -
  from comp_Assign_Reduce_line[OF assms] obtain lhs c1 rhs_s c2 rhs_c mem where
    l: "assign_lhs w name idx c = Inr (lhs, c1)" and r: "comp_e w rhs 0 c1 = Inr (rhs_s, c2)"
    and c': "c' = add_line (hook (memory_of w mem) st lhs rhs_c) c2" by blast
  have f: "same_but_sets c c1" using assign_lhs_keeps[OF l] by (rule keeps_same)
  have "self_needed_helpers c2 =
     (if (name \<notin> self_scalar_refs c \<and>
          (case self_envtyp c name of None \<Rightarrow> False | Some nt \<Rightarrow> \<not> is_real_scalar nt) \<and>
          access_calls_helper w c name idx) \<or> e_calls_helper w c rhs
      then set_add ''exo_floor_div'' (self_needed_helpers c) else self_needed_helpers c)"
    using assign_lhs_exact[OF l] comp_e_exact(1)[OF r, unfolded e_calls_helper_frame(1)[OF f]]
    by (rule helpers_if_trans)
  then show ?thesis unfolding c' by (simp add: add_line_helpers assign_calls_helper_def)
qed

section \<open>The floored-division helper in C's int\<close>

lemma c_div_neg: "a \<le> 0 \<Longrightarrow> b > 0 \<Longrightarrow> c_div a b = - ((- a) div b)"
  by (cases "a = 0") (simp_all add: c_div_def sgn_if)

lemma c_div_nonneg: "a \<ge> 0 \<Longrightarrow> b > 0 \<Longrightarrow> c_div a b = a div b"
  by (cases "a = 0") (simp_all add: c_div_def sgn_if)

lemma neg_shift_div:
  fixes n q :: int
  assumes q: "q > 0"
  shows "(q - 1 - n) div q = - (n div q)"
proof (rule int_div_pos_eq)
  show "q - 1 - n = q * - (n div q) + (q - 1 - n mod q)"
    using mult_div_mod_eq[of q n] by (simp add: algebra_simps)
  have "n mod q < q" "0 \<le> n mod q" using q by simp_all
  then show "0 \<le> q - 1 - n mod q" "q - 1 - n mod q < q" by linarith+
qed

lemma c_div_shifted: 
  assumes "n < 0" "q > 0"
  shows "c_div (n - (q - 1)) q = n div q"
proof -
  have le: "n - (q - 1) \<le> 0" using assms by simp
  have "c_div (n - (q - 1)) q = - ((q - 1 - n) div q)"
    using c_div_neg[OF le assms(2)] by (simp add: algebra_simps)
  then show ?thesis using neg_shift_div[OF assms(2), of n] by simp
qed

lemma c_int_ok_consts:
  assumes "c_int_ok bits q" "0 < q"
  shows "c_int_ok bits 0" "c_int_ok bits 1" "c_int_ok bits (q - 1)"
  using assms by (simp_all add: c_int_ok_def)

lemma c_int_ok_div_nonneg:
  assumes "c_int_ok bits n" "0 \<le> n" "0 < q"
  shows "c_int_ok bits (n div q)"
proof -
  have "n div q \<le> n" using zdiv_mono2[of n 1 q] assms(2,3) by simp
  moreover have "0 \<le> n div q" using assms(2,3) by (simp add: pos_imp_zdiv_nonneg_iff)
  ultimately show ?thesis using assms(1) by (simp add: c_int_ok_def)
qed

lemma c_int_ok_div_neg:
  assumes "c_int_ok bits n" "n < 0" "0 < q"
  shows "c_int_ok bits (n div q)"
proof -
  have dn: "n \<le> n div q" using zdiv_mono2_neg[of n 1 q] assms(2,3) by simp
  have up: "n div q < 0" using assms(2,3) by (simp add: pos_imp_zdiv_neg_iff)
  have p2: "(0::int) < 2 ^ (bits - 1)" by simp
  show ?thesis using dn up assms(1) p2 unfolding c_int_ok_def by linarith
qed

lemma exo_floor_div_c_unfold:
  assumes "c_int_ok bits n" "c_int_ok bits q" "0 < q"
  shows "exo_floor_div_c bits wrap n q =
     (if 0 \<le> n then (if c_int_ok bits (c_div n q) then Some (c_div n q) else None)
      else (case c_fit bits wrap (n - (q - 1)) of
              None \<Rightarrow> None
            | Some v \<Rightarrow> if c_int_ok bits (c_div v q) then Some (c_div v q) else None))"
  using assms c_int_ok_consts[OF assms(2,3)]
  by (simp add: exo_floor_div_c_def c_call_def exo_floor_div_fn_def c_fit_def Let_def)

lemma exo_floor_div_c_floor:
  assumes n: "c_int_ok bits n" and q: "c_int_ok bits q" and pos: "0 < q"
      and fits: "0 \<le> n \<or> - (2 ^ (bits - 1)) \<le> n - (q - 1)"
  shows "exo_floor_div_c bits wrap n q = Some (n div q)"
proof (cases "0 \<le> n")
  case True
  have d: "c_div n q = n div q" using True pos by (rule c_div_nonneg)
  show ?thesis
    using True d c_int_ok_div_nonneg[OF n True pos] by (simp add: exo_floor_div_c_unfold[OF n q pos])
next
  case False
  then have neg: "n < 0" by simp
  have lo: "- (2 ^ (bits - 1)) \<le> n - (q - 1)" using fits False by simp
  have p2: "(0::int) < 2 ^ (bits - 1)" by simp
  have ok: "c_int_ok bits (n - (q - 1))" unfolding c_int_ok_def using lo neg pos p2 by linarith
  have d: "c_div (n - (q - 1)) q = n div q" using neg pos by (rule c_div_shifted)
  show ?thesis
    using False ok d c_int_ok_div_neg[OF n neg pos]
    by (simp add: exo_floor_div_c_unfold[OF n q pos] c_fit_def)
qed

lemma exo_floor_div_c_overflow:
  assumes n: "c_int_ok bits n" and q: "c_int_ok bits q" and pos: "0 < q"
      and neg: "n < 0" and ov: "n - (q - 1) < - (2 ^ (bits - 1))"
  shows "exo_floor_div_c bits False n q = None"
    and "exo_floor_div_c bits True n q = Some ((n - (q - 1) + 2 ^ bits) div q)"
    and "0 \<le> (n - (q - 1) + 2 ^ bits) div q"
    and "n div q < 0"
proof -
  define m :: int where "m = 2 ^ (bits - 1)"
  define v where "v = n - (q - 1)"
  have nr: "- m \<le> n" and qr: "q < m" using n q by (simp_all add: c_int_ok_def m_def)
  have m2: "2 \<le> m" using pos qr by linarith
  have "bits \<noteq> 0"
  proof
    assume "bits = 0"
    then have "m = 1" by (simp add: m_def)
    then show False using m2 by simp
  qed
  then have pw: "(2::int) ^ bits = 2 * m" unfolding m_def by (cases bits) simp_all
  have vlo: "- 2 * m + 2 \<le> v" using nr qr by (simp add: v_def)
  have vhi: "v < - m" using ov by (simp add: v_def m_def)
  have nok: "\<not> c_int_ok bits v" using vhi by (simp add: c_int_ok_def m_def)
  have "(v + m) mod (2 * m) = (v + m + 2 * m) mod (2 * m)"
    by (rule mod_add_self2[symmetric])
  also have "\<dots> = v + m + 2 * m" using vlo vhi m2 by (intro mod_pos_pos_trivial) linarith+
  finally have md: "(v + m) mod (2 * m) = v + m + 2 * m" .
  have cw: "c_wrap bits v = (v + m) mod (2 * m) - m"
    by (simp only: c_wrap_def pw m_def[symmetric])
  have wr: "c_wrap bits v = v + 2 * m" unfolding cw md by simp
  have w0: "0 \<le> v + 2 * m" using vlo by linarith
  have wok: "c_int_ok bits (v + 2 * m)" unfolding c_int_ok_def m_def[symmetric] using vlo vhi m2 by linarith
  have d: "c_div (v + 2 * m) q = (v + 2 * m) div q" using w0 pos by (rule c_div_nonneg)
  have dok: "c_int_ok bits ((v + 2 * m) div q)" using wok w0 pos by (rule c_int_ok_div_nonneg)
  have f: "\<not> 0 \<le> n" using neg by simp
  show "exo_floor_div_c bits False n q = None"
    using f nok by (simp add: exo_floor_div_c_unfold[OF n q pos] c_fit_def v_def)
  show "exo_floor_div_c bits True n q = Some ((n - (q - 1) + 2 ^ bits) div q)"
    using f nok wr d dok by (simp add: exo_floor_div_c_unfold[OF n q pos] c_fit_def v_def[symmetric] pw)
  show "0 \<le> (n - (q - 1) + 2 ^ bits) div q"
    using w0 pos by (simp add: v_def[symmetric] pw pos_imp_zdiv_nonneg_iff)
  show "n div q < 0" using neg pos by (simp add: pos_imp_zdiv_neg_iff)
qed

lemma helper_text_is_function: "c_function_text exo_floor_div_fn = exo_floor_div_text"
  by (simp add: c_function_text_def exo_floor_div_fn_def exo_floor_div_text_def str_int_def
      str_nat.simps digit_char_def)

section \<open>The helper in the translation unit\<close>

lemma set_union_one:
  assumes "acc = [] \<or> acc = [x]" "p = [] \<or> p = [x]"
  shows "set_union acc p = (if acc \<noteq> [] \<or> p \<noteq> [] then [x] else [])"
  using assms by (auto simp: set_union_def set_add_def)

lemma helper_union_gen:
  "acc = [] \<or> acc = [x] \<Longrightarrow> \<forall>hs\<in>set pp. hs = [] \<or> hs = [x] \<Longrightarrow>
   foldl set_union acc pp = (if acc \<noteq> [] \<or> (\<exists>hs\<in>set pp. hs \<noteq> []) then [x] else [])"
proof (induction pp arbitrary: acc)
  case Nil then show ?case by auto
next
  case (Cons p pp)
  have p: "p = [] \<or> p = [x]" using Cons.prems(2) by simp
  have u: "set_union acc p = (if acc \<noteq> [] \<or> p \<noteq> [] then [x] else [])"
    using Cons.prems(1) p by (rule set_union_one)
  then have ok: "set_union acc p = [] \<or> set_union acc p = [x]" by simp
  have rest: "\<forall>hs\<in>set pp. hs = [] \<or> hs = [x]" using Cons.prems(2) by simp
  have "foldl set_union (set_union acc p) pp =
        (if set_union acc p \<noteq> [] \<or> (\<exists>hs\<in>set pp. hs \<noteq> []) then [x] else [])"
    using ok rest by (rule Cons.IH)
  then show ?case using u by (cases "acc = []"; cases "p = []") simp_all
qed

lemma helper_code_one: "helper_code [''exo_floor_div''] = Inr [exo_floor_div_text]"
  by (simp add: static_helpers_def)

lemma helper_code_unit:
  assumes "\<forall>hs\<in>set per_proc. helpers_ok hs"
  shows "helper_code (unit_needed_helpers per_proc) =
         Inr (if \<exists>hs\<in>set per_proc. hs \<noteq> [] then [exo_floor_div_text] else [])"
proof -
  have "foldl set_union [] per_proc =
        (if [] \<noteq> ([] :: string list) \<or> (\<exists>hs\<in>set per_proc. hs \<noteq> []) then [''exo_floor_div''] else [])"
    using assms unfolding helpers_ok_def by (intro helper_union_gen) simp_all
  then show ?thesis
    by (cases "\<exists>hs\<in>set per_proc. hs \<noteq> []")
       (simp_all add: unit_needed_helpers_def helper_code_one del: helper_code.simps(2))
qed

lemmas ex_defs = ex_world_def ex_compiler_def ex_memory_def ex_proc_def ex_i_def ex_x_def ex_n_def
  ex_A_def ex_R_def ex_acc_def ex_A_type_def ex_R_type_def ex_idx_i_def ex_idx_x_def ex_eight_def
  ex_quot_i_def ex_quot_x_def ex_neg_x_def ex_quot_neg_x_def ex_read_div_def ex_read_neg_div_def
  ex_read_R_def ex_window_def ex_cir_env_def ex_cir_quot_i_def ex_cir_quot_neg_x_def

lemmas comp_defs = comp_Read_def access_str_def get_idx_offset_def get_strides_def tensor_strides_def
  comp_simplified_def env_name_def simplify_identities_def py_eq_int_def py_gt_int_def prec_usub_def
  call_static_helper_def set_add_def str_int_def str_nat.simps digit_char_def is_numeric_def Let_def
  simplify_USub_def comp_Const_def

lemma ex_comp_read_neg_div:
  "comp_e ex_world ex_read_neg_div 0 ex_compiler =
     Inr (''A[exo_floor_div(-x, 8) * 16 + i]'', ex_compiler\<lparr>self_needed_helpers := [''exo_floor_div'']\<rparr>)"
  by (simp add: ex_defs comp_defs)

lemma ex_comp_read_div:
  "comp_e ex_world ex_read_div 0 ex_compiler = Inr (''A[(i / 8) * 16 + i]'', ex_compiler)"
  by (simp add: ex_defs comp_defs)

lemma ex_comp_cir_quot_neg_x:
  "comp_cir (\<lambda>q. ''0.0'') ex_cir_env ex_cir_quot_neg_x 0 [] = Inr (''exo_floor_div(-x, 8)'', [''exo_floor_div''])"
  by (simp add: ex_defs comp_defs)

lemma ex_comp_cir_quot_i:
  "comp_cir (\<lambda>q. ''0.0'') ex_cir_env ex_cir_quot_i 0 [] = Inr (''(i / 8)'', [])"
  by (simp add: ex_defs comp_defs)

lemma ex_comp_read_R: "comp_e ex_world ex_read_R 0 ex_compiler = Inr (''R'', ex_compiler)"
  by (simp add: ex_defs comp_defs)

lemma ex_comp_assign:
  "comp_s ex_world ex_assign ex_compiler =
     Inr (ex_compiler\<lparr>self_lines := [''  A[(i / 8) * 16 + i] = R;'']\<rparr>)"
  by (simp add: ex_assign_def comp_Assign_Reduce_def assign_lhs_def assign_cast_def add_line_def
      ex_defs comp_defs)

lemma ex_comp_reduce:
  "comp_s ex_world ex_reduce ex_compiler =
     Inr (ex_compiler\<lparr>self_lines := [''  acc += A[(i / 8) * 16 + i];'']\<rparr>)"
  by (simp add: ex_reduce_def comp_Assign_Reduce_def assign_lhs_def assign_cast_def add_line_def
      ex_defs comp_defs)

lemma ex_comp_assign_floor:
  "comp_s ex_world ex_assign_floor ex_compiler =
     Inr (ex_compiler\<lparr>self_needed_helpers := [''exo_floor_div''],
                       self_lines := [''  A[exo_floor_div(x, 8) * 16 + i] = R;'']\<rparr>)"
  by (simp add: ex_assign_floor_def comp_Assign_Reduce_def assign_lhs_def assign_cast_def add_line_def
      ex_defs comp_defs)

text \<open>
  Claim C2, as amended. The text of the helper is the text of the C function
  \<open>exo_floor_div_fn\<close>. Called on \<open>int\<close> arguments \<open>n\<close> and \<open>q > 0\<close>, that function returns
  the floor of \<open>n / q\<close> whenever \<open>n \<ge> 0\<close> or \<open>n - (q - 1)\<close> is still an \<open>int\<close>. For the other
  dividends the subtraction \<open>num-off\<close> leaves the range of \<open>int\<close>: the result is
  undefined, and where the subtraction wraps around it is a non-negative number, while
  the floor is negative. Compiling an index expression, an expression, an assignment
  or a reduction adds \<open>exo_floor_div\<close> to the set of needed helpers exactly when it holds
  a division that is sent to the helper, and adds nothing else; the translation unit
  carries the helper's text once when the set of some procedure is not empty, and not
  at all otherwise.
\<close>

theorem exo_floor_div_floor_and_emission:
  "c_function_text exo_floor_div_fn = exo_floor_div_text
   \<and> static_helpers ''exo_floor_div'' = Some exo_floor_div_text
   \<and> (\<forall>bits wrap n q.
         c_int_ok bits n \<and> c_int_ok bits q \<and> 0 < q \<and> (0 \<le> n \<or> - (2 ^ (bits - 1)) \<le> n - (q - 1)) \<longrightarrow>
         exo_floor_div_c bits wrap n q = Some \<lfloor>real_of_int n / real_of_int q\<rfloor>)
   \<and> (\<forall>bits n q.
         c_int_ok bits n \<and> c_int_ok bits q \<and> 0 < q \<and> n < 0 \<and> n - (q - 1) < - (2 ^ (bits - 1)) \<longrightarrow>
         exo_floor_div_c bits False n q = None
         \<and> exo_floor_div_c bits True n q = Some ((n - (q - 1) + 2 ^ bits) div q)
         \<and> 0 \<le> (n - (q - 1) + 2 ^ bits) div q
         \<and> \<lfloor>real_of_int n / real_of_int q\<rfloor> < 0)
   \<and> (\<forall>sf env e prec hs s hs'. comp_cir sf env e prec hs = Inr (s, hs') \<longrightarrow>
         hs' = (if calls_helper e then set_add ''exo_floor_div'' hs else hs))
   \<and> (\<forall>w e prec c s c'. comp_e w e prec c = Inr (s, c') \<longrightarrow>
         self_needed_helpers c' =
           (if e_calls_helper w c e then set_add ''exo_floor_div'' (self_needed_helpers c)
            else self_needed_helpers c))
   \<and> (\<forall>w hook st name t idx rhs c c'. comp_Assign_Reduce w hook st name t idx rhs c = Inr c' \<longrightarrow>
         self_needed_helpers c' =
           (if assign_calls_helper w c name idx rhs then set_add ''exo_floor_div'' (self_needed_helpers c)
            else self_needed_helpers c))
   \<and> (\<forall>hs. helpers_ok hs \<longrightarrow> helpers_ok (set_add ''exo_floor_div'' hs))
   \<and> (\<forall>per_proc. (\<forall>hs\<in>set per_proc. helpers_ok hs) \<longrightarrow>
         helper_code (unit_needed_helpers per_proc) =
           Inr (if \<exists>hs\<in>set per_proc. hs \<noteq> [] then [exo_floor_div_text] else []))"
proof (intro conjI allI impI)
  show "c_function_text exo_floor_div_fn = exo_floor_div_text" by (rule helper_text_is_function)
next
  show "static_helpers ''exo_floor_div'' = Some exo_floor_div_text" by (simp add: static_helpers_def)
next
  fix bits wrap and n q :: int
  assume a: "c_int_ok bits n \<and> c_int_ok bits q \<and> 0 < q \<and> (0 \<le> n \<or> - (2 ^ (bits - 1)) \<le> n - (q - 1))"
  have "exo_floor_div_c bits wrap n q = Some (n div q)"
    by (rule exo_floor_div_c_floor) (use a in blast)+
  then show "exo_floor_div_c bits wrap n q = Some \<lfloor>real_of_int n / real_of_int q\<rfloor>"
    by (simp add: floor_divide_of_int_eq)
next
  fix bits and n q :: int
  assume a: "c_int_ok bits n \<and> c_int_ok bits q \<and> 0 < q \<and> n < 0 \<and> n - (q - 1) < - (2 ^ (bits - 1))"
  have n: "c_int_ok bits n" and q: "c_int_ok bits q" and pos: "0 < q" and neg: "n < 0"
    and ov: "n - (q - 1) < - (2 ^ (bits - 1))" using a by blast+
  show "exo_floor_div_c bits False n q = None" by (rule exo_floor_div_c_overflow(1)[OF n q pos neg ov])
  show "exo_floor_div_c bits True n q = Some ((n - (q - 1) + 2 ^ bits) div q)"
    by (rule exo_floor_div_c_overflow(2)[OF n q pos neg ov])
  show "0 \<le> (n - (q - 1) + 2 ^ bits) div q" by (rule exo_floor_div_c_overflow(3)[OF n q pos neg ov])
  show "\<lfloor>real_of_int n / real_of_int q\<rfloor> < 0"
    using exo_floor_div_c_overflow(4)[OF n q pos neg ov] by (simp add: floor_divide_of_int_eq)
next
  fix sf env e prec hs s hs'
  assume "comp_cir sf env e prec hs = Inr (s, hs')"
  then show "hs' = (if calls_helper e then set_add ''exo_floor_div'' hs else hs)"
    by (rule comp_cir_helpers)
next
  fix w e prec c s c'
  assume "comp_e w e prec c = Inr (s, c')"
  then show "self_needed_helpers c' =
           (if e_calls_helper w c e then set_add ''exo_floor_div'' (self_needed_helpers c)
            else self_needed_helpers c)"
    by (rule comp_e_exact(1))
next
  fix w hook st name t idx rhs c c'
  assume "comp_Assign_Reduce w hook st name t idx rhs c = Inr c'"
  then show "self_needed_helpers c' =
           (if assign_calls_helper w c name idx rhs then set_add ''exo_floor_div'' (self_needed_helpers c)
            else self_needed_helpers c)"
    by (rule comp_Assign_Reduce_exact)
next
  fix hs assume "helpers_ok hs"
  then show "helpers_ok (set_add ''exo_floor_div'' hs)" by (rule helpers_ok_set_add)
next
  fix per_proc assume "\<forall>hs\<in>set per_proc. helpers_ok hs"
  then show "helper_code (unit_needed_helpers per_proc) =
           Inr (if \<exists>hs\<in>set per_proc. hs \<noteq> [] then [exo_floor_div_text] else [])"
    by (rule helper_code_unit)
qed

text \<open>
  The claim as stated holds for every integer. In a 32-bit \<open>int\<close> the helper called
  on the most negative dividend and 2 has no defined result, and returns 1073741823
  where the subtraction wraps around; the floor is -1073741824.
\<close>

theorem exo_floor_div_overflows_at_int_min:
  "c_int_ok 32 (- 2147483648) \<and> c_int_ok 32 2
   \<and> exo_floor_div_c 32 False (- 2147483648) 2 = None
   \<and> exo_floor_div_c 32 True (- 2147483648) 2 = Some 1073741823
   \<and> \<lfloor>real_of_int (- 2147483648) / real_of_int 2\<rfloor> = - 1073741824"
  by (simp add: exo_floor_div_c_def c_call_def exo_floor_div_fn_def c_fit_def c_wrap_def c_int_ok_def
      c_div_def Let_def)

theorem exo_floor_div_floor_and_emission_witness:
  "c_int_ok 32 (- 7) \<and> c_int_ok 32 2 \<and> (0::int) < 2
   \<and> exo_floor_div_c 32 False (- 7) 2 = Some (- 4)
   \<and> exo_floor_div_c 32 False (- 7) 2 = Some \<lfloor>real_of_int (- 7) / real_of_int 2\<rfloor>
   \<and> c_int_ok 32 (- 2147483648) \<and> (- 2147483648 :: int) < 0
   \<and> exo_floor_div_c 32 False (- 2147483648) 2 = None
   \<and> exo_floor_div_c 32 True (- 2147483648) 2 = Some ((- 2147483648 - (2 - 1) + 2 ^ 32) div 2)
   \<and> comp_cir (\<lambda>q. ''0.0'') ex_cir_env ex_cir_quot_neg_x 0 [] =
        Inr (''exo_floor_div(-x, 8)'', [''exo_floor_div''])
   \<and> calls_helper ex_cir_quot_neg_x
   \<and> comp_cir (\<lambda>q. ''0.0'') ex_cir_env ex_cir_quot_i 0 [] = Inr (''(i / 8)'', [])
   \<and> \<not> calls_helper ex_cir_quot_i
   \<and> comp_e ex_world ex_read_neg_div 0 ex_compiler =
        Inr (''A[exo_floor_div(-x, 8) * 16 + i]'', ex_compiler\<lparr>self_needed_helpers := [''exo_floor_div'']\<rparr>)
   \<and> e_calls_helper ex_world ex_compiler ex_read_neg_div
   \<and> comp_e ex_world ex_read_div 0 ex_compiler = Inr (''A[(i / 8) * 16 + i]'', ex_compiler)
   \<and> \<not> e_calls_helper ex_world ex_compiler ex_read_div
   \<and> comp_s ex_world ex_assign_floor ex_compiler =
        Inr (ex_compiler\<lparr>self_needed_helpers := [''exo_floor_div''],
                          self_lines := [''  A[exo_floor_div(x, 8) * 16 + i] = R;'']\<rparr>)
   \<and> assign_calls_helper ex_world ex_compiler ex_A [ex_quot_x, ex_idx_i] ex_read_R
   \<and> comp_s ex_world ex_reduce ex_compiler =
        Inr (ex_compiler\<lparr>self_lines := [''  acc += A[(i / 8) * 16 + i];'']\<rparr>)
   \<and> \<not> assign_calls_helper ex_world ex_compiler ex_acc [] ex_read_div
   \<and> helpers_ok [] \<and> helpers_ok [''exo_floor_div'']
   \<and> helper_code (unit_needed_helpers [[], [''exo_floor_div''], [''exo_floor_div'']]) = Inr [exo_floor_div_text]
   \<and> helper_code (unit_needed_helpers [[], []]) = Inr []"
proof -
  note t = exo_floor_div_floor_and_emission
  note t3 = t[THEN conjunct2, THEN conjunct2, THEN conjunct1]
  note t4 = t[THEN conjunct2, THEN conjunct2, THEN conjunct2, THEN conjunct1]
  note t5 = t[THEN conjunct2, THEN conjunct2, THEN conjunct2, THEN conjunct2, THEN conjunct1]
  note t6 = t[THEN conjunct2, THEN conjunct2, THEN conjunct2, THEN conjunct2, THEN conjunct2, THEN conjunct1]
  note t7 = t[THEN conjunct2, THEN conjunct2, THEN conjunct2, THEN conjunct2, THEN conjunct2, THEN conjunct2,
      THEN conjunct1]
  note t8 = t[THEN conjunct2, THEN conjunct2, THEN conjunct2, THEN conjunct2, THEN conjunct2, THEN conjunct2,
      THEN conjunct2, THEN conjunct1]
  note t9 = t[THEN conjunct2, THEN conjunct2, THEN conjunct2, THEN conjunct2, THEN conjunct2, THEN conjunct2,
      THEN conjunct2, THEN conjunct2]
  have r1: "c_int_ok 32 (- 7)" and r2: "c_int_ok 32 2" and r3: "c_int_ok 32 (- 2147483648)"
    by (simp_all add: c_int_ok_def)
  have a: "exo_floor_div_c 32 False (- 7) 2 = Some \<lfloor>real_of_int (- 7) / real_of_int 2\<rfloor>"
    using t3[rule_format, of 32 "- 7" 2 False] r1 r2 by simp
  have a': "exo_floor_div_c 32 False (- 7) 2 = Some (- 4)"
    using a by simp
  have b: "exo_floor_div_c 32 False (- 2147483648) 2 = None
         \<and> exo_floor_div_c 32 True (- 2147483648) 2 = Some ((- 2147483648 - (2 - 1) + 2 ^ 32) div 2)"
    using t4[rule_format, of 32 "- 2147483648" 2] r2 r3 by simp
  have c1: "calls_helper ex_cir_quot_neg_x"
    using t5[rule_format, OF ex_comp_cir_quot_neg_x] by (auto simp: set_add_def split: if_splits)
  have c2: "\<not> calls_helper ex_cir_quot_i"
    using t5[rule_format, OF ex_comp_cir_quot_i] by (auto simp: set_add_def split: if_splits)
  have d1: "e_calls_helper ex_world ex_compiler ex_read_neg_div"
    using t6[rule_format, OF ex_comp_read_neg_div]
    by (auto simp: set_add_def ex_compiler_def split: if_splits)
  have d2: "\<not> e_calls_helper ex_world ex_compiler ex_read_div"
    using t6[rule_format, OF ex_comp_read_div]
    by (auto simp: set_add_def ex_compiler_def split: if_splits)
  have e1: "assign_calls_helper ex_world ex_compiler ex_A [ex_quot_x, ex_idx_i] ex_read_R"
    using t7[rule_format, OF ex_comp_assign_floor[unfolded ex_assign_floor_def comp_s.simps]]
    by (auto simp: set_add_def ex_compiler_def split: if_splits)
  have e2: "\<not> assign_calls_helper ex_world ex_compiler ex_acc [] ex_read_div"
    using t7[rule_format, OF ex_comp_reduce[unfolded ex_reduce_def comp_s.simps]]
    by (auto simp: set_add_def ex_compiler_def split: if_splits)
  have o0: "helpers_ok []" by (simp add: helpers_ok_def)
  have o1: "helpers_ok [''exo_floor_div'']"
    using t8[rule_format, OF o0] by (simp add: set_add_def)
  have all: "\<forall>hs\<in>set [[], [''exo_floor_div''], [''exo_floor_div'']]. helpers_ok hs"
    using o0 o1 by simp
  have u1: "helper_code (unit_needed_helpers [[], [''exo_floor_div''], [''exo_floor_div'']]) = Inr [exo_floor_div_text]"
    using t9[THEN spec, THEN mp, OF all] by simp
  have all0: "\<forall>hs\<in>set [[], []]. helpers_ok hs" using o0 by simp
  have u0: "helper_code (unit_needed_helpers [[], []]) = Inr []"
    using t9[THEN spec, THEN mp, OF all0] by simp
  have z: "(0::int) < 2" "(- 2147483648 :: int) < 0" by simp_all
  show ?thesis
    by (intro conjI)
       (rule r1 r2 r3 z a a' b[THEN conjunct1] b[THEN conjunct2] ex_comp_cir_quot_neg_x c1
          ex_comp_cir_quot_i c2 ex_comp_read_neg_div d1 ex_comp_read_div d2 ex_comp_assign_floor e1
          ex_comp_reduce e2 o0 o1 u1 u0)+
qed

section \<open>The choice between C's division and the helper\<close>












section \<open>Window structs and window literals\<close>






























section \<open>The memory hooks behind reads, assignments and reductions\<close>

lemma with_read_hook_fields:
  "check_non_neg (with_read_hook w h) = check_non_neg w"
  "ctype (with_read_hook w h) = ctype w"
  "str_float (with_read_hook w h) = str_float w"
  "extern_of (with_read_hook w h) = extern_of w"
  "proc_of (with_read_hook w h) = proc_of w"
  "can_read (memory_of (with_read_hook w h) m) = can_read (memory_of w m)"
  "mem_name (memory_of (with_read_hook w h) m) = mem_name (memory_of w m)"
  "window_hook (memory_of (with_read_hook w h) m) = window_hook (memory_of w m)"
  "write_hook (memory_of (with_read_hook w h) m) = write_hook (memory_of w m)"
  "reduce_hook (memory_of (with_read_hook w h) m) = reduce_hook (memory_of w m)"
  by (simp_all add: with_read_hook_def)

lemma get_strides_read_hook: "get_strides (with_read_hook w h) c name t = get_strides w c name t"
  by (simp add: get_strides_def with_read_hook_fields cong: sum.case_cong option.case_cong prod.case_cong if_cong)

lemma get_idx_offset_read_hook:
  "get_idx_offset (with_read_hook w h) c name t idx = get_idx_offset w c name t idx"
  by (simp add: get_idx_offset_def get_strides_read_hook cong: sum.case_cong option.case_cong prod.case_cong if_cong)

lemma comp_simplified_read_hook:
  "comp_simplified (with_read_hook w h) e prec c = comp_simplified w e prec c"
  by (simp add: comp_simplified_def with_read_hook_fields cong: sum.case_cong option.case_cong prod.case_cong if_cong)

lemma comp_all_simplified_read_hook:
  "comp_all_simplified (with_read_hook w h) es prec c = comp_all_simplified w es prec c"
  by (induction es arbitrary: c) (simp_all add: comp_simplified_read_hook cong: sum.case_cong option.case_cong prod.case_cong if_cong)

lemma access_str_read_hook: "access_str (with_read_hook w h) nm idx c = access_str w nm idx c"
  by (simp add: access_str_def with_read_hook_fields get_idx_offset_read_hook comp_simplified_read_hook
      cong: sum.case_cong option.case_cong prod.case_cong if_cong)

lemma window_struct_fields_read_hook:
  "window_struct_fields (with_read_hook w h) name idx c = window_struct_fields w name idx c"
  by (simp add: window_struct_fields_def with_read_hook_fields get_strides_read_hook
      comp_all_simplified_read_hook cong: sum.case_cong option.case_cong prod.case_cong if_cong)

lemma get_window_type_read_hook:
  "get_window_type (with_read_hook w h) t ic c = get_window_type w t ic c"
  by (simp add: get_window_type_def with_read_hook_fields cong: sum.case_cong option.case_cong prod.case_cong if_cong)

lemma comp_Const_read_hook: "comp_Const (with_read_hook w h) v t = comp_Const w v t"
  by (simp add: comp_Const_def with_read_hook_fields cong: pynum.case_cong)

lemma comp_Read_read_hook: "comp_Read (with_read_hook w h) name idx c = comp_Read w name idx c"
  by (simp add: comp_Read_def with_read_hook_fields access_str_read_hook cong: sum.case_cong option.case_cong prod.case_cong if_cong)

lemma comp_e_read_hook:
  "comp_e (with_read_hook w h) e prec c = comp_e w e prec c"
  "comp_args (with_read_hook w h) es c = comp_args w es c"
proof (induction w e prec c and w es c rule: comp_e_comp_args.induct)
  case (1 w name idx t prec c)
  show ?case by (simp add: comp_Read_read_hook)
next
  case (2 w name idx t prec c)
  show ?case by (simp add: get_window_type_read_hook window_struct_fields_read_hook
      cong: sum.case_cong option.case_cong prod.case_cong if_cong)
next
  case (3 w v t prec c)
  show ?case by (simp add: comp_Const_read_hook)
next
  case (4 w op lhs rhs t prec c)
  define lp where "lp = (if op = Div \<and> \<not> is_numeric t then 0 else op_prec op)"
  define op_s where "op_s = (if op = And then ''&&'' else if op = Or then ''||'' else op_str op)"
  have unf: "comp_e w' (IR_BinOp op lhs rhs t) prec c =
     (case comp_e w' lhs lp c of
        Inl err \<Rightarrow> Inl err
      | Inr (l, c1) \<Rightarrow>
          (case comp_e w' rhs (lp + 1) c1 of
             Inl err \<Rightarrow> Inl err
           | Inr (r, c2) \<Rightarrow>
               if op = Div \<and> \<not> is_numeric t then
                 (if check_non_neg w' (IR_BinOp op lhs rhs t)
                  then Inr (''(('' @ l @ '') / ('' @ r @ ''))'', c2)
                  else (case call_static_helper ''exo_floor_div'' [l, r] (self_needed_helpers c2) of
                          (s, hs) \<Rightarrow> Inr (s, c2\<lparr>self_needed_helpers := hs\<rparr>)))
               else
                 (let s = l @ '' '' @ op_s @ '' '' @ r
                  in Inr (if lp < prec then ''('' @ s @ '')'' else s, c2))))" for w'
    unfolding lp_def op_s_def by (simp only: comp_e.simps Let_def)
  have l: "comp_e (with_read_hook w h) lhs lp c = comp_e w lhs lp c"
    unfolding lp_def by (rule 4(1)[OF refl refl refl])
  have r: "comp_e (with_read_hook w h) rhs (lp + 1) c1 = comp_e w rhs (lp + 1) c1"
    if "comp_e w lhs lp c = Inr (ls, c1)" for ls c1
    using 4(2)[OF refl refl refl _ refl] that unfolding lp_def by blast
  show ?case
  proof (cases "comp_e w lhs lp c")
    case (Inl err)
    then show ?thesis unfolding unf l by simp
  next
    case (Inr p)
    obtain ls c1 where p: "p = (ls, c1)" by (cases p)
    have l': "comp_e w lhs lp c = Inr (ls, c1)" using Inr p by simp
    show ?thesis unfolding unf l l' using r[OF l']
      by (simp add: with_read_hook_fields cong: sum.case_cong option.case_cong prod.case_cong if_cong)
  qed
next
  case (5 w arg t prec c)
  then show ?case by simp
next
  case (6 w f args t prec c)
  then show ?case
    by (simp add: with_read_hook_fields cong: sum.case_cong option.case_cong prod.case_cong if_cong)
next
  case (7 w name d t prec c)
  show ?case by (simp add: get_strides_read_hook comp_simplified_read_hook
      cong: sum.case_cong option.case_cong prod.case_cong if_cong)
next
  case (8 w cfg field t prec c)
  show ?case by simp
next
  case (9 w c)
  show ?case by simp
next
  case (10 w a rest c)
  show ?case
  proof (cases "comp_e w a 0 c")
    case (Inl err)
    then show ?thesis using 10(1) by simp
  next
    case (Inr p)
    obtain s c1 where p: "p = (s, c1)" by (cases p)
    have a': "comp_e w a 0 c = Inr (s, c1)" using Inr p by simp
    show ?thesis using 10(1) a' 10(2)[OF a' refl] by simp
  qed
qed

lemma assign_lhs_read_hook: "assign_lhs (with_read_hook w h) name idx c = assign_lhs w name idx c"
  by (simp add: assign_lhs_def access_str_read_hook cong: sum.case_cong option.case_cong prod.case_cong if_cong)

lemma assign_cast_read_hook: "assign_cast (with_read_hook w h) t rhs rhs_s = assign_cast w t rhs rhs_s"
  by (simp add: assign_cast_def with_read_hook_fields)

lemma comp_Assign_Reduce_read_hook:
  assumes "\<And>m. hook (memory_of (with_read_hook w h) m) = hook (memory_of w m)"
  shows "comp_Assign_Reduce (with_read_hook w h) hook st name t idx rhs c =
         comp_Assign_Reduce w hook st name t idx rhs c"
  by (simp add: comp_Assign_Reduce_def assign_lhs_read_hook assign_cast_read_hook comp_e_read_hook(1) assms
      cong: sum.case_cong option.case_cong prod.case_cong if_cong)

lemma comp_Read_cannot_read:
  assumes "self_envtyp c name = Some rtyp" "\<not> (is_indexable rtyp \<or> rtyp = T_bool \<or> rtyp = T_stride)"
    "self_mems c name = Some mem" "mem \<noteq> CudaRmem" "\<not> can_read (memory_of w mem)"
  shows "comp_e w (IR_Read name idx t) prec c =
    Inl (MemGenError (''cannot read from buffer '' @ [CHR 0x27] @ str_Sym name @ [CHR 0x27] @
           '' in memory '' @ [CHR 0x27] @ mem_name (memory_of w mem) @ [CHR 0x27]))"
  using assms by (simp add: comp_Read_def)

lemma comp_Read_CudaRmem:
  assumes "self_envtyp c name = Some rtyp" "\<not> (is_indexable rtyp \<or> rtyp = T_bool \<or> rtyp = T_stride)"
    "self_mems c name = Some CudaRmem"
  shows "comp_e w (IR_Read name idx t) prec c =
    (case env_name c name of Inl err \<Rightarrow> Inl err | Inr s \<Rightarrow> Inr (s, c))"
  using assms by (simp add: comp_Read_def)

lemma env_name_lookup:
  "env_name c n = (case chain_lookup (self_env c) n of None \<Rightarrow> Inl KeyError | Some s \<Rightarrow> Inr s)"
  by (simp add: env_name_def)

lemma comp_Read_index:
  assumes "self_envtyp c name = Some rtyp" "is_indexable rtyp \<or> rtyp = T_bool \<or> rtyp = T_stride"
  shows "comp_e w (IR_Read name idx t) prec c =
    (case chain_lookup (self_env c) name of None \<Rightarrow> Inl KeyError | Some s \<Rightarrow> Inr (s, c))"
  using assms by (auto simp: comp_Read_def env_name_def split: option.splits)

lemma comp_Read_buffer:
  assumes "self_envtyp c name = Some rtyp" "\<not> (is_indexable rtyp \<or> rtyp = T_bool \<or> rtyp = T_stride)"
    "self_mems c name = Some mem" "mem \<noteq> CudaRmem" "can_read (memory_of w mem)"
  shows "comp_e w (IR_Read name idx t) prec c =
    (if name \<in> self_scalar_refs c then
       (case chain_lookup (self_env c) name of None \<Rightarrow> Inl KeyError | Some s \<Rightarrow> Inr (''*'' @ s, c))
     else if \<not> is_tensor_or_window rtyp then
       (case chain_lookup (self_env c) name of None \<Rightarrow> Inl KeyError | Some s \<Rightarrow> Inr (s, c))
     else access_str w name idx c)"
  using assms by (auto simp: comp_Read_def env_name_def split: option.splits)

lemma access_str_text:
  assumes "access_str w nm idx c = Inr (txt, c')"
  shows "\<exists>t cirs idx_expr idx_s buf.
           self_envtyp c nm = Some t
           \<and> map_result (lift_to_cir (check_non_neg w)) idx = Inr cirs
           \<and> get_idx_offset w c nm t cirs = Inr idx_expr
           \<and> comp_simplified w idx_expr 0 c = Inr (idx_s, c')
           \<and> chain_lookup (self_env c) nm = Some buf
           \<and> txt = buf @ (if is_win t then ''.data['' else ''['') @ idx_s @ '']''"
proof -
  from assms obtain t where t: "self_envtyp c nm = Some t"
    unfolding access_str_def by (cases "self_envtyp c nm") auto
  from assms t obtain cirs where ci: "map_result (lift_to_cir (check_non_neg w)) idx = Inr cirs"
    unfolding access_str_def by (cases "map_result (lift_to_cir (check_non_neg w)) idx") auto
  from assms t ci obtain ie where ie: "get_idx_offset w c nm t cirs = Inr ie"
    unfolding access_str_def by (cases "get_idx_offset w c nm t cirs") auto
  from assms t ci ie obtain idx_s c1 where cs: "comp_simplified w ie 0 c = Inr (idx_s, c1)"
    unfolding access_str_def by (cases "comp_simplified w ie 0 c") auto
  from assms t ci ie cs obtain buf where b: "env_name c1 nm = Inr buf"
    unfolding access_str_def by (cases "env_name c1 nm") auto
  have r: "c' = c1 \<and> txt = buf @ (if is_win t then ''.data['' else ''['') @ idx_s @ '']''"
    using assms t ci ie cs b unfolding access_str_def by (auto split: if_splits)
  have fr: "same_but_sets c c1" using comp_simplified_keeps[OF cs] by (rule keeps_same)
  have "chain_lookup (self_env c) nm = Some buf"
    using b by (auto simp: env_name_def frame_fields[OF fr] split: option.splits)
  then show ?thesis using t ci ie cs r by blast
qed

lemma assign_lhs_cases:
  "name \<in> self_scalar_refs c \<Longrightarrow>
     assign_lhs w name idx c =
       (case chain_lookup (self_env c) name of None \<Rightarrow> Inl KeyError | Some s \<Rightarrow> Inr (''*'' @ s, c))"
  "name \<notin> self_scalar_refs c \<Longrightarrow> self_envtyp c name = Some nt \<Longrightarrow> is_real_scalar nt \<Longrightarrow>
     assign_lhs w name idx c =
       (case chain_lookup (self_env c) name of None \<Rightarrow> Inl KeyError | Some s \<Rightarrow> Inr (s, c))"
  "name \<notin> self_scalar_refs c \<Longrightarrow> self_envtyp c name = Some nt \<Longrightarrow> \<not> is_real_scalar nt \<Longrightarrow>
     assign_lhs w name idx c = access_str w name idx c"
  by (auto simp: assign_lhs_def env_name_def split: option.splits)

lemma assign_cast_cases:
  "basetype t = basetype (type_of rhs) \<Longrightarrow> assign_cast w t rhs s = Inr s"
  "basetype t \<noteq> basetype (type_of rhs) \<Longrightarrow> is_real_scalar t \<Longrightarrow> is_real_scalar (type_of rhs) \<Longrightarrow>
     assign_cast w t rhs s = Inr (''('' @ ctype w (basetype t) @ '')('' @ s @ '')'')"
  "basetype t \<noteq> basetype (type_of rhs) \<Longrightarrow> \<not> (is_real_scalar t \<and> is_real_scalar (type_of rhs)) \<Longrightarrow>
     assign_cast w t rhs s = Inl AssertionError"
  by (auto simp: assign_cast_def)

lemma add_line_lines:
  "l \<noteq> [] \<Longrightarrow> add_line l c = c\<lparr>self_lines := self_lines c @ [self_tab c @ l]\<rparr>"
  "add_line [] c = c"
  by (simp_all add: add_line_def)


text \<open>
  Claim C4, as amended. An \<open>Assign\<close> that compiles adds the line that the \<open>write\<close> hook of
  the target buffer's memory builds from the statement, the text of the left-hand side
  and the text of the right-hand side, a \<open>Reduce\<close> the line of the \<open>reduce\<close> hook; the
  line is indented by the current tab. The left-hand side is \<open>*name\<close> for a scalar
  passed by reference, the name for another scalar, and the access text otherwise;
  the right-hand side is cast to the target's base type when the base types differ.
  No \<open>read\<close> hook takes part: replacing the \<open>read\<close> hooks of all memories changes neither
  the result of compiling an expression nor that of an \<open>Assign\<close> or \<open>Reduce\<close>. A read of a
  name of an index, boolean or stride type is the name. A read of another name raises
  \<open>MemGenError\<close> when its memory is not \<open>CudaRmem\<close> and does not declare \<open>can_read\<close>; for
  a buffer in \<open>CudaRmem\<close> the name is returned and \<open>can_read\<close> is not asked; and where the
  memory can be read the read is \<open>*name\<close> for a scalar passed by reference, the name
  for another scalar, and the access text for a tensor or window. The access text is
  \<open>name[offset]\<close>, and \<open>name.data[offset]\<close> through a window, with the compiled simplified
  offset.
\<close>

theorem hooks_of_assign_reduce_and_read:
  "(\<forall>w name t idx rhs c c'. comp_s w (S_Assign name t idx rhs) c = Inr c' \<longrightarrow>
      (\<exists>lhs c1 rhs_s c2 rhs_c mem.
          assign_lhs w name idx c = Inr (lhs, c1) \<and> comp_e w rhs 0 c1 = Inr (rhs_s, c2)
          \<and> assign_cast w t rhs rhs_s = Inr rhs_c \<and> self_mems c name = Some mem
          \<and> c' = add_line (write_hook (memory_of w mem) (S_Assign name t idx rhs) lhs rhs_c) c2))
   \<and> (\<forall>w name t idx rhs c c'. comp_s w (S_Reduce name t idx rhs) c = Inr c' \<longrightarrow>
      (\<exists>lhs c1 rhs_s c2 rhs_c mem.
          assign_lhs w name idx c = Inr (lhs, c1) \<and> comp_e w rhs 0 c1 = Inr (rhs_s, c2)
          \<and> assign_cast w t rhs rhs_s = Inr rhs_c \<and> self_mems c name = Some mem
          \<and> c' = add_line (reduce_hook (memory_of w mem) (S_Reduce name t idx rhs) lhs rhs_c) c2))
   \<and> (\<forall>w h e prec c. comp_e (with_read_hook w h) e prec c = comp_e w e prec c)
   \<and> (\<forall>w h name t idx rhs c.
         comp_s (with_read_hook w h) (S_Assign name t idx rhs) c = comp_s w (S_Assign name t idx rhs) c
         \<and> comp_s (with_read_hook w h) (S_Reduce name t idx rhs) c = comp_s w (S_Reduce name t idx rhs) c)
   \<and> (\<forall>w name idx t prec c rtyp mem.
         self_envtyp c name = Some rtyp \<and> \<not> (is_indexable rtyp \<or> rtyp = T_bool \<or> rtyp = T_stride)
         \<and> self_mems c name = Some mem \<and> mem \<noteq> CudaRmem \<and> \<not> can_read (memory_of w mem) \<longrightarrow>
         comp_e w (IR_Read name idx t) prec c =
           Inl (MemGenError (''cannot read from buffer '' @ [CHR 0x27] @ str_Sym name @ [CHR 0x27] @
                  '' in memory '' @ [CHR 0x27] @ mem_name (memory_of w mem) @ [CHR 0x27])))
   \<and> (\<forall>w name idx t prec c rtyp.
         self_envtyp c name = Some rtyp \<and> \<not> (is_indexable rtyp \<or> rtyp = T_bool \<or> rtyp = T_stride)
         \<and> self_mems c name = Some CudaRmem \<longrightarrow>
         comp_e w (IR_Read name idx t) prec c =
           (case env_name c name of Inl err \<Rightarrow> Inl err | Inr s \<Rightarrow> Inr (s, c)))
   \<and> (\<forall>w name idx t prec c rtyp.
         self_envtyp c name = Some rtyp \<and> (is_indexable rtyp \<or> rtyp = T_bool \<or> rtyp = T_stride) \<longrightarrow>
         comp_e w (IR_Read name idx t) prec c =
           (case chain_lookup (self_env c) name of None \<Rightarrow> Inl KeyError | Some s \<Rightarrow> Inr (s, c)))
   \<and> (\<forall>w name idx t prec c rtyp mem.
         self_envtyp c name = Some rtyp \<and> \<not> (is_indexable rtyp \<or> rtyp = T_bool \<or> rtyp = T_stride)
         \<and> self_mems c name = Some mem \<and> mem \<noteq> CudaRmem \<and> can_read (memory_of w mem) \<longrightarrow>
         comp_e w (IR_Read name idx t) prec c =
           (if name \<in> self_scalar_refs c then
              (case chain_lookup (self_env c) name of
                 None \<Rightarrow> Inl KeyError | Some s \<Rightarrow> Inr (''*'' @ s, c))
            else if \<not> is_tensor_or_window rtyp then
              (case chain_lookup (self_env c) name of None \<Rightarrow> Inl KeyError | Some s \<Rightarrow> Inr (s, c))
            else access_str w name idx c))
   \<and> (\<forall>w nm idx c txt c'. access_str w nm idx c = Inr (txt, c') \<longrightarrow>
         (\<exists>t cirs idx_expr idx_s buf.
            self_envtyp c nm = Some t
            \<and> map_result (lift_to_cir (check_non_neg w)) idx = Inr cirs
            \<and> get_idx_offset w c nm t cirs = Inr idx_expr
            \<and> comp_simplified w idx_expr 0 c = Inr (idx_s, c')
            \<and> chain_lookup (self_env c) nm = Some buf
            \<and> txt = buf @ (if is_win t then ''.data['' else ''['') @ idx_s @ '']''))
   \<and> (\<forall>w name idx c.
         assign_lhs w name idx c =
           (if name \<in> self_scalar_refs c then
              (case chain_lookup (self_env c) name of
                 None \<Rightarrow> Inl KeyError | Some s \<Rightarrow> Inr (''*'' @ s, c))
            else case self_envtyp c name of
                   None \<Rightarrow> Inl KeyError
                 | Some nt \<Rightarrow>
                     if is_real_scalar nt then
                       (case chain_lookup (self_env c) name of
                          None \<Rightarrow> Inl KeyError | Some s \<Rightarrow> Inr (s, c))
                     else access_str w name idx c))
   \<and> (\<forall>w t rhs s.
         assign_cast w t rhs s =
           (if basetype t = basetype (type_of rhs) then Inr s
            else if is_real_scalar t \<and> is_real_scalar (type_of rhs)
                 then Inr (''('' @ ctype w (basetype t) @ '')('' @ s @ '')'')
                 else Inl AssertionError))
   \<and> (\<forall>l c. add_line l c = (if l = [] then c else c\<lparr>self_lines := self_lines c @ [self_tab c @ l]\<rparr>))"
proof (intro conjI allI impI)
  fix w name t idx rhs c c'
  assume "comp_s w (S_Assign name t idx rhs) c = Inr c'"
  then have "comp_Assign_Reduce w write_hook (S_Assign name t idx rhs) name t idx rhs c = Inr c'" by simp
  from comp_Assign_Reduce_line[OF this]
  show "\<exists>lhs c1 rhs_s c2 rhs_c mem.
          assign_lhs w name idx c = Inr (lhs, c1) \<and> comp_e w rhs 0 c1 = Inr (rhs_s, c2)
          \<and> assign_cast w t rhs rhs_s = Inr rhs_c \<and> self_mems c name = Some mem
          \<and> c' = add_line (write_hook (memory_of w mem) (S_Assign name t idx rhs) lhs rhs_c) c2"
    by blast
next
  fix w name t idx rhs c c'
  assume "comp_s w (S_Reduce name t idx rhs) c = Inr c'"
  then have "comp_Assign_Reduce w reduce_hook (S_Reduce name t idx rhs) name t idx rhs c = Inr c'" by simp
  from comp_Assign_Reduce_line[OF this]
  show "\<exists>lhs c1 rhs_s c2 rhs_c mem.
          assign_lhs w name idx c = Inr (lhs, c1) \<and> comp_e w rhs 0 c1 = Inr (rhs_s, c2)
          \<and> assign_cast w t rhs rhs_s = Inr rhs_c \<and> self_mems c name = Some mem
          \<and> c' = add_line (reduce_hook (memory_of w mem) (S_Reduce name t idx rhs) lhs rhs_c) c2"
    by blast
next
  fix w h e prec c
  show "comp_e (with_read_hook w h) e prec c = comp_e w e prec c" by (rule comp_e_read_hook(1))
next
  fix w h name t idx rhs c
  show "comp_s (with_read_hook w h) (S_Assign name t idx rhs) c = comp_s w (S_Assign name t idx rhs) c"
    by (simp add: comp_Assign_Reduce_read_hook with_read_hook_fields)
next
  fix w h name t idx rhs c
  show "comp_s (with_read_hook w h) (S_Reduce name t idx rhs) c = comp_s w (S_Reduce name t idx rhs) c"
    by (simp add: comp_Assign_Reduce_read_hook with_read_hook_fields)
next
  fix w :: world and name idx t prec and c :: Compiler and rtyp mem
  assume a: "self_envtyp c name = Some rtyp \<and> \<not> (is_indexable rtyp \<or> rtyp = T_bool \<or> rtyp = T_stride)
         \<and> self_mems c name = Some mem \<and> mem \<noteq> CudaRmem \<and> \<not> can_read (memory_of w mem)"
  show "comp_e w (IR_Read name idx t) prec c =
           Inl (MemGenError (''cannot read from buffer '' @ [CHR 0x27] @ str_Sym name @ [CHR 0x27] @
                  '' in memory '' @ [CHR 0x27] @ mem_name (memory_of w mem) @ [CHR 0x27]))"
    by (rule comp_Read_cannot_read[of c name rtyp mem w]) (use a in blast)+
next
  fix w :: world and name idx t prec and c :: Compiler and rtyp
  assume a: "self_envtyp c name = Some rtyp \<and> \<not> (is_indexable rtyp \<or> rtyp = T_bool \<or> rtyp = T_stride)
         \<and> self_mems c name = Some CudaRmem"
  show "comp_e w (IR_Read name idx t) prec c =
           (case env_name c name of Inl err \<Rightarrow> Inl err | Inr s \<Rightarrow> Inr (s, c))"
    by (rule comp_Read_CudaRmem[of c name rtyp]) (use a in blast)+
next
  fix w :: world and name idx t prec and c :: Compiler and rtyp
  assume a: "self_envtyp c name = Some rtyp \<and> (is_indexable rtyp \<or> rtyp = T_bool \<or> rtyp = T_stride)"
  show "comp_e w (IR_Read name idx t) prec c =
           (case chain_lookup (self_env c) name of None \<Rightarrow> Inl KeyError | Some s \<Rightarrow> Inr (s, c))"
    by (rule comp_Read_index[of c name rtyp]) (use a in blast)+
next
  fix w :: world and name idx t prec and c :: Compiler and rtyp mem
  assume a: "self_envtyp c name = Some rtyp \<and> \<not> (is_indexable rtyp \<or> rtyp = T_bool \<or> rtyp = T_stride)
         \<and> self_mems c name = Some mem \<and> mem \<noteq> CudaRmem \<and> can_read (memory_of w mem)"
  show "comp_e w (IR_Read name idx t) prec c =
           (if name \<in> self_scalar_refs c then
              (case chain_lookup (self_env c) name of
                 None \<Rightarrow> Inl KeyError | Some s \<Rightarrow> Inr (''*'' @ s, c))
            else if \<not> is_tensor_or_window rtyp then
              (case chain_lookup (self_env c) name of None \<Rightarrow> Inl KeyError | Some s \<Rightarrow> Inr (s, c))
            else access_str w name idx c)"
    by (rule comp_Read_buffer[of c name rtyp mem w]) (use a in blast)+
next
  fix w nm idx c s c'
  assume "access_str w nm idx c = Inr (s, c')"
  then show "\<exists>t cirs idx_expr idx_s buf.
            self_envtyp c nm = Some t
            \<and> map_result (lift_to_cir (check_non_neg w)) idx = Inr cirs
            \<and> get_idx_offset w c nm t cirs = Inr idx_expr
            \<and> comp_simplified w idx_expr 0 c = Inr (idx_s, c')
            \<and> chain_lookup (self_env c) nm = Some buf
            \<and> s = buf @ (if is_win t then ''.data['' else ''['') @ idx_s @ '']''"
    by (rule access_str_text)
next
  fix w name idx c
  show "assign_lhs w name idx c =
           (if name \<in> self_scalar_refs c then
              (case chain_lookup (self_env c) name of
                 None \<Rightarrow> Inl KeyError | Some s \<Rightarrow> Inr (''*'' @ s, c))
            else case self_envtyp c name of
                   None \<Rightarrow> Inl KeyError
                 | Some nt \<Rightarrow>
                     if is_real_scalar nt then
                       (case chain_lookup (self_env c) name of
                          None \<Rightarrow> Inl KeyError | Some s \<Rightarrow> Inr (s, c))
                     else access_str w name idx c)"
    by (auto simp: assign_lhs_def env_name_def split: option.splits)
next
  fix w t rhs s
  show "assign_cast w t rhs s =
           (if basetype t = basetype (type_of rhs) then Inr s
            else if is_real_scalar t \<and> is_real_scalar (type_of rhs)
                 then Inr (''('' @ ctype w (basetype t) @ '')('' @ s @ '')'')
                 else Inl AssertionError)"
    by (auto simp: assign_cast_def)
next
  fix l c
  show "add_line l c = (if l = [] then c else c\<lparr>self_lines := self_lines c @ [self_tab c @ l]\<rparr>)"
    by (simp add: add_line_def)
qed

text \<open>
  The read \<open>R[i]\<close> of a buffer in \<open>CudaRmem\<close>, which does not declare \<open>can_read\<close>,
  compiles to the bare name; and the read \<open>A[i / 8, i]\<close> compiles to the plain access,
  not to the text that the \<open>read\<close> hook of its memory builds from it.
\<close>

theorem read_skips_read_hook_and_can_read:
  "self_mems ex_compiler ex_R = Some CudaRmem
   \<and> \<not> can_read (memory_of ex_world CudaRmem)
   \<and> comp_e ex_world ex_read_R 0 ex_compiler = Inr (''R'', ex_compiler)
   \<and> self_mems ex_compiler ex_A = Some DRAM
   \<and> read_hook (memory_of ex_world DRAM) ex_read_div ''A[(i / 8) * 16 + i]'' [] =
        ''load(A[(i / 8) * 16 + i])''
   \<and> comp_e ex_world ex_read_div 0 ex_compiler = Inr (''A[(i / 8) * 16 + i]'', ex_compiler)"
proof -
  have a: "self_mems ex_compiler ex_R = Some CudaRmem" by (simp add: ex_defs)
  have b: "\<not> can_read (memory_of ex_world CudaRmem)" by (simp add: ex_defs)
  have c: "self_mems ex_compiler ex_A = Some DRAM" by (simp add: ex_defs)
  have d: "read_hook (memory_of ex_world DRAM) ex_read_div ''A[(i / 8) * 16 + i]'' [] =
        ''load(A[(i / 8) * 16 + i])''" by (simp add: ex_world_def ex_memory_def)
  show ?thesis using a b c d ex_comp_read_R ex_comp_read_div by simp
qed

lemmas ex_ref_defs = ex_compiler_refs_def ex_W_def ex_D_def ex_read_acc_def ex_read_W_def ex_read_D_def
  ex_assign_cast_def ex_reduce_ref_def ex_window_type_def

lemma ex_access_W:
  "access_str ex_world ex_W [ex_idx_i] ex_compiler_refs = Inr (''W.data[i * W.strides[0]]'', ex_compiler_refs)"
  by (simp add: ex_ref_defs ex_defs comp_defs str_Sym_def)

lemma ex_access_A:
  "access_str ex_world ex_A [ex_quot_i, ex_idx_i] ex_compiler = Inr (''A[(i / 8) * 16 + i]'', ex_compiler)"
  by (simp add: ex_defs comp_defs)

lemma ex_comp_assign_cast:
  "comp_s ex_world ex_assign_cast ex_compiler_refs =
     Inr (ex_compiler_refs\<lparr>self_lines := [''  D = (double)(*acc);'']\<rparr>)"
  by (simp add: comp_Assign_Reduce_def assign_lhs_def assign_cast_def add_line_def
      ex_ref_defs ex_defs comp_defs)

lemma ex_comp_reduce_ref:
  "comp_s ex_world ex_reduce_ref ex_compiler_refs =
     Inr (ex_compiler_refs\<lparr>self_lines := [''  *acc += W.data[i * W.strides[0]];'']\<rparr>)"
  by (simp add: comp_Assign_Reduce_def assign_lhs_def assign_cast_def add_line_def
      ex_ref_defs ex_defs comp_defs str_Sym_def)

theorem hooks_of_assign_reduce_and_read_witness:
  "comp_s ex_world ex_assign ex_compiler =
     Inr (ex_compiler\<lparr>self_lines := [''  A[(i / 8) * 16 + i] = R;'']\<rparr>)
   \<and> (\<exists>lhs c1 rhs_s c2 rhs_c mem.
          assign_lhs ex_world ex_A [ex_quot_i, ex_idx_i] ex_compiler = Inr (lhs, c1)
          \<and> comp_e ex_world ex_read_R 0 c1 = Inr (rhs_s, c2)
          \<and> assign_cast ex_world T_f32 ex_read_R rhs_s = Inr rhs_c
          \<and> self_mems ex_compiler ex_A = Some mem
          \<and> ex_compiler\<lparr>self_lines := [''  A[(i / 8) * 16 + i] = R;'']\<rparr> =
              add_line (write_hook (memory_of ex_world mem) ex_assign lhs rhs_c) c2)
   \<and> comp_s ex_world ex_reduce ex_compiler =
     Inr (ex_compiler\<lparr>self_lines := [''  acc += A[(i / 8) * 16 + i];'']\<rparr>)
   \<and> (\<exists>lhs c1 rhs_s c2 rhs_c mem.
          assign_lhs ex_world ex_acc [] ex_compiler = Inr (lhs, c1)
          \<and> comp_e ex_world ex_read_div 0 c1 = Inr (rhs_s, c2)
          \<and> assign_cast ex_world T_f32 ex_read_div rhs_s = Inr rhs_c
          \<and> self_mems ex_compiler ex_acc = Some mem
          \<and> ex_compiler\<lparr>self_lines := [''  acc += A[(i / 8) * 16 + i];'']\<rparr> =
              add_line (reduce_hook (memory_of ex_world mem) ex_reduce lhs rhs_c) c2)
   \<and> comp_e (with_read_hook ex_world ex_other_read) ex_read_div 0 ex_compiler =
        Inr (''A[(i / 8) * 16 + i]'', ex_compiler)
   \<and> comp_s (with_read_hook ex_world ex_other_read) ex_assign ex_compiler =
        Inr (ex_compiler\<lparr>self_lines := [''  A[(i / 8) * 16 + i] = R;'']\<rparr>)
   \<and> comp_s (with_read_hook ex_world ex_other_read) ex_reduce ex_compiler =
        Inr (ex_compiler\<lparr>self_lines := [''  acc += A[(i / 8) * 16 + i];'']\<rparr>)
   \<and> self_envtyp ex_compiler_unreadable ex_A = Some ex_A_type
   \<and> \<not> (is_indexable ex_A_type \<or> ex_A_type = T_bool \<or> ex_A_type = T_stride)
   \<and> self_mems ex_compiler_unreadable ex_A = Some (MemClass 2)
   \<and> MemClass 2 \<noteq> CudaRmem \<and> \<not> can_read (memory_of ex_world (MemClass 2))
   \<and> comp_e ex_world ex_read_div 0 ex_compiler_unreadable =
        Inl (MemGenError (''cannot read from buffer '' @ [CHR 0x27] @ ''A'' @ [CHR 0x27] @
               '' in memory '' @ [CHR 0x27] @ ''Scratch'' @ [CHR 0x27]))
   \<and> self_envtyp ex_compiler ex_R = Some ex_R_type
   \<and> \<not> (is_indexable ex_R_type \<or> ex_R_type = T_bool \<or> ex_R_type = T_stride)
   \<and> self_mems ex_compiler ex_R = Some CudaRmem
   \<and> comp_e ex_world ex_read_R 0 ex_compiler = Inr (''R'', ex_compiler)
   \<and> self_envtyp ex_compiler ex_i = Some T_index \<and> is_indexable T_index
   \<and> comp_e ex_world ex_idx_i 0 ex_compiler = Inr (''i'', ex_compiler)
   \<and> self_envtyp ex_compiler_refs ex_acc = Some T_f32 \<and> self_mems ex_compiler_refs ex_acc = Some DRAM
   \<and> DRAM \<noteq> CudaRmem \<and> can_read (memory_of ex_world DRAM) \<and> ex_acc \<in> self_scalar_refs ex_compiler_refs
   \<and> comp_e ex_world ex_read_acc 0 ex_compiler_refs = Inr (''*acc'', ex_compiler_refs)
   \<and> self_envtyp ex_compiler_refs ex_D = Some T_f64 \<and> self_mems ex_compiler_refs ex_D = Some DRAM
   \<and> ex_D \<notin> self_scalar_refs ex_compiler_refs \<and> \<not> is_tensor_or_window T_f64
   \<and> comp_e ex_world ex_read_D 0 ex_compiler_refs = Inr (''D'', ex_compiler_refs)
   \<and> self_envtyp ex_compiler_refs ex_W = Some ex_window_type
   \<and> self_mems ex_compiler_refs ex_W = Some DRAM
   \<and> ex_W \<notin> self_scalar_refs ex_compiler_refs \<and> is_tensor_or_window ex_window_type
   \<and> is_win ex_window_type
   \<and> comp_e ex_world ex_read_W 0 ex_compiler_refs = Inr (''W.data[i * W.strides[0]]'', ex_compiler_refs)
   \<and> (\<exists>idx_s. ''W.data[i * W.strides[0]]'' = ''W'' @ ''.data['' @ idx_s @ '']'')
   \<and> \<not> is_win ex_A_type
   \<and> (\<exists>idx_s. ''A[(i / 8) * 16 + i]'' = ''A'' @ ''['' @ idx_s @ '']'')
   \<and> assign_lhs ex_world ex_acc [] ex_compiler_refs = Inr (''*acc'', ex_compiler_refs)
   \<and> assign_lhs ex_world ex_D [] ex_compiler_refs = Inr (''D'', ex_compiler_refs)
   \<and> assign_lhs ex_world ex_W [ex_idx_i] ex_compiler_refs =
        Inr (''W.data[i * W.strides[0]]'', ex_compiler_refs)
   \<and> assign_cast ex_world T_f64 ex_read_acc ''*acc'' = Inr ''(double)(*acc)''
   \<and> assign_cast ex_world T_f32 ex_read_acc ''*acc'' = Inr ''*acc''
   \<and> add_line ''D = (double)(*acc);'' ex_compiler_refs =
        ex_compiler_refs\<lparr>self_lines := [''  D = (double)(*acc);'']\<rparr>
   \<and> comp_s ex_world ex_assign_cast ex_compiler_refs =
        Inr (ex_compiler_refs\<lparr>self_lines := [''  D = (double)(*acc);'']\<rparr>)
   \<and> comp_s ex_world ex_reduce_ref ex_compiler_refs =
        Inr (ex_compiler_refs\<lparr>self_lines := [''  *acc += W.data[i * W.strides[0]];'']\<rparr>)"
proof -
  note t = hooks_of_assign_reduce_and_read
  note t3 = t[THEN conjunct2, THEN conjunct2, THEN conjunct1]
  note t4 = t[THEN conjunct2, THEN conjunct2, THEN conjunct2, THEN conjunct1]
  note t5 = t[THEN conjunct2, THEN conjunct2, THEN conjunct2, THEN conjunct2, THEN conjunct1]
  note t6r = t[THEN conjunct2, THEN conjunct2, THEN conjunct2, THEN conjunct2, THEN conjunct2]
  note t6 = t6r[THEN conjunct1]
  note t7 = t6r[THEN conjunct2, THEN conjunct1]
  note t8 = t6r[THEN conjunct2, THEN conjunct2, THEN conjunct1]
  note t9 = t6r[THEN conjunct2, THEN conjunct2, THEN conjunct2, THEN conjunct1]
  note t10 = t6r[THEN conjunct2, THEN conjunct2, THEN conjunct2, THEN conjunct2, THEN conjunct1]
  note t11 = t6r[THEN conjunct2, THEN conjunct2, THEN conjunct2, THEN conjunct2, THEN conjunct2, THEN conjunct1]
  note t12 = t6r[THEN conjunct2, THEN conjunct2, THEN conjunct2, THEN conjunct2, THEN conjunct2, THEN conjunct2]
  have a: "\<exists>lhs c1 rhs_s c2 rhs_c mem.
          assign_lhs ex_world ex_A [ex_quot_i, ex_idx_i] ex_compiler = Inr (lhs, c1)
          \<and> comp_e ex_world ex_read_R 0 c1 = Inr (rhs_s, c2)
          \<and> assign_cast ex_world T_f32 ex_read_R rhs_s = Inr rhs_c
          \<and> self_mems ex_compiler ex_A = Some mem
          \<and> ex_compiler\<lparr>self_lines := [''  A[(i / 8) * 16 + i] = R;'']\<rparr> =
              add_line (write_hook (memory_of ex_world mem) ex_assign lhs rhs_c) c2"
    using t[THEN conjunct1, rule_format, OF ex_comp_assign[unfolded ex_assign_def]]
    unfolding ex_assign_def .
  have b: "\<exists>lhs c1 rhs_s c2 rhs_c mem.
          assign_lhs ex_world ex_acc [] ex_compiler = Inr (lhs, c1)
          \<and> comp_e ex_world ex_read_div 0 c1 = Inr (rhs_s, c2)
          \<and> assign_cast ex_world T_f32 ex_read_div rhs_s = Inr rhs_c
          \<and> self_mems ex_compiler ex_acc = Some mem
          \<and> ex_compiler\<lparr>self_lines := [''  acc += A[(i / 8) * 16 + i];'']\<rparr> =
              add_line (reduce_hook (memory_of ex_world mem) ex_reduce lhs rhs_c) c2"
    using t[THEN conjunct2, THEN conjunct1, rule_format, OF ex_comp_reduce[unfolded ex_reduce_def]]
    unfolding ex_reduce_def .
  have c: "comp_e (with_read_hook ex_world ex_other_read) ex_read_div 0 ex_compiler =
        Inr (''A[(i / 8) * 16 + i]'', ex_compiler)"
    using t3[rule_format, of ex_world ex_other_read ex_read_div 0 ex_compiler] ex_comp_read_div by simp
  note d = t4[rule_format, of ex_world ex_other_read ex_A T_f32 "[ex_quot_i, ex_idx_i]" ex_read_R ex_compiler]
  note e = t4[rule_format, of ex_world ex_other_read ex_acc T_f32 "[]" ex_read_div ex_compiler]
  have d1: "comp_s (with_read_hook ex_world ex_other_read) ex_assign ex_compiler =
        Inr (ex_compiler\<lparr>self_lines := [''  A[(i / 8) * 16 + i] = R;'']\<rparr>)"
    using d[THEN conjunct1] ex_comp_assign unfolding ex_assign_def by simp
  have e1: "comp_s (with_read_hook ex_world ex_other_read) ex_reduce ex_compiler =
        Inr (ex_compiler\<lparr>self_lines := [''  acc += A[(i / 8) * 16 + i];'']\<rparr>)"
    using e[THEN conjunct2] ex_comp_reduce unfolding ex_reduce_def by simp
  have f1: "self_envtyp ex_compiler_unreadable ex_A = Some ex_A_type"
    by (simp add: ex_compiler_unreadable_def ex_compiler_def ex_i_def ex_x_def ex_n_def ex_A_def
        ex_R_def ex_acc_def)
  have f2: "\<not> (is_indexable ex_A_type \<or> ex_A_type = T_bool \<or> ex_A_type = T_stride)"
    by (simp add: ex_A_type_def)
  have f3: "self_mems ex_compiler_unreadable ex_A = Some (MemClass 2)"
    by (simp add: ex_compiler_unreadable_def)
  have f4: "MemClass 2 \<noteq> CudaRmem" by simp
  have f5: "\<not> can_read (memory_of ex_world (MemClass 2))" by (simp add: ex_world_def ex_memory_def)
  have f: "comp_e ex_world ex_read_div 0 ex_compiler_unreadable =
        Inl (MemGenError (''cannot read from buffer '' @ [CHR 0x27] @ ''A'' @ [CHR 0x27] @
               '' in memory '' @ [CHR 0x27] @ ''Scratch'' @ [CHR 0x27]))"
    using t5[rule_format,
        OF conjI[OF f1 conjI[OF f2 conjI[OF f3 conjI[OF f4 f5]]]], of "[ex_quot_i, ex_idx_i]" T_f32 0]
    by (simp add: ex_read_div_def ex_world_def ex_memory_def ex_A_def str_Sym_def)
  have g1: "self_envtyp ex_compiler ex_R = Some ex_R_type"
    by (simp add: ex_compiler_def ex_i_def ex_x_def ex_n_def ex_A_def ex_R_def ex_acc_def)
  have g2: "\<not> (is_indexable ex_R_type \<or> ex_R_type = T_bool \<or> ex_R_type = T_stride)"
    by (simp add: ex_R_type_def)
  have g3: "self_mems ex_compiler ex_R = Some CudaRmem" by (simp add: ex_defs)
  have g: "comp_e ex_world ex_read_R 0 ex_compiler = Inr (''R'', ex_compiler)"
    using t6[rule_format, OF conjI[OF g1 conjI[OF g2 g3]], of ex_world "[ex_idx_i]" T_f32 0]
    by (simp add: ex_read_R_def env_name_def ex_compiler_def ex_i_def ex_x_def ex_n_def ex_A_def
        ex_R_def ex_acc_def)
  have i1: "self_envtyp ex_compiler ex_i = Some T_index"
    by (simp add: ex_compiler_def ex_i_def ex_x_def ex_n_def ex_A_def ex_R_def ex_acc_def)
  have i2: "is_indexable T_index" by simp
  have i: "comp_e ex_world ex_idx_i 0 ex_compiler = Inr (''i'', ex_compiler)"
    using t7[rule_format, OF conjI[OF i1 disjI1[OF i2]], of ex_world "[]" T_index 0]
    by (simp add: ex_idx_i_def ex_compiler_def ex_i_def ex_x_def ex_n_def ex_A_def ex_R_def ex_acc_def)
  have r1: "self_envtyp ex_compiler_refs ex_acc = Some T_f32"
    and r2: "self_mems ex_compiler_refs ex_acc = Some DRAM"
    and r3: "ex_acc \<in> self_scalar_refs ex_compiler_refs"
    and r4: "self_envtyp ex_compiler_refs ex_D = Some T_f64"
    and r5: "self_mems ex_compiler_refs ex_D = Some DRAM"
    and r6: "ex_D \<notin> self_scalar_refs ex_compiler_refs"
    and r7: "self_envtyp ex_compiler_refs ex_W = Some ex_window_type"
    and r8: "self_mems ex_compiler_refs ex_W = Some DRAM"
    and r9: "ex_W \<notin> self_scalar_refs ex_compiler_refs"
    by (simp_all add: ex_compiler_refs_def ex_compiler_def ex_i_def ex_x_def ex_n_def ex_A_def ex_R_def
        ex_acc_def ex_W_def ex_D_def)
  have m1: "DRAM \<noteq> CudaRmem" by simp
  have m2: "can_read (memory_of ex_world DRAM)" by (simp add: ex_world_def ex_memory_def)
  have n32: "\<not> (is_indexable T_f32 \<or> T_f32 = T_bool \<or> T_f32 = T_stride)" by simp
  have n64: "\<not> (is_indexable T_f64 \<or> T_f64 = T_bool \<or> T_f64 = T_stride)" by simp
  have nw: "\<not> (is_indexable ex_window_type \<or> ex_window_type = T_bool \<or> ex_window_type = T_stride)"
    by (simp add: ex_window_type_def)
  have tw64: "\<not> is_tensor_or_window T_f64" by simp
  have tww: "is_tensor_or_window ex_window_type" by (simp add: ex_window_type_def)
  have isw: "is_win ex_window_type" by (simp add: ex_window_type_def)
  have nwa: "\<not> is_win ex_A_type" by (simp add: ex_A_type_def)
  have ra: "comp_e ex_world ex_read_acc 0 ex_compiler_refs = Inr (''*acc'', ex_compiler_refs)"
    using t8[rule_format, OF conjI[OF r1 conjI[OF n32 conjI[OF r2 conjI[OF m1 m2]]]], of "[]" T_f32 0] r3
    by (simp add: ex_read_acc_def ex_compiler_refs_def ex_i_def ex_x_def ex_n_def ex_A_def ex_R_def
        ex_acc_def ex_W_def ex_D_def)
  have rd: "comp_e ex_world ex_read_D 0 ex_compiler_refs = Inr (''D'', ex_compiler_refs)"
    using t8[rule_format, OF conjI[OF r4 conjI[OF n64 conjI[OF r5 conjI[OF m1 m2]]]], of "[]" T_f64 0] r6
    by (simp add: ex_read_D_def ex_compiler_refs_def ex_i_def ex_x_def ex_n_def ex_A_def ex_R_def
        ex_acc_def ex_W_def ex_D_def)
  have rw: "comp_e ex_world ex_read_W 0 ex_compiler_refs = Inr (''W.data[i * W.strides[0]]'', ex_compiler_refs)"
    using t8[rule_format, OF conjI[OF r7 conjI[OF nw conjI[OF r8 conjI[OF m1 m2]]]], of "[ex_idx_i]" T_f32 0]
      r9 tww ex_access_W
    by (simp add: ex_read_W_def)
  from t9[rule_format, OF ex_access_W] obtain tt cirs ie idx_s buf where
    x1: "self_envtyp ex_compiler_refs ex_W = Some tt"
    and x2: "chain_lookup (self_env ex_compiler_refs) ex_W = Some buf"
    and x3: "''W.data[i * W.strides[0]]'' = buf @ (if is_win tt then ''.data['' else ''['') @ idx_s @ '']''"
    by blast
  have x4: "tt = ex_window_type" using x1 r7 by simp
  have x5: "buf = ''W''" using x2
    by (simp add: ex_compiler_refs_def ex_i_def ex_x_def ex_n_def ex_A_def ex_R_def ex_acc_def ex_W_def
        ex_D_def)
  have xw: "\<exists>idx_s. ''W.data[i * W.strides[0]]'' = ''W'' @ ''.data['' @ idx_s @ '']''"
    using x3 isw unfolding x4 x5 by (intro exI[of _ idx_s]) simp
  from t9[rule_format, OF ex_access_A] obtain ta cirsa iea idx_sa bufa where
    y1: "self_envtyp ex_compiler ex_A = Some ta"
    and y2: "chain_lookup (self_env ex_compiler) ex_A = Some bufa"
    and y3: "''A[(i / 8) * 16 + i]'' = bufa @ (if is_win ta then ''.data['' else ''['') @ idx_sa @ '']''"
    by blast
  have y4: "ta = ex_A_type" using y1
    by (simp add: ex_compiler_def ex_i_def ex_x_def ex_n_def ex_A_def ex_R_def ex_acc_def)
  have y5: "bufa = ''A''" using y2
    by (simp add: ex_compiler_def ex_i_def ex_x_def ex_n_def ex_A_def ex_R_def ex_acc_def)
  have xa: "\<exists>idx_s. ''A[(i / 8) * 16 + i]'' = ''A'' @ ''['' @ idx_s @ '']''"
    using y3 nwa unfolding y4 y5 by (intro exI[of _ idx_sa]) simp
  have l1: "assign_lhs ex_world ex_acc [] ex_compiler_refs = Inr (''*acc'', ex_compiler_refs)"
    using t10[rule_format, of ex_world ex_acc "[]" ex_compiler_refs] r3
    by (simp add: ex_compiler_refs_def ex_i_def ex_x_def ex_n_def ex_A_def ex_R_def ex_acc_def ex_W_def
        ex_D_def)
  have l2: "assign_lhs ex_world ex_D [] ex_compiler_refs = Inr (''D'', ex_compiler_refs)"
    using t10[rule_format, of ex_world ex_D "[]" ex_compiler_refs] r6 r4
    by (simp add: ex_compiler_refs_def ex_i_def ex_x_def ex_n_def ex_A_def ex_R_def ex_acc_def ex_W_def
        ex_D_def)
  have l3: "assign_lhs ex_world ex_W [ex_idx_i] ex_compiler_refs =
        Inr (''W.data[i * W.strides[0]]'', ex_compiler_refs)"
    using t10[rule_format, of ex_world ex_W "[ex_idx_i]" ex_compiler_refs] r9 r7 ex_access_W
    by (simp add: ex_window_type_def)
  have k1: "assign_cast ex_world T_f64 ex_read_acc ''*acc'' = Inr ''(double)(*acc)''"
    using t11[rule_format, of ex_world T_f64 ex_read_acc "''*acc''"]
    by (simp add: ex_read_acc_def ex_world_def)
  have k2: "assign_cast ex_world T_f32 ex_read_acc ''*acc'' = Inr ''*acc''"
    using t11[rule_format, of ex_world T_f32 ex_read_acc "''*acc''"]
    by (simp add: ex_read_acc_def)
  have al: "add_line ''D = (double)(*acc);'' ex_compiler_refs =
        ex_compiler_refs\<lparr>self_lines := [''  D = (double)(*acc);'']\<rparr>"
    using t12[rule_format, of "''D = (double)(*acc);''" ex_compiler_refs]
    by (simp add: ex_compiler_refs_def ex_compiler_def)
  show ?thesis
    by (intro conjI)
       (rule ex_comp_assign a ex_comp_reduce b c d1 e1 f1 f2 f3 f4 f5 f g1 g2 g3 g i1 i2 i
          r1 r2 r3 r4 r5 r6 r7 r8 r9 m1 m2 tw64 tww isw nwa ra rd rw xw xa l1 l2 l3 k1 k2 al
          ex_comp_assign_cast ex_comp_reduce_ref)+
qed

end
